theory Spec2Isabelle
  imports Main
begin

section \<open>Values, errors and effects\<close>

text \<open>
  The services are TypeScript classes whose methods are asynchronous, talk to a
  relational store through a query client, and signal every failure by throwing. The
  embedding makes the store, the id generator and the clock an explicit state
  (\<open>world\<close>), a method a function from the state to a result and the next state, and a
  thrown exception the \<open>Inl\<close> branch of the result. The state survives an exception: the
  store has no rollback in these services, so what was written before a throw stays
  written. Calls of the logger are left out: they have no effect on results or on the
  store.
\<close>

datatype error =
    ReferenceError string
  | Error string
  | TypeError string
  | SyntaxError string

text \<open>JavaScript truthiness of an optional string: \<open>undefined\<close>, \<open>null\<close> and the empty
  string are falsy.\<close>

definition truthy :: "string option \<Rightarrow> bool" where
  "truthy v = (case v of None \<Rightarrow> False | Some s \<Rightarrow> s \<noteq> [])"

subsection \<open>Base64, as \<open>Buffer.from(s).toString('base64')\<close> computes it\<close>

definition b64_digit :: "nat \<Rightarrow> char" where
  "b64_digit n =
     (if n < 26 then char_of (n + 65)
      else if n < 52 then char_of (n + 71)
      else if n < 62 then char_of (n - 4)
      else if n = 62 then CHR ''+'' else CHR ''/'')"

fun toBase64_bytes :: "nat list \<Rightarrow> string" where
  "toBase64_bytes [] = []"
| "toBase64_bytes [a] =
     [b64_digit (a div 4), b64_digit ((a mod 4) * 16), CHR ''='', CHR ''='']"
| "toBase64_bytes [a, b] =
     [b64_digit (a div 4), b64_digit ((a mod 4) * 16 + b div 16),
      b64_digit ((b mod 16) * 4), CHR ''='']"
| "toBase64_bytes (a # b # c # rest) =
     [b64_digit (a div 4), b64_digit ((a mod 4) * 16 + b div 16),
      b64_digit ((b mod 16) * 4 + c div 64), b64_digit (c mod 64)] @ toBase64_bytes rest"

definition toBase64 :: "string \<Rightarrow> string" where
  "toBase64 s = toBase64_bytes (map of_char s)"

text \<open>
  Modelled from the spec: the cursor token is the base64 of the underlying record id and
  round-trips. No decoder stands in the services (they receive the cursor as a record
  id); \<open>fromBase64\<close> is the inverse reading of a token, as
  \<open>Buffer.from(t, 'base64').toString()\<close> computes it on a well-formed token.
\<close>

definition b64_value :: "char \<Rightarrow> nat" where
  "b64_value c =
     (let k = (of_char c :: nat) in
      if 65 \<le> k \<and> k \<le> 90 then k - 65
      else if 97 \<le> k \<and> k \<le> 122 then k - 71
      else if 48 \<le> k \<and> k \<le> 57 then k + 4
      else if c = CHR ''+'' then 62 else 63)"

fun fromBase64_bytes :: "string \<Rightarrow> nat list" where
  "fromBase64_bytes (w # x # y # z # rest) =
     (let p = b64_value w; q = b64_value x; r = b64_value y; s = b64_value z in
      if y = CHR ''='' then [p * 4 + q div 16]
      else if z = CHR ''='' then [p * 4 + q div 16, (q mod 16) * 16 + r div 4]
      else [p * 4 + q div 16, (q mod 16) * 16 + r div 4, (r mod 4) * 64 + s]
           @ fromBase64_bytes rest)"
| "fromBase64_bytes _ = []"

definition fromBase64 :: "string \<Rightarrow> string" where
  "fromBase64 t = map char_of (fromBase64_bytes t)"

subsection \<open>Rows of the store\<close>

text \<open>
  One record per table, with the columns the services read or write. A column name that
  several tables share carries the table's prefix, since record fields are global names.
  Timestamps are natural numbers.
\<close>

record linked_users_row =
  id_linked_user :: string
  lu_id_project :: string

record tcg_users_row =
  id_tcg_user :: string

record tcg_accounts_row =
  id_tcg_account :: string
  acc_name :: string
  acc_domains :: "string list"
  acc_remote_id :: "string option"
  acc_created_at :: nat
  acc_modified_at :: nat
  acc_id_connection :: string

record tcg_contacts_row =
  id_tcg_contact :: string
  con_email_address :: string
  con_name :: string
  con_details :: string
  con_phone_number :: string
  con_remote_id :: "string option"
  con_created_at :: nat
  con_modified_at :: nat
  con_id_connection :: string

record tcg_teams_row =
  id_tcg_team :: string
  team_name :: string
  team_description :: string
  team_remote_id :: "string option"
  team_created_at :: nat
  team_modified_at :: nat
  team_id_connection :: string

record tcg_attachments_row =
  id_tcg_attachment :: string
  att_file_name :: string
  att_file_url :: "string option"
  att_uploader :: string
  att_remote_id :: "string option"
  att_created_at :: nat
  att_modified_at :: nat
  att_id_connection :: string
  att_id_tcg_comment :: "string option"
  att_id_tcg_ticket :: "string option"

text \<open>\<open>saveOrUpdateTicket\<close> never writes \<open>created_at\<close>: a created ticket has the
  column unset (\<open>None\<close>) as far as these services go.\<close>

record tcg_tickets_row =
  id_tcg_ticket :: string
  tkt_name :: string
  tkt_status :: string
  tkt_priority :: string
  tkt_source :: string
  tkt_remote_id :: "string option"
  tkt_id_connection :: string
  tkt_created_at :: "nat option"
  tkt_modified_at :: nat

text \<open>A \<open>value\<close> row joined with its entity (\<open>ressource_owner_id\<close>) and its attribute
  (\<open>slug\<close>), as \<open>value.findMany\<close> with \<open>include: {attribute: true}\<close> returns it.\<close>

record value_row =
  val_ressource_owner_id :: string
  val_slug :: string
  val_data :: string

text \<open>
  The stored raw snapshot is a text that \<open>JSON.parse\<close> either reads as a value or
  rejects with a \<open>SyntaxError\<close>; the column is modelled by which of the two it is.
\<close>

datatype json_text = Parsable string | Unparsable string

record remote_data_row =
  rd_ressource_owner_id :: string
  rd_data :: json_text

record events_row =
  id_event :: string
  ev_id_connection :: string
  ev_id_project :: string
  ev_status :: string
  ev_type :: string
  ev_method :: string
  ev_url :: string
  ev_provider :: string
  ev_direction :: string
  ev_timestamp :: nat
  ev_id_linked_user :: string

subsection \<open>Canonical outputs\<close>

text \<open>A \<open>field_mappings\<close> value is an object keyed by slug (\<open>Object.fromEntries\<close>) or,
  in \<open>getAccounts\<close> only, an array of one-key objects (\<open>Array.from\<close>); both are kept as
  the ordered list of their entries.\<close>

datatype field_mappings = FmObject "(string \<times> string) list" | FmArray "(string \<times> string) list"

record unified_team_output =
  ut_id :: string
  ut_name :: string
  ut_description :: string
  ut_field_mappings :: field_mappings
  ut_remote_id :: "string option"
  ut_created_at :: nat
  ut_modified_at :: nat
  ut_remote_data :: "string option"

record unified_account_output =
  ua_id :: string
  ua_name :: string
  ua_domains :: "string list"
  ua_field_mappings :: field_mappings
  ua_remote_id :: "string option"
  ua_created_at :: nat
  ua_modified_at :: nat
  ua_remote_data :: "string option"

record unified_contact_output =
  uc_id :: string
  uc_email_address :: string
  uc_name :: string
  uc_details :: string
  uc_phone_number :: string
  uc_field_mappings :: field_mappings
  uc_remote_id :: "string option"
  uc_created_at :: nat
  uc_modified_at :: nat
  uc_remote_data :: "string option"

record unified_attachment_output =
  uat_id :: string
  uat_file_name :: string
  uat_file_url :: "string option"
  uat_uploader :: string
  uat_field_mappings :: field_mappings
  uat_remote_id :: "string option"
  uat_created_at :: nat
  uat_modified_at :: nat
  uat_comment_id :: "string option"
  uat_ticket_id :: "string option"
  uat_remote_data :: "string option"

text \<open>The fields of a unified ticket that \<open>saveOrUpdateTicket\<close> and \<open>addTicket\<close>
  read. \<open>remote_id\<close> may be absent (\<open>undefined\<close>): \<open>None\<close>.\<close>

record unified_ticket_output =
  uto_name :: string
  uto_status :: string
  uto_priority :: string
  uto_source :: string
  uto_remote_id :: "string option"
  uto_field_mappings :: field_mappings

subsection \<open>The state\<close>

text \<open>A call of the query client, as the log of the state records it: the table, and for
  a page read its \<open>take\<close> and \<open>cursor\<close>.\<close>

datatype db_call =
    FindUnique string
  | FindFirst string
  | FindMany string
  | FindPage string nat "string option"
  | Create string
  | Update string

datatype webhook_payload =
    TicketPayload unified_ticket_output
  | AttachmentPayload unified_attachment_output

record webhook_call =
  wh_data :: webhook_payload
  wh_type :: string
  wh_project :: string
  wh_event :: string

text \<open>
  \<open>uuid_gen\<close> and \<open>clock\<close> are what \<open>uuidv4()\<close> and \<open>new Date()\<close> return at their
  successive calls; \<open>calls\<close> is the log of the queries sent to the store, \<open>webhooks\<close>
  the notifications handed to the webhook fan-out.
\<close>

record world =
  linked_users :: "linked_users_row list"
  tcg_users :: "tcg_users_row list"
  tcg_accounts :: "tcg_accounts_row list"
  tcg_contacts :: "tcg_contacts_row list"
  tcg_teams :: "tcg_teams_row list"
  tcg_attachments :: "tcg_attachments_row list"
  tcg_tickets :: "tcg_tickets_row list"
  value_tbl :: "value_row list"
  remote_data_tbl :: "remote_data_row list"
  events :: "events_row list"
  webhooks :: "webhook_call list"
  calls :: "db_call list"
  uuid_gen :: "nat \<Rightarrow> string"
  uuid_ctr :: nat
  clock :: "nat \<Rightarrow> nat"
  clock_ctr :: nat

type_synonym 'a io = "world \<Rightarrow> (error + 'a) \<times> world"

definition returnE :: "'a \<Rightarrow> 'a io" where
  "returnE x = (\<lambda>w. (Inr x, w))"

definition throwE :: "error \<Rightarrow> 'a io" where
  "throwE e = (\<lambda>w. (Inl e, w))"

definition bindE :: "'a io \<Rightarrow> ('a \<Rightarrow> 'b io) \<Rightarrow> 'b io" where
  "bindE m f = (\<lambda>w. case m w of (Inl e, w') \<Rightarrow> (Inl e, w') | (Inr x, w') \<Rightarrow> f x w')"

definition db_read :: "db_call \<Rightarrow> (world \<Rightarrow> 'a) \<Rightarrow> 'a io" where
  "db_read c f = (\<lambda>w. (Inr (f w), w\<lparr>calls := calls w @ [c]\<rparr>))"

definition db_write :: "db_call \<Rightarrow> (world \<Rightarrow> world) \<Rightarrow> unit io" where
  "db_write c f = (\<lambda>w. (Inr (), (f w)\<lparr>calls := calls w @ [c]\<rparr>))"

definition uuidv4 :: "string io" where
  "uuidv4 = (\<lambda>w. (Inr (uuid_gen w (uuid_ctr w)), w\<lparr>uuid_ctr := Suc (uuid_ctr w)\<rparr>))"

definition new_Date :: "nat io" where
  "new_Date = (\<lambda>w. (Inr (clock w (clock_ctr w)), w\<lparr>clock_ctr := Suc (clock_ctr w)\<rparr>))"

text \<open>\<open>Promise.all(xs.map(async ...))\<close>: every callback is started, so every query is
  sent whatever the others answer; the results come back in the order of \<open>xs\<close>, and the
  call throws when a callback has thrown (here: the first in the order of \<open>xs\<close>).\<close>

fun promise_all :: "('a \<Rightarrow> 'b io) \<Rightarrow> 'a list \<Rightarrow> 'b list io" where
  "promise_all f [] = returnE []"
| "promise_all f (x # xs) =
     (\<lambda>w. case f x w of
        (Inl e, w') \<Rightarrow> (Inl e, snd (promise_all f xs w'))
      | (Inr y, w') \<Rightarrow>
          (case promise_all f xs w' of
             (Inl e, w'') \<Rightarrow> (Inl e, w'')
           | (Inr ys, w'') \<Rightarrow> (Inr (y # ys), w'')))"

subsection \<open>The query client\<close>

text \<open>
  The store is an external collaborator; its queries are modelled as the services use
  them. A table is the list of its rows. \<open>findUnique\<close> and \<open>findFirst\<close> return the
  first row that satisfies the \<open>where\<close> clause. A page read
  (\<open>findMany\<close> with \<open>take\<close>, \<open>cursor\<close>, \<open>orderBy: {created_at: 'asc'}\<close> and \<open>where\<close>)
  orders the rows of the \<open>where\<close> clause by \<open>created_at\<close> (rows of equal time stay
  in the order of the table), starts at the row of the cursor when a cursor is given
  (the rows before it are skipped; no row is left when none of them has the cursor's
  id), and returns the first \<open>take\<close> of them.
\<close>

definition findMany_page ::
  "('r \<Rightarrow> string) \<Rightarrow> ('r \<Rightarrow> nat) \<Rightarrow> ('r \<Rightarrow> bool) \<Rightarrow> nat \<Rightarrow> string option \<Rightarrow> 'r list \<Rightarrow> 'r list" where
  "findMany_page idf createdf wheref tk cursor rows =
     (let ordered = sort_key createdf (filter wheref rows) in
      case cursor of
        None \<Rightarrow> take tk ordered
      | Some c \<Rightarrow> take tk (dropWhile (\<lambda>r. idf r \<noteq> c) ordered))"

definition value_findMany :: "string \<Rightarrow> value_row list io" where
  "value_findMany owner =
     db_read (FindMany ''value'')
       (\<lambda>w. filter (\<lambda>v. val_ressource_owner_id v = owner) (value_tbl w))"

definition remote_data_findFirst :: "string \<Rightarrow> remote_data_row option io" where
  "remote_data_findFirst owner =
     db_read (FindFirst ''remote_data'')
       (\<lambda>w. find (\<lambda>r. rd_ressource_owner_id r = owner) (remote_data_tbl w))"

text \<open>\<open>JSON.parse(resp.data)\<close>: reading \<open>data\<close> of a missing snapshot (\<open>resp\<close> is
  \<open>null\<close>) throws a \<open>TypeError\<close>; a text that is not JSON throws a \<open>SyntaxError\<close>.\<close>

definition JSON_parse_data :: "remote_data_row option \<Rightarrow> string io" where
  "JSON_parse_data resp =
     (case resp of
        None \<Rightarrow> throwE (TypeError ''Cannot read properties of null (reading data)'')
      | Some r \<Rightarrow>
          (case rd_data r of
             Parsable v \<Rightarrow> returnE v
           | Unparsable t \<Rightarrow> throwE (SyntaxError t)))"

text \<open>\<open>fieldMappingsMap.set(slug, data)\<close> for every value, in order: a \<open>Map\<close> keeps a key
  at the place of its first insertion and the value of its last.\<close>

fun map_set :: "string \<Rightarrow> string \<Rightarrow> (string \<times> string) list \<Rightarrow> (string \<times> string) list" where
  "map_set k v [] = [(k, v)]"
| "map_set k v ((k', v') # m) = (if k' = k then (k, v) # m else (k', v') # map_set k v m)"

definition fieldMappingsMap :: "value_row list \<Rightarrow> (string \<times> string) list" where
  "fieldMappingsMap vals = foldl (\<lambda>m v. map_set (val_slug v) (val_data v) m) [] vals"

text \<open>\<open>prisma.events.create\<close> with a fresh \<open>id_event\<close> and the current time.\<close>

definition events_create ::
  "string \<Rightarrow> string \<Rightarrow> string \<Rightarrow> string \<Rightarrow> string \<Rightarrow> string \<Rightarrow> string \<Rightarrow> string
     \<Rightarrow> events_row io" where
  "events_create connection_id project_id status type method url provider linkedUserId =
     bindE uuidv4 (\<lambda>eid.
     bindE new_Date (\<lambda>ts.
       let ev = \<lparr>id_event = eid, ev_id_connection = connection_id,
                 ev_id_project = project_id, ev_status = status, ev_type = type,
                 ev_method = method, ev_url = url, ev_provider = provider,
                 ev_direction = ''0'', ev_timestamp = ts,
                 ev_id_linked_user = linkedUserId\<rparr> in
       bindE (db_write (Create ''events'') (\<lambda>w. w\<lparr>events := events w @ [ev]\<rparr>)) (\<lambda>_.
       returnE ev)))"


text \<open>The cursor a list method works with: a falsy \<open>cursor\<close> (absent or empty) is no
  cursor.\<close>

definition cursor_arg :: "string option \<Rightarrow> string option" where
  "cursor_arg cursor = (if truthy cursor then cursor else None)"

record 'a list_result =
  data :: "'a list"
  prev_cursor :: "string option"
  next_cursor :: "string option"

section \<open>TeamService\<close>

definition getTeam ::
  "string \<Rightarrow> string \<Rightarrow> string \<Rightarrow> string \<Rightarrow> string \<Rightarrow> bool \<Rightarrow> unified_team_output io" where
  "getTeam id_ticketing_team linkedUserId integrationId connection_id project_id remote_data =
     bindE (db_read (FindUnique ''tcg_teams'')
              (\<lambda>w. find (\<lambda>r. id_tcg_team r = id_ticketing_team) (tcg_teams w))) (\<lambda>team.
     case team of
       None \<Rightarrow> throwE (Error (''Team with id '' @ id_ticketing_team @ '' not found''))
     | Some team \<Rightarrow>
         bindE (value_findMany (id_tcg_team team)) (\<lambda>values.
         let unifiedTeam =
               \<lparr>ut_id = id_tcg_team team, ut_name = team_name team,
                ut_description = team_description team,
                ut_field_mappings = FmObject (fieldMappingsMap values),
                ut_remote_id = team_remote_id team,
                ut_created_at = team_created_at team,
                ut_modified_at = team_modified_at team,
                ut_remote_data = None\<rparr> in
         bindE (if remote_data then
                  bindE (remote_data_findFirst (id_tcg_team team)) (\<lambda>resp.
                  bindE (JSON_parse_data resp) (\<lambda>parsed.
                  returnE (unifiedTeam\<lparr>ut_remote_data := Some parsed\<rparr>)))
                else returnE unifiedTeam) (\<lambda>unifiedTeam.
         bindE (events_create connection_id project_id ''success'' ''ticketing.team.pull''
                  ''GET'' ''/ticketing/team'' integrationId linkedUserId) (\<lambda>_.
         returnE unifiedTeam))))"

definition getTeams ::
  "string \<Rightarrow> string \<Rightarrow> string \<Rightarrow> string \<Rightarrow> nat \<Rightarrow> bool \<Rightarrow> string option
     \<Rightarrow> unified_team_output list_result io" where
  "getTeams connection_id project_id integrationId linkedUserId limit remote_data cursor =
     bindE (if truthy cursor then
              bindE (db_read (FindFirst ''tcg_teams'')
                       (\<lambda>w. find (\<lambda>r. team_id_connection r = connection_id
                                        \<and> Some (id_tcg_team r) = cursor) (tcg_teams w)))
                (\<lambda>isCursorPresent.
                   case isCursorPresent of
                     None \<Rightarrow> throwE (ReferenceError ''The provided cursor does not exist!'')
                   | Some _ \<Rightarrow> returnE ())
            else returnE ()) (\<lambda>_.
     bindE (db_read (FindPage ''tcg_teams'' (limit + 1) (cursor_arg cursor))
              (\<lambda>w. findMany_page id_tcg_team team_created_at
                      (\<lambda>r. team_id_connection r = connection_id)
                      (limit + 1) (cursor_arg cursor) (tcg_teams w))) (\<lambda>fetched.
     let next_cursor = (if length fetched = limit + 1
                        then Some (toBase64 (id_tcg_team (last fetched))) else None);
         teams = (if length fetched = limit + 1 then butlast fetched else fetched);
         prev_cursor = map_option toBase64 (cursor_arg cursor) in
     bindE (promise_all (\<lambda>team.
              bindE (value_findMany (id_tcg_team team)) (\<lambda>values.
              returnE
                \<lparr>ut_id = id_tcg_team team, ut_name = team_name team,
                 ut_description = team_description team,
                 ut_field_mappings = FmObject (fieldMappingsMap values),
                 ut_remote_id = team_remote_id team,
                 ut_created_at = team_created_at team,
                 ut_modified_at = team_modified_at team,
                 ut_remote_data = None\<rparr>)) teams) (\<lambda>unifiedTeams.
     bindE (if remote_data then
              promise_all (\<lambda>team.
                bindE (remote_data_findFirst (ut_id team)) (\<lambda>resp.
                bindE (JSON_parse_data resp) (\<lambda>parsed.
                returnE (team\<lparr>ut_remote_data := Some parsed\<rparr>)))) unifiedTeams
            else returnE unifiedTeams) (\<lambda>res.
     bindE (events_create connection_id project_id ''success'' ''ticketing.team.pull''
              ''GET'' ''/ticketing/teams'' integrationId linkedUserId) (\<lambda>_.
     returnE \<lparr>data = res, prev_cursor = prev_cursor, next_cursor = next_cursor\<rparr>)))))"

section \<open>ContactService\<close>

text \<open>\<open>getContact\<close> and \<open>getAccount\<close> only log a warning when the row is missing and
  go on to read \<open>contact.id_tcg_contact\<close>: on \<open>null\<close> that read throws a
  \<open>TypeError\<close>, before the next query is sent.\<close>

definition getContact ::
  "string \<Rightarrow> string \<Rightarrow> string \<Rightarrow> string \<Rightarrow> string \<Rightarrow> bool \<Rightarrow> unified_contact_output io" where
  "getContact id_ticketing_contact linkedUserId integrationId connection_id project_id
       remote_data =
     bindE (db_read (FindUnique ''tcg_contacts'')
              (\<lambda>w. find (\<lambda>r. id_tcg_contact r = id_ticketing_contact) (tcg_contacts w)))
       (\<lambda>contact.
     case contact of
       None \<Rightarrow>
         throwE (TypeError ''Cannot read properties of null (reading id_tcg_contact)'')
     | Some contact \<Rightarrow>
         bindE (value_findMany (id_tcg_contact contact)) (\<lambda>values.
         let unifiedContact =
               \<lparr>uc_id = id_tcg_contact contact,
                uc_email_address = con_email_address contact,
                uc_name = con_name contact, uc_details = con_details contact,
                uc_phone_number = con_phone_number contact,
                uc_field_mappings = FmObject (fieldMappingsMap values),
                uc_remote_id = con_remote_id contact,
                uc_created_at = con_created_at contact,
                uc_modified_at = con_modified_at contact,
                uc_remote_data = None\<rparr> in
         bindE (if remote_data then
                  bindE (remote_data_findFirst (id_tcg_contact contact)) (\<lambda>resp.
                  bindE (JSON_parse_data resp) (\<lambda>parsed.
                  returnE (unifiedContact\<lparr>uc_remote_data := Some parsed\<rparr>)))
                else returnE unifiedContact) (\<lambda>unifiedContact.
         bindE (events_create connection_id project_id ''success''
                  ''ticketing.contact.pull'' ''GET'' ''/ticketing/contact''
                  integrationId linkedUserId) (\<lambda>_.
         returnE unifiedContact))))"

definition getContacts ::
  "string \<Rightarrow> string \<Rightarrow> string \<Rightarrow> string \<Rightarrow> nat \<Rightarrow> bool \<Rightarrow> string option
     \<Rightarrow> unified_contact_output list_result io" where
  "getContacts connection_id project_id integrationId linkedUserId limit remote_data cursor =
     bindE (if truthy cursor then
              bindE (db_read (FindFirst ''tcg_contacts'')
                       (\<lambda>w. find (\<lambda>r. con_id_connection r = connection_id
                                        \<and> Some (id_tcg_contact r) = cursor) (tcg_contacts w)))
                (\<lambda>isCursorPresent.
                   case isCursorPresent of
                     None \<Rightarrow> throwE (ReferenceError ''The provided cursor does not exist!'')
                   | Some _ \<Rightarrow> returnE ())
            else returnE ()) (\<lambda>_.
     bindE (db_read (FindPage ''tcg_contacts'' (limit + 1) (cursor_arg cursor))
              (\<lambda>w. findMany_page id_tcg_contact con_created_at
                      (\<lambda>r. con_id_connection r = connection_id)
                      (limit + 1) (cursor_arg cursor) (tcg_contacts w))) (\<lambda>fetched.
     let next_cursor = (if length fetched = limit + 1
                        then Some (toBase64 (id_tcg_contact (last fetched))) else None);
         contacts = (if length fetched = limit + 1 then butlast fetched else fetched);
         prev_cursor = map_option toBase64 (cursor_arg cursor) in
     bindE (promise_all (\<lambda>contact.
              bindE (value_findMany (id_tcg_contact contact)) (\<lambda>values.
              returnE
                \<lparr>uc_id = id_tcg_contact contact,
                 uc_email_address = con_email_address contact,
                 uc_name = con_name contact, uc_details = con_details contact,
                 uc_phone_number = con_phone_number contact,
                 uc_field_mappings = FmObject (fieldMappingsMap values),
                 uc_remote_id = con_remote_id contact,
                 uc_created_at = con_created_at contact,
                 uc_modified_at = con_modified_at contact,
                 uc_remote_data = None\<rparr>)) contacts) (\<lambda>unifiedContacts.
     bindE (if remote_data then
              promise_all (\<lambda>contact.
                bindE (remote_data_findFirst (uc_id contact)) (\<lambda>resp.
                bindE (JSON_parse_data resp) (\<lambda>parsed.
                returnE (contact\<lparr>uc_remote_data := Some parsed\<rparr>)))) unifiedContacts
            else returnE unifiedContacts) (\<lambda>res.
     bindE (events_create connection_id project_id ''success'' ''ticketing.contact.pull''
              ''GET'' ''/ticketing/contacts'' integrationId linkedUserId) (\<lambda>_.
     returnE \<lparr>data = res, prev_cursor = prev_cursor, next_cursor = next_cursor\<rparr>)))))"

section \<open>AccountService\<close>

definition getAccount ::
  "string \<Rightarrow> string \<Rightarrow> string \<Rightarrow> string \<Rightarrow> string \<Rightarrow> bool \<Rightarrow> unified_account_output io" where
  "getAccount id_ticketing_account integrationId linkedUserId connection_id project_id
       remote_data =
     bindE (db_read (FindUnique ''tcg_accounts'')
              (\<lambda>w. find (\<lambda>r. id_tcg_account r = id_ticketing_account) (tcg_accounts w)))
       (\<lambda>account.
     case account of
       None \<Rightarrow>
         throwE (TypeError ''Cannot read properties of null (reading id_tcg_account)'')
     | Some account \<Rightarrow>
         bindE (value_findMany (id_tcg_account account)) (\<lambda>values.
         let unifiedAccount =
               \<lparr>ua_id = id_tcg_account account, ua_name = acc_name account,
                ua_domains = acc_domains account,
                ua_field_mappings = FmObject (fieldMappingsMap values),
                ua_remote_id = acc_remote_id account,
                ua_created_at = acc_created_at account,
                ua_modified_at = acc_modified_at account,
                ua_remote_data = None\<rparr> in
         bindE (if remote_data then
                  bindE (remote_data_findFirst (id_tcg_account account)) (\<lambda>resp.
                  bindE (JSON_parse_data resp) (\<lambda>parsed.
                  returnE (unifiedAccount\<lparr>ua_remote_data := Some parsed\<rparr>)))
                else returnE unifiedAccount) (\<lambda>res.
         bindE (events_create connection_id project_id ''success''
                  ''ticketing.account.pull'' ''GET'' ''/ticketing/account''
                  integrationId linkedUserId) (\<lambda>_.
         returnE res))))"

definition getAccounts ::
  "string \<Rightarrow> string \<Rightarrow> string \<Rightarrow> string \<Rightarrow> nat \<Rightarrow> bool \<Rightarrow> string option
     \<Rightarrow> unified_account_output list_result io" where
  "getAccounts connection_id project_id integrationId linkedUserId limit remote_data cursor =
     bindE (if truthy cursor then
              bindE (db_read (FindFirst ''tcg_accounts'')
                       (\<lambda>w. find (\<lambda>r. acc_id_connection r = connection_id
                                        \<and> Some (id_tcg_account r) = cursor) (tcg_accounts w)))
                (\<lambda>isCursorPresent.
                   case isCursorPresent of
                     None \<Rightarrow> throwE (ReferenceError ''The provided cursor does not exist!'')
                   | Some _ \<Rightarrow> returnE ())
            else returnE ()) (\<lambda>_.
     bindE (db_read (FindPage ''tcg_accounts'' (limit + 1) (cursor_arg cursor))
              (\<lambda>w. findMany_page id_tcg_account acc_created_at
                      (\<lambda>r. acc_id_connection r = connection_id)
                      (limit + 1) (cursor_arg cursor) (tcg_accounts w))) (\<lambda>fetched.
     let next_cursor = (if length fetched = limit + 1
                        then Some (toBase64 (id_tcg_account (last fetched))) else None);
         accounts = (if length fetched = limit + 1 then butlast fetched else fetched);
         prev_cursor = map_option toBase64 (cursor_arg cursor) in
     bindE (promise_all (\<lambda>account.
              bindE (value_findMany (id_tcg_account account)) (\<lambda>values.
              returnE
                \<lparr>ua_id = id_tcg_account account, ua_name = acc_name account,
                 ua_domains = acc_domains account,
                 ua_field_mappings = FmArray (fieldMappingsMap values),
                 ua_remote_id = acc_remote_id account,
                 ua_created_at = acc_created_at account,
                 ua_modified_at = acc_modified_at account,
                 ua_remote_data = None\<rparr>)) accounts) (\<lambda>unifiedAccounts.
     bindE (if remote_data then
              promise_all (\<lambda>account.
                bindE (remote_data_findFirst (ua_id account)) (\<lambda>resp.
                bindE (JSON_parse_data resp) (\<lambda>parsed.
                returnE (account\<lparr>ua_remote_data := Some parsed\<rparr>)))) unifiedAccounts
            else returnE unifiedAccounts) (\<lambda>res.
     bindE (events_create connection_id project_id ''success'' ''ticketing.account.pull''
              ''GET'' ''/ticketing/accounts'' integrationId linkedUserId) (\<lambda>_.
     returnE \<lparr>data = res, prev_cursor = prev_cursor, next_cursor = next_cursor\<rparr>)))))"


section \<open>AttachmentService\<close>

text \<open>
  The webhook fan-out is an external collaborator. \<open>outcome\<close> says, for a notification,
  whether handing it over throws (\<open>Some e\<close>) or not; a notification handed over is
  recorded in \<open>webhooks\<close>. The method awaits the call, so what it throws is thrown on.
\<close>

definition dispatchWebhook ::
  "(webhook_call \<Rightarrow> error option) \<Rightarrow> webhook_payload \<Rightarrow> string \<Rightarrow> string \<Rightarrow> string \<Rightarrow> unit io" where
  "dispatchWebhook outcome payload type project event =
     (let c = \<lparr>wh_data = payload, wh_type = type, wh_project = project, wh_event = event\<rparr> in
      case outcome c of
        Some e \<Rightarrow> throwE e
      | None \<Rightarrow> (\<lambda>w. (Inr (), w\<lparr>webhooks := webhooks w @ [c]\<rparr>)))"

text \<open>The one field of \<open>UnifiedTicketingAttachmentInput\<close> that \<open>addAttachment\<close> reads.\<close>

record unified_attachment_input =
  uai_file_name :: string

definition getAttachment ::
  "string \<Rightarrow> string option \<Rightarrow> string option \<Rightarrow> string \<Rightarrow> string \<Rightarrow> bool
     \<Rightarrow> unified_attachment_output io" where
  "getAttachment id_ticketing_attachment linkedUserId integrationId connection_id project_id
       remote_data =
     bindE (db_read (FindUnique ''tcg_attachments'')
              (\<lambda>w. find (\<lambda>r. id_tcg_attachment r = id_ticketing_attachment)
                      (tcg_attachments w))) (\<lambda>attachment.
     case attachment of
       None \<Rightarrow> throwE (ReferenceError ''Attachment not found'')
     | Some attachment \<Rightarrow>
         bindE (value_findMany (id_tcg_attachment attachment)) (\<lambda>values.
         let unifiedAttachment =
               \<lparr>uat_id = id_tcg_attachment attachment,
                uat_file_name = att_file_name attachment,
                uat_file_url = att_file_url attachment,
                uat_uploader = att_uploader attachment,
                uat_field_mappings = FmObject (fieldMappingsMap values),
                uat_remote_id = att_remote_id attachment,
                uat_created_at = att_created_at attachment,
                uat_modified_at = att_modified_at attachment,
                uat_comment_id =
                  (if truthy (att_id_tcg_comment attachment)
                   then att_id_tcg_comment attachment else None),
                uat_ticket_id =
                  (if truthy (att_id_tcg_ticket attachment)
                   then att_id_tcg_ticket attachment else None),
                uat_remote_data = None\<rparr> in
         bindE (if remote_data then
                  bindE (remote_data_findFirst (id_tcg_attachment attachment)) (\<lambda>resp.
                  bindE (JSON_parse_data resp) (\<lambda>remoteData.
                  returnE (unifiedAttachment\<lparr>uat_remote_data := Some remoteData\<rparr>)))
                else returnE unifiedAttachment) (\<lambda>res.
         bindE (case (linkedUserId, integrationId) of
                  (Some l, Some i) \<Rightarrow>
                    if l \<noteq> [] \<and> i \<noteq> [] then
                      bindE (events_create connection_id project_id ''success''
                               ''ticketing.attachment.pull'' ''GET''
                               ''/ticketing/attachment'' i l) (\<lambda>_. returnE ())
                    else returnE ()
                | _ \<Rightarrow> returnE ()) (\<lambda>_.
         returnE res))))"

definition addAttachment ::
  "(webhook_call \<Rightarrow> error option) \<Rightarrow> unified_attachment_input \<Rightarrow> string \<Rightarrow> string \<Rightarrow> string
     \<Rightarrow> string \<Rightarrow> bool \<Rightarrow> unified_attachment_output io" where
  "addAttachment outcome unifiedAttachmentData connection_id integrationId linkedUserId
       project_id remote_data =
     bindE (db_read (FindUnique ''linked_users'')
              (\<lambda>w. find (\<lambda>u. id_linked_user u = linkedUserId) (linked_users w)))
       (\<lambda>linkedUser.
     case linkedUser of
       None \<Rightarrow> throwE (ReferenceError ''Linked User Not Found'')
     | Some linkedUser \<Rightarrow>
         bindE (db_read (FindFirst ''tcg_attachments'')
                  (\<lambda>w. find (\<lambda>r. att_file_name r = uai_file_name unifiedAttachmentData
                                   \<and> att_id_connection r = connection_id)
                          (tcg_attachments w))) (\<lambda>existingAttachment.
         bindE (case existingAttachment of
                  Some existingAttachment \<Rightarrow>
                    bindE new_Date (\<lambda>now.
                    bindE (db_write (Update ''tcg_attachments'')
                             (\<lambda>w. w\<lparr>tcg_attachments :=
                                map (\<lambda>r. if id_tcg_attachment r
                                              = id_tcg_attachment existingAttachment
                                          then r\<lparr>att_file_name :=
                                                   uai_file_name unifiedAttachmentData,
                                                 att_uploader := linkedUserId,
                                                 att_modified_at := now\<rparr>
                                          else r) (tcg_attachments w)\<rparr>)) (\<lambda>_.
                    returnE (id_tcg_attachment existingAttachment)))
                | None \<Rightarrow>
                    bindE uuidv4 (\<lambda>uid.
                    bindE new_Date (\<lambda>created.
                    bindE new_Date (\<lambda>modified.
                    let data = \<lparr>id_tcg_attachment = uid,
                                att_file_name = uai_file_name unifiedAttachmentData,
                                att_file_url = None, att_uploader = linkedUserId,
                                att_remote_id = None, att_created_at = created,
                                att_modified_at = modified,
                                att_id_connection = connection_id,
                                att_id_tcg_comment = None, att_id_tcg_ticket = None\<rparr> in
                    bindE (db_write (Create ''tcg_attachments'')
                             (\<lambda>w. w\<lparr>tcg_attachments := tcg_attachments w @ [data]\<rparr>)) (\<lambda>_.
                    returnE (id_tcg_attachment data))))))
           (\<lambda>unique_ticketing_attachment_id.
         bindE (getAttachment unique_ticketing_attachment_id None None connection_id
                  project_id remote_data) (\<lambda>result_attachment.
         bindE (events_create connection_id project_id ''success''
                  ''ticketing.attachment.push'' ''POST'' ''/ticketing/attachments''
                  integrationId linkedUserId) (\<lambda>event.
         bindE (dispatchWebhook outcome (AttachmentPayload result_attachment)
                  ''ticketing.attachment.created'' (lu_id_project linkedUser)
                  (id_event event)) (\<lambda>_.
         returnE result_attachment))))))"

definition getAttachments ::
  "string \<Rightarrow> string \<Rightarrow> string \<Rightarrow> string \<Rightarrow> nat \<Rightarrow> bool \<Rightarrow> string option
     \<Rightarrow> unified_attachment_output list_result io" where
  "getAttachments connection_id project_id integrationId linkedUserId limit remote_data
       cursor =
     bindE (if truthy cursor then
              bindE (db_read (FindFirst ''tcg_attachments'')
                       (\<lambda>w. find (\<lambda>r. att_id_connection r = connection_id
                                        \<and> Some (id_tcg_attachment r) = cursor)
                               (tcg_attachments w)))
                (\<lambda>isCursorPresent.
                   case isCursorPresent of
                     None \<Rightarrow> throwE (ReferenceError ''The provided cursor does not exist!'')
                   | Some _ \<Rightarrow> returnE ())
            else returnE ()) (\<lambda>_.
     bindE (db_read (FindPage ''tcg_attachments'' (limit + 1) (cursor_arg cursor))
              (\<lambda>w. findMany_page id_tcg_attachment att_created_at
                      (\<lambda>r. att_id_connection r = connection_id)
                      (limit + 1) (cursor_arg cursor) (tcg_attachments w))) (\<lambda>fetched.
     let next_cursor = (if length fetched = limit + 1
                        then Some (toBase64 (id_tcg_attachment (last fetched))) else None);
         attachments = (if length fetched = limit + 1 then butlast fetched else fetched);
         prev_cursor = map_option toBase64 (cursor_arg cursor) in
     bindE (promise_all (\<lambda>attachment.
              bindE (value_findMany (id_tcg_attachment attachment)) (\<lambda>values.
              returnE
                \<lparr>uat_id = id_tcg_attachment attachment,
                 uat_file_name = att_file_name attachment,
                 uat_file_url = att_file_url attachment,
                 uat_uploader = att_uploader attachment,
                 uat_field_mappings = FmObject (fieldMappingsMap values),
                 uat_remote_id = att_remote_id attachment,
                 uat_created_at = att_created_at attachment,
                 uat_modified_at = att_modified_at attachment,
                 uat_comment_id =
                   (if truthy (att_id_tcg_comment attachment)
                    then att_id_tcg_comment attachment else None),
                 uat_ticket_id =
                   (if truthy (att_id_tcg_ticket attachment)
                    then att_id_tcg_ticket attachment else None),
                 uat_remote_data = None\<rparr>)) attachments) (\<lambda>unifiedAttachments.
     bindE (if remote_data then
              promise_all (\<lambda>attachment.
                bindE (remote_data_findFirst (uat_id attachment)) (\<lambda>resp.
                bindE (JSON_parse_data resp) (\<lambda>parsed.
                returnE (attachment\<lparr>uat_remote_data := Some parsed\<rparr>)))) unifiedAttachments
            else returnE unifiedAttachments) (\<lambda>res.
     bindE (events_create connection_id project_id ''success''
              ''ticketing.attachment.pull'' ''GET'' ''/ticketing/attachments''
              integrationId linkedUserId) (\<lambda>_.
     returnE \<lparr>data = unifiedAttachments, prev_cursor = prev_cursor,
              next_cursor = next_cursor\<rparr>)))))"


section \<open>TicketService\<close>

text \<open>An element of the \<open>attachments\<close> array of a ticket input: the id of a stored
  attachment (a string) or a raw attachment payload (an object).\<close>

datatype attachment_ref = AttachmentId string | AttachmentObject string

text \<open>The fields of \<open>UnifiedTicketingTicketInput\<close> that \<open>addTicket\<close> reads; the input
  as a whole goes to the unification engine.\<close>

record unified_ticket_input =
  uti_account_id :: "string option"
  uti_contact_id :: "string option"
  uti_assigned_to :: "string list option"
  uti_attachments :: "attachment_ref list option"
  uti_field_mappings :: "field_mappings option"

record 'o api_response =
  resp_data :: 'o
  statusCode :: nat

text \<open>
  The collaborators of \<open>addTicket\<close> whose code is not in these files, as parameters: the
  field-mapping service, the unification engine (\<open>desunify\<close>, \<open>unify\<close>), the provider's
  connector behind the service registry (\<open>service_addTicket\<close>), the ingest service, the
  attachment sync service (\<open>saveToDb\<close>) and the outcome of the webhook fan-out. Each
  may throw and may change the state. \<open>'m\<close> is a
  custom field mapping, \<open>'d\<close> a provider payload, \<open>'o\<close> a provider's ticket.
\<close>

record ('m, 'd, 'o) collaborators =
  getCustomFieldMappings :: "string \<Rightarrow> string \<Rightarrow> string \<Rightarrow> 'm list io"
  desunify :: "unified_ticket_input \<Rightarrow> string \<Rightarrow> string \<Rightarrow> 'm list \<Rightarrow> 'd io"
  service_addTicket :: "string \<Rightarrow> 'd \<Rightarrow> string \<Rightarrow> 'o api_response io"
  unify :: "'o list \<Rightarrow> string \<Rightarrow> string \<Rightarrow> 'm list \<Rightarrow> unified_ticket_output list io"
  processFieldMappings :: "field_mappings \<Rightarrow> string \<Rightarrow> string \<Rightarrow> string \<Rightarrow> unit io"
  processRemoteData :: "string \<Rightarrow> 'o \<Rightarrow> unit io"
  saveToDb :: "string \<Rightarrow> string \<Rightarrow> attachment_ref list \<Rightarrow> string \<Rightarrow> tcg_attachments_row list io"
  webhook_outcome :: "webhook_call \<Rightarrow> error option"

definition validateLinkedUser :: "string \<Rightarrow> linked_users_row io" where
  "validateLinkedUser linkedUserId =
     bindE (db_read (FindUnique ''linked_users'')
              (\<lambda>w. find (\<lambda>u. id_linked_user u = linkedUserId) (linked_users w)))
       (\<lambda>linkedUser.
     case linkedUser of
       None \<Rightarrow> throwE (ReferenceError ''Linked User Not Found'')
     | Some linkedUser \<Rightarrow> returnE linkedUser)"

definition validateAccountId :: "string option \<Rightarrow> unit io" where
  "validateAccountId accountId =
     (if truthy accountId then
        bindE (db_read (FindUnique ''tcg_accounts'')
                 (\<lambda>w. find (\<lambda>r. Some (id_tcg_account r) = accountId) (tcg_accounts w)))
          (\<lambda>account.
        case account of
          None \<Rightarrow> throwE (ReferenceError ''You inserted an account_id which does not exist'')
        | Some _ \<Rightarrow> returnE ())
      else returnE ())"

definition validateContactId :: "string option \<Rightarrow> unit io" where
  "validateContactId contactId =
     (if truthy contactId then
        bindE (db_read (FindUnique ''tcg_contacts'')
                 (\<lambda>w. find (\<lambda>r. Some (id_tcg_contact r) = contactId) (tcg_contacts w)))
          (\<lambda>contact.
        case contact of
          None \<Rightarrow> throwE (ReferenceError ''You inserted a contact_id which does not exist'')
        | Some _ \<Rightarrow> returnE ())
      else returnE ())"

definition validateAssignees :: "string list option \<Rightarrow> unit io" where
  "validateAssignees assignees =
     (case assignees of
        None \<Rightarrow> returnE ()
      | Some assignees \<Rightarrow>
          if length assignees > 0 then
            bindE (promise_all (\<lambda>assignee.
                     bindE (db_read (FindUnique ''tcg_users'')
                              (\<lambda>w. find (\<lambda>u. id_tcg_user u = assignee) (tcg_users w)))
                       (\<lambda>user.
                     case user of
                       None \<Rightarrow> throwE (ReferenceError
                                  ''You inserted an assignee which does not exist'')
                     | Some _ \<Rightarrow> returnE ())) assignees) (\<lambda>_.
            returnE ())
          else returnE ())"

text \<open>\<open>processAttachments\<close> looks at the type of the first element only. In the branch
  of ids, an element that is not a string is no valid argument of \<open>findUnique\<close>: the
  query client throws.\<close>

definition processAttachments ::
  "('m, 'd, 'o) collaborators \<Rightarrow> attachment_ref list option \<Rightarrow> string \<Rightarrow> string \<Rightarrow> string
     \<Rightarrow> string list io" where
  "processAttachments env attachments connection_id linkedUserId integrationId =
     (case attachments of
        None \<Rightarrow> returnE []
      | Some [] \<Rightarrow> returnE []
      | Some (AttachmentId first # rest) \<Rightarrow>
          bindE (promise_all (\<lambda>a.
                   case a of
                     AttachmentId uuid \<Rightarrow>
                       bindE (db_read (FindUnique ''tcg_attachments'')
                                (\<lambda>w. find (\<lambda>r. id_tcg_attachment r = uuid)
                                        (tcg_attachments w))) (\<lambda>attachment.
                       case attachment of
                         None \<Rightarrow> throwE (ReferenceError
                                    ''You inserted an attachment_id which does not exist'')
                       | Some _ \<Rightarrow> returnE uuid)
                   | AttachmentObject _ \<Rightarrow>
                       throwE (Error ''Invalid prisma.tcg_attachments.findUnique() invocation''))
                   (AttachmentId first # rest)) (\<lambda>uuids.
          returnE uuids)
      | Some (AttachmentObject first # rest) \<Rightarrow>
          bindE (saveToDb env connection_id linkedUserId (AttachmentObject first # rest)
                   integrationId) (\<lambda>attchms_res.
          returnE (map id_tcg_attachment attchms_res)))"

text \<open>
  \<open>saveOrUpdateTicket\<close> builds one \<open>data\<close> object, with a fresh \<open>id_tcg_ticket\<close>, for
  both branches; the update writes all of it (with \<open>modified_at\<close> read again) to the
  row found, and returns the id the row had when it was found. \<open>id_tcg_ticket\<close> is the
  table's key: the update's \<open>where\<close> clause names at most one row. A field whose value
  is \<open>undefined\<close> drops out of a \<open>where\<close> clause and out of the \<open>data\<close> of an update:
  for a unified ticket without \<open>remote_id\<close> the lookup is by the connection alone, and
  the update leaves the remote id of the row as it is.
\<close>

definition saveOrUpdateTicket :: "unified_ticket_output \<Rightarrow> string \<Rightarrow> string io" where
  "saveOrUpdateTicket ticket connection_id =
     bindE (db_read (FindFirst ''tcg_tickets'')
              (\<lambda>w. find (\<lambda>r. (case uto_remote_id ticket of
                                  None \<Rightarrow> True
                                | Some remote_id \<Rightarrow> tkt_remote_id r = Some remote_id)
                               \<and> tkt_id_connection r = connection_id) (tcg_tickets w)))
       (\<lambda>existingTicket.
     bindE uuidv4 (\<lambda>data_id.
     bindE new_Date (\<lambda>data_modified_at.
     case existingTicket of
       Some existingTicket \<Rightarrow>
         bindE new_Date (\<lambda>modified_at.
         bindE (db_write (Update ''tcg_tickets'')
                  (\<lambda>w. w\<lparr>tcg_tickets :=
                     map (\<lambda>r. if id_tcg_ticket r = id_tcg_ticket existingTicket
                               then r\<lparr>id_tcg_ticket := data_id,
                                      tkt_modified_at := modified_at,
                                      tkt_name := uto_name ticket,
                                      tkt_status := uto_status ticket,
                                      tkt_priority := uto_priority ticket,
                                      tkt_source := uto_source ticket,
                                      tkt_remote_id :=
                                        (case uto_remote_id ticket of
                                           None \<Rightarrow> tkt_remote_id r
                                         | Some remote_id \<Rightarrow> Some remote_id),
                                      tkt_id_connection := connection_id\<rparr>
                               else r) (tcg_tickets w)\<rparr>)) (\<lambda>_.
         returnE (id_tcg_ticket existingTicket)))
     | None \<Rightarrow>
         (let data = \<lparr>id_tcg_ticket = data_id, tkt_name = uto_name ticket,
                      tkt_status = uto_status ticket, tkt_priority = uto_priority ticket,
                      tkt_source = uto_source ticket,
                      tkt_remote_id = uto_remote_id ticket,
                      tkt_id_connection = connection_id, tkt_created_at = None,
                      tkt_modified_at = data_modified_at\<rparr> in
          bindE (db_write (Create ''tcg_tickets'')
                   (\<lambda>w. w\<lparr>tcg_tickets := tcg_tickets w @ [data]\<rparr>)) (\<lambda>_.
          returnE (id_tcg_ticket data))))))"

text \<open>
  \<open>addTicket\<close> reads the ticket back with \<open>this.getTicket(...)\<close>, and the class
  \<open>TicketService\<close> defines no method of that name and extends no class: the property
  is \<open>undefined\<close>, and calling it throws a \<open>TypeError\<close>, which the \<open>catch\<close> block of
  \<open>addTicket\<close> throws on.
\<close>

definition getTicket :: "string \<Rightarrow> string \<Rightarrow> string \<Rightarrow> bool \<Rightarrow> unified_ticket_output io" where
  "getTicket id_ticketing_ticket connection_id project_id remote_data =
     throwE (TypeError ''this.getTicket is not a function'')"

definition addTicket ::
  "('m, 'd, 'o) collaborators \<Rightarrow> unified_ticket_input \<Rightarrow> string \<Rightarrow> string \<Rightarrow> string \<Rightarrow> string
     \<Rightarrow> bool \<Rightarrow> unified_ticket_output io" where
  "addTicket env unifiedTicketData connection_id integrationId linkedUserId project_id
       remote_data =
     bindE (validateLinkedUser linkedUserId) (\<lambda>linkedUser.
     bindE (validateAccountId (uti_account_id unifiedTicketData)) (\<lambda>_.
     bindE (validateContactId (uti_contact_id unifiedTicketData)) (\<lambda>_.
     bindE (validateAssignees (uti_assigned_to unifiedTicketData)) (\<lambda>_.
     bindE (processAttachments env (uti_attachments unifiedTicketData) connection_id
              linkedUserId integrationId) (\<lambda>attachment_ids.
     let unifiedTicketData =
           unifiedTicketData\<lparr>uti_attachments := Some (map AttachmentId attachment_ids)\<rparr> in
     bindE (getCustomFieldMappings env integrationId linkedUserId ''ticketing.ticket'')
       (\<lambda>customFieldMappings.
     bindE (desunify env unifiedTicketData integrationId connection_id
              (case uti_field_mappings unifiedTicketData of
                 Some _ \<Rightarrow> customFieldMappings
               | None \<Rightarrow> [])) (\<lambda>desunifiedObject.
     bindE (service_addTicket env integrationId desunifiedObject linkedUserId) (\<lambda>resp.
     bindE (unify env [resp_data resp] integrationId connection_id customFieldMappings)
       (\<lambda>unifiedObject.
     let source_ticket = resp_data resp in
     case unifiedObject of
       [] \<Rightarrow> throwE (TypeError ''Cannot read properties of undefined (reading remote_id)'')
     | target_ticket # _ \<Rightarrow>
         bindE (saveOrUpdateTicket target_ticket connection_id)
           (\<lambda>unique_ticketing_ticket_id.
         bindE (processFieldMappings env (uto_field_mappings target_ticket)
                  unique_ticketing_ticket_id integrationId linkedUserId) (\<lambda>_.
         bindE (processRemoteData env unique_ticketing_ticket_id source_ticket) (\<lambda>_.
         bindE (getTicket unique_ticketing_ticket_id connection_id project_id
                  remote_data) (\<lambda>result_ticket.
         let status_resp = (if statusCode resp = 201 then ''success'' else ''fail'') in
         bindE (events_create connection_id project_id status_resp
                  ''ticketing.ticket.push'' ''PUSH'' ''/ticketing/tickets''
                  integrationId linkedUserId) (\<lambda>event.
         bindE (dispatchWebhook (webhook_outcome env) (TicketPayload result_ticket)
                  ''ticketing.ticket.created'' (lu_id_project linkedUser)
                  (id_event event)) (\<lambda>_.
         returnE result_ticket)))))))))))))))"

section \<open>Reading every page\<close>

text \<open>
  A client that reads a connection to the end: it calls the list method, keeps the
  page, and calls again with the cursor it makes from the \<open>next_cursor\<close> it got
  (\<open>resolve\<close>), until \<open>next_cursor\<close> is null. The loop need not end (with \<open>limit = 0\<close>
  it does not), so it runs on fuel: \<open>None\<close> is the loop that has not ended.
\<close>

fun read_all ::
  "(string option \<Rightarrow> 'a list_result io) \<Rightarrow> (string \<Rightarrow> string) \<Rightarrow> nat \<Rightarrow> string option \<Rightarrow> world
     \<Rightarrow> (error + 'a list) option" where
  "read_all list_page resolve 0 cursor w = None"
| "read_all list_page resolve (Suc fuel) cursor w =
     (case list_page cursor w of
        (Inl e, w') \<Rightarrow> Some (Inl e)
      | (Inr page, w') \<Rightarrow>
          (case next_cursor page of
             None \<Rightarrow> Some (Inr (data page))
           | Some token \<Rightarrow>
               (case read_all list_page resolve fuel (Some (resolve token)) w' of
                  None \<Rightarrow> None
                | Some (Inl e) \<Rightarrow> Some (Inl e)
                | Some (Inr rest) \<Rightarrow> Some (Inr (data page @ rest)))))"

section \<open>Derived notions\<close>

text \<open>
  The notions the statements below are written with. None of them is a function of the
  services: each names a part of a service's body (the page it fetches, the record it
  builds for a row), a view of the store, or a sentence of the specification.
\<close>

subsection \<open>Parts of the services\<close>

text \<open>
  What \<open>JSON.parse(resp.data)\<close> gives for the snapshot of a record, \<open>resp\<close> being the
  result of \<open>remote_data.findFirst\<close>: the parsed text, or the error the expression
  throws when \<open>resp\<close> is null or the text does not parse.
\<close>

definition snapshot_of :: "world \<Rightarrow> string \<Rightarrow> error + string" where
  "snapshot_of w owner =
     (case find (\<lambda>r. rd_ressource_owner_id r = owner) (remote_data_tbl w) of
        None \<Rightarrow> Inl (TypeError ''Cannot read properties of null (reading data)'')
      | Some r \<Rightarrow> (case rd_data r of Parsable v \<Rightarrow> Inr v | Unparsable t \<Rightarrow> Inl (SyntaxError t)))"

text \<open>The results of a list of computations that all ran: the values in order, or
  the first error in order.\<close>

fun collect :: "(error + 'a) list \<Rightarrow> error + 'a list" where
  "collect [] = Inr []"
| "collect (Inl e # xs) = Inl e"
| "collect (Inr x # xs) = (case collect xs of Inl e \<Rightarrow> Inl e | Inr ys \<Rightarrow> Inr (x # ys))"

text \<open>
  The rows the \<open>findMany\<close> of a list method fetches: \<open>take: limit + 1\<close>, from the row of
  the cursor the caller gave, among the rows of the connection, in creation order.
\<close>

definition team_page :: "string \<Rightarrow> nat \<Rightarrow> string option \<Rightarrow> world \<Rightarrow> tcg_teams_row list" where
  "team_page c limit cursor w =
     findMany_page id_tcg_team team_created_at (\<lambda>r. team_id_connection r = c)
       (limit + 1) (cursor_arg cursor) (tcg_teams w)"

definition attachment_page ::
  "string \<Rightarrow> nat \<Rightarrow> string option \<Rightarrow> world \<Rightarrow> tcg_attachments_row list" where
  "attachment_page c limit cursor w =
     findMany_page id_tcg_attachment att_created_at (\<lambda>r. att_id_connection r = c)
       (limit + 1) (cursor_arg cursor) (tcg_attachments w)"

definition contact_page ::
  "string \<Rightarrow> nat \<Rightarrow> string option \<Rightarrow> world \<Rightarrow> tcg_contacts_row list" where
  "contact_page c limit cursor w =
     findMany_page id_tcg_contact con_created_at (\<lambda>r. con_id_connection r = c)
       (limit + 1) (cursor_arg cursor) (tcg_contacts w)"

text \<open>
  The unified record a list method builds for one row before it looks at
  \<open>remote_data\<close>: the row's fields and the field mappings of the values stored for it.
\<close>

definition team_unified :: "world \<Rightarrow> tcg_teams_row \<Rightarrow> unified_team_output" where
  "team_unified w team =
     \<lparr>ut_id = id_tcg_team team, ut_name = team_name team,
      ut_description = team_description team,
      ut_field_mappings = FmObject (fieldMappingsMap
         (filter (\<lambda>v. val_ressource_owner_id v = id_tcg_team team) (value_tbl w))),
      ut_remote_id = team_remote_id team,
      ut_created_at = team_created_at team,
      ut_modified_at = team_modified_at team,
      ut_remote_data = None\<rparr>"

definition attachment_unified :: "world \<Rightarrow> tcg_attachments_row \<Rightarrow> unified_attachment_output" where
  "attachment_unified w attachment =
     \<lparr>uat_id = id_tcg_attachment attachment,
      uat_file_name = att_file_name attachment,
      uat_file_url = att_file_url attachment,
      uat_uploader = att_uploader attachment,
      uat_field_mappings = FmObject (fieldMappingsMap
         (filter (\<lambda>v. val_ressource_owner_id v = id_tcg_attachment attachment) (value_tbl w))),
      uat_remote_id = att_remote_id attachment,
      uat_created_at = att_created_at attachment,
      uat_modified_at = att_modified_at attachment,
      uat_comment_id =
        (if truthy (att_id_tcg_comment attachment)
         then att_id_tcg_comment attachment else None),
      uat_ticket_id =
        (if truthy (att_id_tcg_ticket attachment)
         then att_id_tcg_ticket attachment else None),
      uat_remote_data = None\<rparr>"

definition contact_unified :: "world \<Rightarrow> tcg_contacts_row \<Rightarrow> unified_contact_output" where
  "contact_unified w contact =
     \<lparr>uc_id = id_tcg_contact contact,
      uc_email_address = con_email_address contact,
      uc_name = con_name contact, uc_details = con_details contact,
      uc_phone_number = con_phone_number contact,
      uc_field_mappings = FmObject (fieldMappingsMap
         (filter (\<lambda>v. val_ressource_owner_id v = id_tcg_contact contact) (value_tbl w))),
      uc_remote_id = con_remote_id contact,
      uc_created_at = con_created_at contact,
      uc_modified_at = con_modified_at contact,
      uc_remote_data = None\<rparr>"

text \<open>The record of a team as a list call returns it: with the parsed snapshot when
  \<open>remote_data\<close> is set.\<close>

definition team_record :: "world \<Rightarrow> bool \<Rightarrow> tcg_teams_row \<Rightarrow> unified_team_output" where
  "team_record w rd t =
     (if rd then
        (team_unified w t)\<lparr>ut_remote_data :=
           (case snapshot_of w (id_tcg_team t) of Inr v \<Rightarrow> Some v | Inl _ \<Rightarrow> None)\<rparr>
      else team_unified w t)"

subsection \<open>Views of the store and of the call log\<close>

text \<open>The records of a connection, in creation order.\<close>

definition connection_teams :: "string \<Rightarrow> world \<Rightarrow> tcg_teams_row list" where
  "connection_teams c w =
     sort_key team_created_at (filter (\<lambda>r. team_id_connection r = c) (tcg_teams w))"

definition connection_attachments :: "string \<Rightarrow> world \<Rightarrow> tcg_attachments_row list" where
  "connection_attachments c w =
     sort_key att_created_at (filter (\<lambda>r. att_id_connection r = c) (tcg_attachments w))"

definition connection_contacts :: "string \<Rightarrow> world \<Rightarrow> tcg_contacts_row list" where
  "connection_contacts c w =
     sort_key con_created_at (filter (\<lambda>r. con_id_connection r = c) (tcg_contacts w))"

text \<open>Two states with the same teams, attachments, values and snapshots: what a list
  call leaves unchanged (it appends an event and draws an id and a time).\<close>

definition same_store :: "world \<Rightarrow> world \<Rightarrow> bool" where
  "same_store w0 w \<longleftrightarrow>
     tcg_teams w = tcg_teams w0 \<and> tcg_attachments w = tcg_attachments w0 \<and>
     value_tbl w = value_tbl w0 \<and> remote_data_tbl w = remote_data_tbl w0"

text \<open>The page reads among the calls of a log.\<close>

definition page_reads :: "db_call list \<Rightarrow> db_call list" where
  "page_reads cs = filter (\<lambda>q. case q of FindPage _ _ _ \<Rightarrow> True | _ \<Rightarrow> False) cs"

subsection \<open>The page of the specification\<close>

text \<open>
  This definition follows the words of the specification, not the code: of the rows
  fetched, if exactly \<open>limit+1\<close> were returned, the id of the last becomes \<open>nextCursor\<close>
  and the row is dropped from the page, else \<open>nextCursor\<close> is null; a cursor is the
  base64 of the id. It gives the ids of the page and the next cursor.
\<close>

definition spec_page :: "('r \<Rightarrow> string) \<Rightarrow> nat \<Rightarrow> 'r list \<Rightarrow> string list \<times> string option" where
  "spec_page idf limit fetched =
     (if length fetched = limit + 1
      then (map idf (butlast fetched), Some (toBase64 (idf (last fetched))))
      else (map idf fetched, None))"

subsection \<open>A small store for the examples\<close>

text \<open>The ids \<open>uuidv4\<close> draws and the times \<open>new Date\<close> reads in the examples: the
  ids are pairwise distinct, the times increase.\<close>

definition demo_uuid :: "nat \<Rightarrow> string" where
  "demo_uuid n = ''uuid-'' @ replicate n (CHR ''x'')"

definition demo_clock :: "nat \<Rightarrow> nat" where
  "demo_clock n = 1000 + n"

definition empty_world :: world where
  "empty_world =
     \<lparr>linked_users = [], tcg_users = [], tcg_accounts = [], tcg_contacts = [],
      tcg_teams = [], tcg_attachments = [], tcg_tickets = [], value_tbl = [],
      remote_data_tbl = [], events = [], webhooks = [], calls = [],
      uuid_gen = demo_uuid, uuid_ctr = 0, clock = demo_clock, clock_ctr = 0\<rparr>"

definition demo_team :: "string \<Rightarrow> string \<Rightarrow> nat \<Rightarrow> tcg_teams_row" where
  "demo_team i c t =
     \<lparr>id_tcg_team = i, team_name = ''team '' @ i, team_description = ''support'',
      team_remote_id = None, team_created_at = t, team_modified_at = t,
      team_id_connection = c\<rparr>"

definition demo_contact :: "string \<Rightarrow> string \<Rightarrow> nat \<Rightarrow> tcg_contacts_row" where
  "demo_contact i c t =
     \<lparr>id_tcg_contact = i, con_email_address = i @ ''@example.org'', con_name = i,
      con_details = [], con_phone_number = [], con_remote_id = None,
      con_created_at = t, con_modified_at = t, con_id_connection = c\<rparr>"

definition demo_account :: "string \<Rightarrow> string \<Rightarrow> nat \<Rightarrow> tcg_accounts_row" where
  "demo_account i c t =
     \<lparr>id_tcg_account = i, acc_name = i, acc_domains = [], acc_remote_id = None,
      acc_created_at = t, acc_modified_at = t, acc_id_connection = c\<rparr>"

definition demo_attachment :: "string \<Rightarrow> string \<Rightarrow> nat \<Rightarrow> tcg_attachments_row" where
  "demo_attachment i c t =
     \<lparr>id_tcg_attachment = i, att_file_name = i @ ''.txt'', att_file_url = None,
      att_uploader = ''lu1'', att_remote_id = None, att_created_at = t,
      att_modified_at = t, att_id_connection = c, att_id_tcg_comment = None,
      att_id_tcg_ticket = None\<rparr>"

text \<open>Three teams, three attachments and two contacts in connection \<open>c1\<close>, stored out
  of creation order, and one team of another connection; the teams \<open>t2\<close> and \<open>t3\<close> were
  created at the same time. Every attachment and the team \<open>t1\<close> have a snapshot, the
  other teams and the account \<open>acc1\<close> have none.\<close>

definition demo_world :: world where
  "demo_world = empty_world
     \<lparr>linked_users := [\<lparr>id_linked_user = ''lu1'', lu_id_project = ''p1''\<rparr>],
      tcg_users := [\<lparr>id_tcg_user = ''u1''\<rparr>, \<lparr>id_tcg_user = ''u2''\<rparr>],
      tcg_accounts := [demo_account ''acc1'' ''c1'' 5],
      tcg_contacts := [demo_contact ''k2'' ''c1'' 8, demo_contact ''k1'' ''c1'' 7],
      tcg_teams := [demo_team ''t2'' ''c1'' 20, demo_team ''t1'' ''c1'' 10,
                    demo_team ''x9'' ''c2'' 15, demo_team ''t3'' ''c1'' 20],
      tcg_attachments := [demo_attachment ''a2'' ''c1'' 21, demo_attachment ''a1'' ''c1'' 11,
                          demo_attachment ''a3'' ''c1'' 31],
      remote_data_tbl :=
        [\<lparr>rd_ressource_owner_id = ''a1'', rd_data = Parsable ''{id: 1}''\<rparr>,
         \<lparr>rd_ressource_owner_id = ''a2'', rd_data = Parsable ''{id: 2}''\<rparr>,
         \<lparr>rd_ressource_owner_id = ''a3'', rd_data = Parsable ''{id: 3}''\<rparr>,
         \<lparr>rd_ressource_owner_id = ''t1'', rd_data = Parsable ''{id: 4}''\<rparr>]\<rparr>"

text \<open>A ticket as the unification engine returns it, an input of \<open>addTicket\<close> whose
  references all exist in \<open>demo_world\<close>, and collaborators that succeed, the connector
  with status 201.\<close>

definition demo_ticket :: unified_ticket_output where
  "demo_ticket =
     \<lparr>uto_name = ''Bug'', uto_status = ''open'', uto_priority = ''high'',
      uto_source = ''email'', uto_remote_id = Some ''rt-1'',
      uto_field_mappings = FmObject []\<rparr>"

definition demo_input :: unified_ticket_input where
  "demo_input =
     \<lparr>uti_account_id = Some ''acc1'', uti_contact_id = None,
      uti_assigned_to = Some [''u1''], uti_attachments = None,
      uti_field_mappings = None\<rparr>"

definition demo_env ::
  "(unit, unified_ticket_input, unified_ticket_output) collaborators" where
  "demo_env =
     \<lparr>getCustomFieldMappings = (\<lambda>_ _ _. returnE []),
      desunify = (\<lambda>d _ _ _. returnE d),
      service_addTicket = (\<lambda>_ _ _. returnE \<lparr>resp_data = demo_ticket, statusCode = 201\<rparr>),
      unify = (\<lambda>os _ _ _. returnE os),
      processFieldMappings = (\<lambda>_ _ _ _. returnE ()),
      processRemoteData = (\<lambda>_ _. returnE ()),
      saveToDb = (\<lambda>_ _ _ _. returnE []),
      webhook_outcome = (\<lambda>_. None)\<rparr>"

section \<open>Facts about effects and pages\<close>

lemma b64_value_digit: "n < 64 \<Longrightarrow> b64_value (b64_digit n) = n"
  unfolding b64_value_def b64_digit_def Let_def
  by (auto simp: of_char_of [where ?'a = nat])

lemma b64_digit_not_pad: "n < 64 \<Longrightarrow> b64_digit n \<noteq> CHR ''=''"
proof
  assume n: "n < 64" and e: "b64_digit n = CHR ''=''"
  have "(of_char (b64_digit n) :: nat) = 61" unfolding e by simp
  with n show False
    unfolding b64_digit_def
    by (auto simp: of_char_of [where ?'a = nat] split: if_splits)
qed

lemma b64_group3:
  assumes "a < 256" "b < 256" "c < (256::nat)"
  shows "a div 4 < 64" "(a mod 4) * 16 + b div 16 < 64"
    "(b mod 16) * 4 + c div 64 < 64" "c mod 64 < 64"
    "(a mod 4) * 16 < 64" "(b mod 16) * 4 < 64"
    "(a div 4) * 4 + ((a mod 4) * 16 + b div 16) div 16 = a"
    "(((a mod 4) * 16 + b div 16) mod 16) * 16 + ((b mod 16) * 4 + c div 64) div 4 = b"
    "(((b mod 16) * 4 + c div 64) mod 4) * 64 + c mod 64 = c"
    "(a div 4) * 4 + ((a mod 4) * 16) div 16 = a"
    "(((a mod 4) * 16 + b div 16) mod 16) * 16 + ((b mod 16) * 4) div 4 = b"
  using assms by auto

lemma fromBase64_bytes_to:
  "\<forall>b \<in> set bs. b < 256 \<Longrightarrow> fromBase64_bytes (toBase64_bytes bs) = bs"
proof (induction bs rule: toBase64_bytes.induct)
  case 1
  then show ?case by simp
next
  case (2 a)
  then have a: "a < 256" by simp
  show ?case
    using b64_group3 [OF a a a]
    by (simp add: b64_value_digit)
next
  case (3 a b)
  then have a: "a < 256" and b: "b < 256" by simp_all
  show ?case
    using b64_group3 [OF a b b]
    by (simp add: b64_value_digit b64_digit_not_pad)
next
  case (4 a b c rest)
  then have a: "a < 256" and b: "b < 256" and c: "c < 256"
    and r: "\<forall>b \<in> set rest. b < 256" by simp_all
  show ?case
    using b64_group3 [OF a b c] "4.IH" [OF r]
    by (simp add: b64_value_digit b64_digit_not_pad)
qed

lemma fromBase64_toBase64: "fromBase64 (toBase64 s) = s"
proof -
  have "\<forall>b \<in> set (map of_char s :: nat list). b < 256"
    by simp
  then show ?thesis
    unfolding fromBase64_def toBase64_def
    by (simp add: fromBase64_bytes_to map_idI)
qed


lemma returnE_apply: "returnE x w = (Inr x, w)"
  by (simp add: returnE_def)

lemma throwE_apply: "throwE e w = (Inl e, w)"
  by (simp add: throwE_def)

lemma bindE_apply:
  "bindE m f w = (case m w of (Inl e, w') \<Rightarrow> (Inl e, w') | (Inr x, w') \<Rightarrow> f x w')"
  by (simp add: bindE_def)

lemma db_read_apply: "db_read c f w = (Inr (f w), w\<lparr>calls := calls w @ [c]\<rparr>)"
  by (simp add: db_read_def)

lemma db_write_apply: "db_write c f w = (Inr (), (f w)\<lparr>calls := calls w @ [c]\<rparr>)"
  by (simp add: db_write_def)

lemma uuidv4_apply: "uuidv4 w = (Inr (uuid_gen w (uuid_ctr w)), w\<lparr>uuid_ctr := Suc (uuid_ctr w)\<rparr>)"
  by (simp add: uuidv4_def)

lemma new_Date_apply: "new_Date w = (Inr (clock w (clock_ctr w)), w\<lparr>clock_ctr := Suc (clock_ctr w)\<rparr>)"
  by (simp add: new_Date_def)

lemmas io_defs = returnE_apply throwE_apply bindE_apply db_read_apply db_write_apply
  uuidv4_apply new_Date_apply

lemma promise_all_weak_cong: "xs = ys \<Longrightarrow> promise_all f xs = promise_all f ys"
  by simp

lemma promise_all_Cons_apply:
  "promise_all f (x # xs) w =
     (case f x w of
        (Inl e, w') \<Rightarrow> (Inl e, snd (promise_all f xs w'))
      | (Inr y, w') \<Rightarrow>
          (case promise_all f xs w' of
             (Inl e, w'') \<Rightarrow> (Inl e, w'')
           | (Inr ys, w'') \<Rightarrow> (Inr (y # ys), w'')))"
  by simp

lemma promise_all_values:
  "promise_all (\<lambda>row. bindE (value_findMany (idf row)) (\<lambda>values. returnE (mk row values))) rows w
     = (Inr (map (\<lambda>row. mk row (filter (\<lambda>v. val_ressource_owner_id v = idf row) (value_tbl w))) rows),
        w\<lparr>calls := calls w @ replicate (length rows) (FindMany ''value'')\<rparr>)"
proof (induction rows arbitrary: w)
  case Nil
  then show ?case by (simp add: io_defs)
next
  case (Cons r rows)
  show ?case
    by (simp add: promise_all_Cons_apply Cons.IH io_defs value_findMany_def
        replicate_append_same del: promise_all.simps cong: promise_all_weak_cong)
qed

lemma promise_all_snapshots:
  "promise_all (\<lambda>x. bindE (remote_data_findFirst (idf x)) (\<lambda>resp.
      bindE (JSON_parse_data resp) (\<lambda>parsed. returnE (upd x parsed)))) xs w
     = (collect (map (\<lambda>x. map_sum id (upd x) (snapshot_of w (idf x))) xs),
        w\<lparr>calls := calls w @ replicate (length xs) (FindFirst ''remote_data'')\<rparr>)"
proof (induction xs arbitrary: w)
  case Nil
  then show ?case by (simp add: io_defs)
next
  case (Cons r rows)
  show ?case
    by (simp add: promise_all_Cons_apply Cons.IH io_defs remote_data_findFirst_def
        JSON_parse_data_def snapshot_of_def replicate_append_same
        del: promise_all.simps cong: promise_all_weak_cong
        split: option.splits json_text.splits sum.splits)
qed

lemma getTeams_invalid_cursor:
  assumes "truthy cursor"
    and "find (\<lambda>r. team_id_connection r = c \<and> Some (id_tcg_team r) = cursor) (tcg_teams w) = None"
  shows "getTeams c p g l limit rd cursor w
     = (Inl (ReferenceError ''The provided cursor does not exist!''),
        w\<lparr>calls := calls w @ [FindFirst ''tcg_teams'']\<rparr>)"
  using assms by (simp add: getTeams_def io_defs)

lemma snapshot_of_calls [simp]: "snapshot_of (w\<lparr>calls := l\<rparr>) = snapshot_of w"
  by (simp add: snapshot_of_def fun_eq_iff)

lemma events_create_apply:
  "events_create c p st ty me url g l w =
     (Inr \<lparr>id_event = uuid_gen w (uuid_ctr w), ev_id_connection = c, ev_id_project = p,
            ev_status = st, ev_type = ty, ev_method = me, ev_url = url, ev_provider = g,
            ev_direction = ''0'', ev_timestamp = clock w (clock_ctr w),
            ev_id_linked_user = l\<rparr>,
      w\<lparr>uuid_ctr := Suc (uuid_ctr w), clock_ctr := Suc (clock_ctr w),
        events := events w @
          [\<lparr>id_event = uuid_gen w (uuid_ctr w), ev_id_connection = c, ev_id_project = p,
            ev_status = st, ev_type = ty, ev_method = me, ev_url = url, ev_provider = g,
            ev_direction = ''0'', ev_timestamp = clock w (clock_ctr w),
            ev_id_linked_user = l\<rparr>],
        calls := calls w @ [Create ''events'']\<rparr>)"
  by (simp add: events_create_def io_defs Let_def)

lemma team_unified_calls [simp]: "team_unified (w\<lparr>calls := l\<rparr>) = team_unified w"
  by (simp add: team_unified_def fun_eq_iff)

lemma teams_values:
  "promise_all (\<lambda>team.
      bindE (value_findMany (id_tcg_team team)) (\<lambda>values.
      returnE
        \<lparr>ut_id = id_tcg_team team, ut_name = team_name team,
         ut_description = team_description team,
         ut_field_mappings = FmObject (fieldMappingsMap values),
         ut_remote_id = team_remote_id team,
         ut_created_at = team_created_at team,
         ut_modified_at = team_modified_at team,
         ut_remote_data = None\<rparr>)) teams w
   = (Inr (map (team_unified w) teams),
      w\<lparr>calls := calls w @ replicate (length teams) (FindMany ''value'')\<rparr>)"
  by (simp add: promise_all_values team_unified_def cong: promise_all_weak_cong)

lemma getTeams_valid:
  assumes "\<not> truthy cursor \<or>
     find (\<lambda>r. team_id_connection r = c \<and> Some (id_tcg_team r) = cursor) (tcg_teams w) \<noteq> None"
  shows "getTeams c p g l limit rd cursor w =
    (let page = team_page c limit cursor w;
         teams = (if length page = limit + 1 then butlast page else page);
         unified = map (team_unified w) teams;
         w1 = w\<lparr>calls := calls w @ (if truthy cursor then [FindFirst ''tcg_teams''] else [])
                @ [FindPage ''tcg_teams'' (limit + 1) (cursor_arg cursor)]
                @ replicate (length teams) (FindMany ''value'')
                @ (if rd then replicate (length teams) (FindFirst ''remote_data'') else [])\<rparr>
     in case (if rd then collect (map (\<lambda>x. map_sum id (\<lambda>v. x\<lparr>ut_remote_data := Some v\<rparr>)
                                          (snapshot_of w (ut_id x))) unified)
              else Inr unified) of
          Inl e \<Rightarrow> (Inl e, w1)
        | Inr res \<Rightarrow>
            (Inr \<lparr>data = res, prev_cursor = map_option toBase64 (cursor_arg cursor),
                  next_cursor = (if length page = limit + 1
                                 then Some (toBase64 (id_tcg_team (last page))) else None)\<rparr>,
             snd (events_create c p ''success'' ''ticketing.team.pull'' ''GET''
                    ''/ticketing/teams'' g l w1)))"
proof (cases "truthy cursor")
  case True
  with assms obtain cr where
    "find (\<lambda>r. team_id_connection r = c \<and> Some (id_tcg_team r) = cursor) (tcg_teams w) = Some cr"
    by auto
  with True show ?thesis
    by (cases rd)
      (simp_all add: getTeams_def io_defs Let_def teams_values promise_all_snapshots
        team_page_def events_create_apply
        cong: promise_all_weak_cong split: sum.splits)
next
  case False
  then show ?thesis
    by (cases rd)
      (simp_all add: getTeams_def io_defs Let_def teams_values promise_all_snapshots
        team_page_def events_create_apply
        cong: promise_all_weak_cong split: sum.splits)
qed

lemma dropWhile_distinct_nth:
  "distinct (map idf L) \<Longrightarrow> i < length L
     \<Longrightarrow> dropWhile (\<lambda>t. idf t \<noteq> idf (L ! i)) L = drop i L"
proof (induction L arbitrary: i)
  case Nil
  then show ?case by simp
next
  case (Cons x xs)
  show ?case
  proof (cases i)
    case 0
    then show ?thesis by simp
  next
    case (Suc j)
    with Cons.prems have j: "j < length xs" by simp
    then have "xs ! j \<in> set xs" by simp
    with Cons.prems have "idf x \<noteq> idf (xs ! j)" by auto
    with Cons.IH [of j] Cons.prems j Suc show ?thesis by simp
  qed
qed

lemma findMany_page_from_start:
  "findMany_page idf createdf wheref tk None rows
     = take tk (sort_key createdf (filter wheref rows))"
  by (simp add: findMany_page_def)

lemma findMany_page_from_cursor:
  "findMany_page idf createdf wheref tk (Some x) rows
     = take tk (dropWhile (\<lambda>r. idf r \<noteq> x) (sort_key createdf (filter wheref rows)))"
  by (simp add: findMany_page_def)

lemma findMany_page_from_nth:
  assumes ids: "distinct (map idf rows)"
    and i: "i < length (sort_key createdf (filter wheref rows))"
  shows "findMany_page idf createdf wheref tk
           (Some (idf (sort_key createdf (filter wheref rows) ! i))) rows
         = take tk (drop i (sort_key createdf (filter wheref rows)))"
proof -
  let ?L = "sort_key createdf (filter wheref rows)"
  have "distinct (map idf (filter wheref rows))"
    using ids by (simp add: distinct_map_filter)
  then have d: "distinct (map idf ?L)"
    by (simp add: distinct_map)
  show ?thesis
    by (simp add: findMany_page_from_cursor dropWhile_distinct_nth [OF d i])
qed

lemma page_split:
  fixes L :: "'r list"
  shows "length (take (Suc k) (drop i L)) = Suc k \<longleftrightarrow> i + k < length L"
    and "i + k < length L \<Longrightarrow> butlast (take (Suc k) (drop i L)) = take k (drop i L)"
    and "i + k < length L \<Longrightarrow> last (take (Suc k) (drop i L)) = L ! (i + k)"
    and "\<not> i + k < length L \<Longrightarrow> take (Suc k) (drop i L) = drop i L"
    and "\<not> i + k < length L \<Longrightarrow> take k (drop i L) = drop i L"
proof -
  show "length (take (Suc k) (drop i L)) = Suc k \<longleftrightarrow> i + k < length L"
    by auto
  show "butlast (take (Suc k) (drop i L)) = take k (drop i L)" if "i + k < length L"
    using that by (simp add: butlast_take)
  show "last (take (Suc k) (drop i L)) = L ! (i + k)" if "i + k < length L"
    using that by (simp add: last_conv_nth)
  show "take (Suc k) (drop i L) = drop i L" if "\<not> i + k < length L"
    using that by simp
  show "take k (drop i L) = drop i L" if "\<not> i + k < length L"
    using that by simp
qed

lemma read_all_complete:
  fixes list_page :: "string option \<Rightarrow> 'a list_result io" and L :: "'r list"
  assumes k: "0 < k"
    and step: "\<And>i cursor w. Inv w \<Longrightarrow>
        (cursor = Some (c i) \<and> i < length L \<or> cursor = None \<and> i = 0) \<Longrightarrow>
        \<exists>r w'. list_page cursor w = (Inr r, w') \<and> Inv w'
          \<and> data r = map out (take k (drop i L))
          \<and> next_cursor r = (if i + k < length L then Some (tok (i + k)) else None)"
    and res: "\<And>j. j < length L \<Longrightarrow> resolve (tok j) = c j"
  shows "Inv w \<Longrightarrow> (cursor = Some (c i) \<and> i < length L \<or> cursor = None \<and> i = 0) \<Longrightarrow>
         length L - i < fuel \<Longrightarrow>
         read_all list_page resolve fuel cursor w = Some (Inr (map out (drop i L)))"
proof (induction fuel arbitrary: i cursor w)
  case 0
  then show ?case by simp
next
  case (Suc fuel)
  from step [OF Suc.prems(1) Suc.prems(2)] obtain r w' where
    call: "list_page cursor w = (Inr r, w')" and inv': "Inv w'"
    and d: "data r = map out (take k (drop i L))"
    and n: "next_cursor r = (if i + k < length L then Some (tok (i + k)) else None)"
    by blast
  show ?case
  proof (cases "i + k < length L")
    case True
    have fuel: "length L - (i + k) < fuel"
      using Suc.prems(3) True k by arith
    have rest: "read_all list_page resolve fuel (Some (c (i + k))) w'
        = Some (Inr (map out (drop (i + k) L)))"
      by (rule Suc.IH [OF inv' _ fuel]) (simp add: True)
    have "take k (drop i L) @ drop (i + k) L = drop i L"
      by (metis add.commute append_take_drop_id drop_drop)
    then have "map out (take k (drop i L)) @ map out (drop (i + k) L) = map out (drop i L)"
      by (metis map_append)
    then show ?thesis
      using True call d n rest res [OF True] by simp
  next
    case False
    then have "take k (drop i L) = drop i L" by simp
    then show ?thesis
      using False call d n by simp
  qed
qed

lemma collect_map_Inr:
  "\<forall>x \<in> set xs. h x = Inr (g x) \<Longrightarrow> collect (map h xs) = Inr (map g xs)"
  by (induction xs) auto

lemma ut_id_team_unified [simp]: "ut_id (team_unified w t) = id_tcg_team t"
  by (simp add: team_unified_def)

lemma same_store_team:
  "same_store w0 w \<Longrightarrow> team_unified w = team_unified w0"
  "same_store w0 w \<Longrightarrow> snapshot_of w = snapshot_of w0"
  "same_store w0 w \<Longrightarrow> connection_teams c w = connection_teams c w0"
  by (simp_all add: same_store_def team_unified_def snapshot_of_def connection_teams_def
      fun_eq_iff)

lemma same_store_events_create:
  "same_store w0 (snd (events_create c p st ty me url g l w)) = same_store w0 w"
  by (simp add: events_create_apply same_store_def)

lemma same_store_calls [simp]: "same_store w0 (w\<lparr>calls := x\<rparr>) = same_store w0 w"
  by (simp add: same_store_def)

lemma getTeams_step:
  assumes inv: "same_store w0 w"
    and ids: "distinct (map id_tcg_team (tcg_teams w0))"
    and nonempty: "\<forall>t \<in> set (connection_teams c w0). id_tcg_team t \<noteq> []"
    and snaps: "rd \<longrightarrow> (\<forall>t \<in> set (connection_teams c w0).
                  \<exists>v. snapshot_of w0 (id_tcg_team t) = Inr v)"
    and pos: "cursor = Some (id_tcg_team (connection_teams c w0 ! i))
                \<and> i < length (connection_teams c w0) \<or> cursor = None \<and> i = 0"
  shows "\<exists>r w'. getTeams c p g l k rd cursor w = (Inr r, w') \<and> same_store w0 w'
          \<and> data r = map (team_record w0 rd) (take k (drop i (connection_teams c w0)))
          \<and> next_cursor r = (if i + k < length (connection_teams c w0)
               then Some (toBase64 (id_tcg_team (connection_teams c w0 ! (i + k)))) else None)"
proof -
  let ?L = "connection_teams c w0"
  have tw: "tcg_teams w = tcg_teams w0"
    using inv by (simp add: same_store_def)
  have L_set: "set ?L = {r \<in> set (tcg_teams w0). team_id_connection r = c}"
    by (auto simp: connection_teams_def)
  have valid: "\<not> truthy cursor \<or>
     find (\<lambda>r. team_id_connection r = c \<and> Some (id_tcg_team r) = cursor) (tcg_teams w) \<noteq> None"
  proof (cases cursor)
    case None
    then show ?thesis by (simp add: truthy_def)
  next
    case (Some x)
    with pos have i: "i < length ?L" and x: "x = id_tcg_team (?L ! i)" by auto
    have "?L ! i \<in> set ?L" using i by (rule nth_mem)
    then have "?L ! i \<in> set (tcg_teams w0)" "team_id_connection (?L ! i) = c"
      using L_set by auto
    then show ?thesis
      unfolding tw Some x by (auto simp: find_None_iff)
  qed
  have page: "team_page c k cursor w = take (Suc k) (drop i ?L)"
  proof (cases cursor)
    case None
    with pos show ?thesis
      by (simp add: team_page_def cursor_arg_def truthy_def findMany_page_from_start
          connection_teams_def tw)
  next
    case (Some x)
    with pos have i: "i < length ?L" and x: "x = id_tcg_team (?L ! i)" by auto
    have "?L ! i \<in> set ?L" using i by (rule nth_mem)
    with nonempty have "x \<noteq> []" unfolding x by blast
    then have ca: "cursor_arg cursor = Some (id_tcg_team (?L ! i))"
      by (simp add: cursor_arg_def truthy_def Some x)
    show ?thesis
      unfolding team_page_def ca tw
      using findMany_page_from_nth [where idf = id_tcg_team and createdf = team_created_at
          and wheref = "\<lambda>r. team_id_connection r = c" and i = i and tk = "Suc k", OF ids] i
      by (simp add: connection_teams_def)
  qed
  let ?teams = "if i + k < length ?L then take k (drop i ?L) else drop i ?L"
  have teams: "(if length (team_page c k cursor w) = k + 1
                then butlast (team_page c k cursor w) else team_page c k cursor w)
               = take k (drop i ?L)"
    unfolding page using page_split [where k = k and i = i and L = "?L"] by (cases "i + k < length ?L") simp_all
  have nxt: "(if length (team_page c k cursor w) = k + 1
                then Some (toBase64 (id_tcg_team (last (team_page c k cursor w)))) else None)
               = (if i + k < length ?L
                  then Some (toBase64 (id_tcg_team (?L ! (i + k)))) else None)"
    unfolding page using page_split [where k = k and i = i and L = "?L"] by (cases "i + k < length ?L") simp_all
  have sub: "set (take k (drop i ?L)) \<subseteq> set ?L"
    by (meson set_drop_subset set_take_subset subset_trans)
  have enrich: "(if rd then collect (map (\<lambda>x. map_sum id (\<lambda>v. x\<lparr>ut_remote_data := Some v\<rparr>)
                     (snapshot_of w (ut_id x))) (map (team_unified w) (take k (drop i ?L))))
                 else Inr (map (team_unified w) (take k (drop i ?L))))
               = Inr (map (team_record w0 rd) (take k (drop i ?L)))"
  proof (cases rd)
    case False
    then show ?thesis
      by (simp add: team_record_def same_store_team [OF inv])
  next
    case True
    have "\<forall>t \<in> set (take k (drop i ?L)).
            map_sum id (\<lambda>v. (team_unified w0 t)\<lparr>ut_remote_data := Some v\<rparr>)
              (snapshot_of w0 (id_tcg_team t)) = Inr (team_record w0 True t)"
    proof
      fix t assume "t \<in> set (take k (drop i ?L))"
      with sub have "t \<in> set ?L" by blast
      with snaps True obtain v where "snapshot_of w0 (id_tcg_team t) = Inr v" by blast
      then show "map_sum id (\<lambda>v. (team_unified w0 t)\<lparr>ut_remote_data := Some v\<rparr>)
              (snapshot_of w0 (id_tcg_team t)) = Inr (team_record w0 True t)"
        by (simp add: team_record_def)
    qed
    then have "collect (map (\<lambda>t. map_sum id (\<lambda>v. (team_unified w0 t)\<lparr>ut_remote_data := Some v\<rparr>)
              (snapshot_of w0 (id_tcg_team t))) (take k (drop i ?L)))
            = Inr (map (team_record w0 True) (take k (drop i ?L)))"
      by (rule collect_map_Inr)
    then show ?thesis
      using True by (simp add: same_store_team [OF inv] comp_def)
  qed
  show ?thesis
    unfolding getTeams_valid [OF valid] Let_def teams nxt enrich
    by (simp add: same_store_events_create inv)
qed

lemma attachment_unified_calls [simp]:
  "attachment_unified (w\<lparr>calls := l\<rparr>) = attachment_unified w"
  by (simp add: attachment_unified_def fun_eq_iff)

lemma attachments_values:
  "promise_all (\<lambda>attachment.
      bindE (value_findMany (id_tcg_attachment attachment)) (\<lambda>values.
      returnE
        \<lparr>uat_id = id_tcg_attachment attachment,
         uat_file_name = att_file_name attachment,
         uat_file_url = att_file_url attachment,
         uat_uploader = att_uploader attachment,
         uat_field_mappings = FmObject (fieldMappingsMap values),
         uat_remote_id = att_remote_id attachment,
         uat_created_at = att_created_at attachment,
         uat_modified_at = att_modified_at attachment,
         uat_comment_id =
           (if truthy (att_id_tcg_comment attachment)
            then att_id_tcg_comment attachment else None),
         uat_ticket_id =
           (if truthy (att_id_tcg_ticket attachment)
            then att_id_tcg_ticket attachment else None),
         uat_remote_data = None\<rparr>)) attachments w
   = (Inr (map (attachment_unified w) attachments),
      w\<lparr>calls := calls w @ replicate (length attachments) (FindMany ''value'')\<rparr>)"
  by (simp add: promise_all_values attachment_unified_def cong: promise_all_weak_cong)

lemma getAttachments_invalid_cursor:
  assumes "truthy cursor"
    and "find (\<lambda>r. att_id_connection r = c \<and> Some (id_tcg_attachment r) = cursor)
           (tcg_attachments w) = None"
  shows "getAttachments c p g l limit rd cursor w
     = (Inl (ReferenceError ''The provided cursor does not exist!''),
        w\<lparr>calls := calls w @ [FindFirst ''tcg_attachments'']\<rparr>)"
  using assms by (simp add: getAttachments_def io_defs)

lemma getAttachments_valid:
  assumes "\<not> truthy cursor \<or>
     find (\<lambda>r. att_id_connection r = c \<and> Some (id_tcg_attachment r) = cursor)
       (tcg_attachments w) \<noteq> None"
  shows "getAttachments c p g l limit rd cursor w =
    (let page = attachment_page c limit cursor w;
         attachments = (if length page = limit + 1 then butlast page else page);
         unified = map (attachment_unified w) attachments;
         w1 = w\<lparr>calls := calls w
                @ (if truthy cursor then [FindFirst ''tcg_attachments''] else [])
                @ [FindPage ''tcg_attachments'' (limit + 1) (cursor_arg cursor)]
                @ replicate (length attachments) (FindMany ''value'')
                @ (if rd then replicate (length attachments) (FindFirst ''remote_data'')
                   else [])\<rparr>
     in case (if rd then collect (map (\<lambda>x. map_sum id (\<lambda>v. x\<lparr>uat_remote_data := Some v\<rparr>)
                                          (snapshot_of w (uat_id x))) unified)
              else Inr unified) of
          Inl e \<Rightarrow> (Inl e, w1)
        | Inr res \<Rightarrow>
            (Inr \<lparr>data = unified, prev_cursor = map_option toBase64 (cursor_arg cursor),
                  next_cursor = (if length page = limit + 1
                                 then Some (toBase64 (id_tcg_attachment (last page)))
                                 else None)\<rparr>,
             snd (events_create c p ''success'' ''ticketing.attachment.pull'' ''GET''
                    ''/ticketing/attachments'' g l w1)))"
proof (cases "truthy cursor")
  case True
  with assms obtain cr where
    "find (\<lambda>r. att_id_connection r = c \<and> Some (id_tcg_attachment r) = cursor)
       (tcg_attachments w) = Some cr"
    by auto
  with True show ?thesis
    by (cases rd)
      (simp_all add: getAttachments_def io_defs Let_def attachments_values
        promise_all_snapshots attachment_page_def events_create_apply
        cong: promise_all_weak_cong split: sum.splits)
next
  case False
  then show ?thesis
    by (cases rd)
      (simp_all add: getAttachments_def io_defs Let_def attachments_values
        promise_all_snapshots attachment_page_def events_create_apply
        cong: promise_all_weak_cong split: sum.splits)
qed

lemma contact_unified_calls [simp]:
  "contact_unified (w\<lparr>calls := l\<rparr>) = contact_unified w"
  by (simp add: contact_unified_def fun_eq_iff)

lemma contacts_values:
  "promise_all (\<lambda>contact.
      bindE (value_findMany (id_tcg_contact contact)) (\<lambda>values.
      returnE
        \<lparr>uc_id = id_tcg_contact contact,
         uc_email_address = con_email_address contact,
         uc_name = con_name contact, uc_details = con_details contact,
         uc_phone_number = con_phone_number contact,
         uc_field_mappings = FmObject (fieldMappingsMap values),
         uc_remote_id = con_remote_id contact,
         uc_created_at = con_created_at contact,
         uc_modified_at = con_modified_at contact,
         uc_remote_data = None\<rparr>)) contacts w
   = (Inr (map (contact_unified w) contacts),
      w\<lparr>calls := calls w @ replicate (length contacts) (FindMany ''value'')\<rparr>)"
  by (simp add: promise_all_values contact_unified_def cong: promise_all_weak_cong)

lemma getContacts_valid:
  assumes "\<not> truthy cursor \<or>
     find (\<lambda>r. con_id_connection r = c \<and> Some (id_tcg_contact r) = cursor)
       (tcg_contacts w) \<noteq> None"
  shows "getContacts c p g l limit rd cursor w =
    (let page = contact_page c limit cursor w;
         contacts = (if length page = limit + 1 then butlast page else page);
         unified = map (contact_unified w) contacts;
         w1 = w\<lparr>calls := calls w
                @ (if truthy cursor then [FindFirst ''tcg_contacts''] else [])
                @ [FindPage ''tcg_contacts'' (limit + 1) (cursor_arg cursor)]
                @ replicate (length contacts) (FindMany ''value'')
                @ (if rd then replicate (length contacts) (FindFirst ''remote_data'')
                   else [])\<rparr>
     in case (if rd then collect (map (\<lambda>x. map_sum id (\<lambda>v. x\<lparr>uc_remote_data := Some v\<rparr>)
                                          (snapshot_of w (uc_id x))) unified)
              else Inr unified) of
          Inl e \<Rightarrow> (Inl e, w1)
        | Inr res \<Rightarrow>
            (Inr \<lparr>data = res, prev_cursor = map_option toBase64 (cursor_arg cursor),
                  next_cursor = (if length page = limit + 1
                                 then Some (toBase64 (id_tcg_contact (last page)))
                                 else None)\<rparr>,
             snd (events_create c p ''success'' ''ticketing.contact.pull'' ''GET''
                    ''/ticketing/contacts'' g l w1)))"
proof (cases "truthy cursor")
  case True
  with assms obtain cr where
    "find (\<lambda>r. con_id_connection r = c \<and> Some (id_tcg_contact r) = cursor)
       (tcg_contacts w) = Some cr"
    by auto
  with True show ?thesis
    by (cases rd)
      (simp_all add: getContacts_def io_defs Let_def contacts_values
        promise_all_snapshots contact_page_def events_create_apply
        cong: promise_all_weak_cong split: sum.splits)
next
  case False
  then show ?thesis
    by (cases rd)
      (simp_all add: getContacts_def io_defs Let_def contacts_values
        promise_all_snapshots contact_page_def events_create_apply
        cong: promise_all_weak_cong split: sum.splits)
qed

lemma getContacts_invalid_cursor:
  assumes "truthy cursor"
    and "find (\<lambda>r. con_id_connection r = c \<and> Some (id_tcg_contact r) = cursor)
           (tcg_contacts w) = None"
  shows "getContacts c p g l limit rd cursor w
     = (Inl (ReferenceError ''The provided cursor does not exist!''),
        w\<lparr>calls := calls w @ [FindFirst ''tcg_contacts'']\<rparr>)"
  using assms by (simp add: getContacts_def io_defs)

lemma getAccounts_invalid_cursor:
  assumes "truthy cursor"
    and "find (\<lambda>r. acc_id_connection r = c \<and> Some (id_tcg_account r) = cursor)
           (tcg_accounts w) = None"
  shows "getAccounts c p g l limit rd cursor w
     = (Inl (ReferenceError ''The provided cursor does not exist!''),
        w\<lparr>calls := calls w @ [FindFirst ''tcg_accounts'']\<rparr>)"
  using assms by (simp add: getAccounts_def io_defs)


lemma uat_remote_data_unified [simp]: "uat_remote_data (attachment_unified w a) = None"
  by (simp add: attachment_unified_def)

lemma uat_id_attachment_unified [simp]:
  "uat_id (attachment_unified w a) = id_tcg_attachment a"
  by (simp add: attachment_unified_def)

lemma same_store_attachment:
  "same_store w0 w \<Longrightarrow> attachment_unified w = attachment_unified w0"
  "same_store w0 w \<Longrightarrow> connection_attachments c w = connection_attachments c w0"
  by (simp_all add: same_store_def attachment_unified_def connection_attachments_def
      fun_eq_iff)

lemma getAttachments_step:
  assumes inv: "same_store w0 w"
    and ids: "distinct (map id_tcg_attachment (tcg_attachments w0))"
    and nonempty: "\<forall>t \<in> set (connection_attachments c w0). id_tcg_attachment t \<noteq> []"
    and snaps: "rd \<longrightarrow> (\<forall>t \<in> set (connection_attachments c w0).
                  \<exists>v. snapshot_of w0 (id_tcg_attachment t) = Inr v)"
    and pos: "cursor = Some (id_tcg_attachment (connection_attachments c w0 ! i))
                \<and> i < length (connection_attachments c w0) \<or> cursor = None \<and> i = 0"
  shows "\<exists>r w'. getAttachments c p g l k rd cursor w = (Inr r, w') \<and> same_store w0 w'
          \<and> data r = map (attachment_unified w0) (take k (drop i (connection_attachments c w0)))
          \<and> next_cursor r = (if i + k < length (connection_attachments c w0)
               then Some (toBase64 (id_tcg_attachment (connection_attachments c w0 ! (i + k))))
               else None)"
proof -
  let ?L = "connection_attachments c w0"
  have tw: "tcg_attachments w = tcg_attachments w0"
    using inv by (simp add: same_store_def)
  have L_set: "set ?L = {r \<in> set (tcg_attachments w0). att_id_connection r = c}"
    by (auto simp: connection_attachments_def)
  have valid: "\<not> truthy cursor \<or>
     find (\<lambda>r. att_id_connection r = c \<and> Some (id_tcg_attachment r) = cursor)
       (tcg_attachments w) \<noteq> None"
  proof (cases cursor)
    case None
    then show ?thesis by (simp add: truthy_def)
  next
    case (Some x)
    with pos have i: "i < length ?L" and x: "x = id_tcg_attachment (?L ! i)" by auto
    have "?L ! i \<in> set ?L" using i by (rule nth_mem)
    then have "?L ! i \<in> set (tcg_attachments w0)" "att_id_connection (?L ! i) = c"
      using L_set by auto
    then show ?thesis
      unfolding tw Some x by (auto simp: find_None_iff)
  qed
  have page: "attachment_page c k cursor w = take (Suc k) (drop i ?L)"
  proof (cases cursor)
    case None
    with pos show ?thesis
      by (simp add: attachment_page_def cursor_arg_def truthy_def findMany_page_from_start
          connection_attachments_def tw)
  next
    case (Some x)
    with pos have i: "i < length ?L" and x: "x = id_tcg_attachment (?L ! i)" by auto
    have "?L ! i \<in> set ?L" using i by (rule nth_mem)
    with nonempty have "x \<noteq> []" unfolding x by blast
    then have ca: "cursor_arg cursor = Some (id_tcg_attachment (?L ! i))"
      by (simp add: cursor_arg_def truthy_def Some x)
    show ?thesis
      unfolding attachment_page_def ca tw
      using findMany_page_from_nth [where idf = id_tcg_attachment
          and createdf = att_created_at and wheref = "\<lambda>r. att_id_connection r = c"
          and i = i and tk = "Suc k", OF ids] i
      by (simp add: connection_attachments_def)
  qed
  have atts: "(if length (attachment_page c k cursor w) = k + 1
                then butlast (attachment_page c k cursor w) else attachment_page c k cursor w)
               = take k (drop i ?L)"
    unfolding page using page_split [where k = k and i = i and L = "?L"]
    by (cases "i + k < length ?L") simp_all
  have nxt: "(if length (attachment_page c k cursor w) = k + 1
                then Some (toBase64 (id_tcg_attachment (last (attachment_page c k cursor w))))
                else None)
               = (if i + k < length ?L
                  then Some (toBase64 (id_tcg_attachment (?L ! (i + k)))) else None)"
    unfolding page using page_split [where k = k and i = i and L = "?L"]
    by (cases "i + k < length ?L") simp_all
  have sub: "set (take k (drop i ?L)) \<subseteq> set ?L"
    by (meson set_drop_subset set_take_subset subset_trans)
  have enrich: "\<exists>res. (if rd then collect (map (\<lambda>x. map_sum id (\<lambda>v. x\<lparr>uat_remote_data := Some v\<rparr>)
                     (snapshot_of w (uat_id x))) (map (attachment_unified w) (take k (drop i ?L))))
                 else Inr (map (attachment_unified w) (take k (drop i ?L))))
               = Inr res"
  proof (cases rd)
    case False
    then show ?thesis by simp
  next
    case True
    have "\<forall>t \<in> set (take k (drop i ?L)).
            map_sum id (\<lambda>v. (attachment_unified w0 t)\<lparr>uat_remote_data := Some v\<rparr>)
              (snapshot_of w0 (id_tcg_attachment t))
            = Inr ((attachment_unified w0 t)\<lparr>uat_remote_data :=
                 (case snapshot_of w0 (id_tcg_attachment t) of Inr v \<Rightarrow> Some v
                  | Inl _ \<Rightarrow> None)\<rparr>)"
    proof
      fix t assume "t \<in> set (take k (drop i ?L))"
      with sub have "t \<in> set ?L" by blast
      with snaps True obtain v where "snapshot_of w0 (id_tcg_attachment t) = Inr v" by blast
      then show "map_sum id (\<lambda>v. (attachment_unified w0 t)\<lparr>uat_remote_data := Some v\<rparr>)
              (snapshot_of w0 (id_tcg_attachment t))
            = Inr ((attachment_unified w0 t)\<lparr>uat_remote_data :=
                 (case snapshot_of w0 (id_tcg_attachment t) of Inr v \<Rightarrow> Some v
                  | Inl _ \<Rightarrow> None)\<rparr>)"
        by simp
    qed
    then have "collect (map (\<lambda>t. map_sum id (\<lambda>v. (attachment_unified w0 t)\<lparr>uat_remote_data := Some v\<rparr>)
              (snapshot_of w0 (id_tcg_attachment t))) (take k (drop i ?L)))
            = Inr (map (\<lambda>t. (attachment_unified w0 t)\<lparr>uat_remote_data :=
                 (case snapshot_of w0 (id_tcg_attachment t) of Inr v \<Rightarrow> Some v
                  | Inl _ \<Rightarrow> None)\<rparr>) (take k (drop i ?L)))"
      by (rule collect_map_Inr)
    then show ?thesis
      using True by (simp add: same_store_team [OF inv] same_store_attachment [OF inv] comp_def)
  qed
  then obtain res where enrich': "(if rd then collect (map (\<lambda>x. map_sum id (\<lambda>v. x\<lparr>uat_remote_data := Some v\<rparr>)
                     (snapshot_of w (uat_id x))) (map (attachment_unified w) (take k (drop i ?L))))
                 else Inr (map (attachment_unified w) (take k (drop i ?L))))
               = Inr res" ..
  show ?thesis
    unfolding getAttachments_valid [OF valid] Let_def atts nxt enrich'
    by (simp add: same_store_events_create inv same_store_attachment [OF inv])
qed

lemma page_reads_simps [simp]:
  "page_reads (xs @ ys) = page_reads xs @ page_reads ys"
  "page_reads [] = []"
  "page_reads (FindPage t n cur # xs) = FindPage t n cur # page_reads xs"
  "page_reads (FindFirst t # xs) = page_reads xs"
  "page_reads (FindMany t # xs) = page_reads xs"
  "page_reads (FindUnique t # xs) = page_reads xs"
  "page_reads (Create t # xs) = page_reads xs"
  "page_reads (Update t # xs) = page_reads xs"
  "page_reads (replicate n (FindMany t)) = []"
  "page_reads (replicate n (FindFirst t)) = []"
  by (simp_all add: page_reads_def)

lemma collect_map_ids:
  assumes "collect (map (\<lambda>x. map_sum id (upd x) (s x)) xs) = Inr ys"
    and "\<And>x v. idf (upd x v) = idf x"
  shows "map idf ys = map idf xs"
  using assms(1)
proof (induction xs arbitrary: ys)
  case Nil
  then show ?case by simp
next
  case (Cons x xs)
  then show ?case
    by (cases "s x") (auto simp: assms(2) split: sum.splits)
qed

lemma findMany_page_shape:
  "sorted (map createdf (findMany_page idf createdf wheref tk cursor rows))"
  "set (findMany_page idf createdf wheref tk cursor rows) \<subseteq> {r \<in> set rows. wheref r}"
  "length (findMany_page idf createdf wheref tk cursor rows) \<le> tk"
proof -
  have "sorted (map createdf (sort_key createdf (filter wheref rows)))" by simp
  then have s: "sorted_wrt (\<lambda>x y. createdf x \<le> createdf y)
      (sort_key createdf (filter wheref rows))"
    by (simp only: sorted_map)
  show "sorted (map createdf (findMany_page idf createdf wheref tk cursor rows))"
    unfolding findMany_page_def Let_def sorted_map dropWhile_eq_drop
    by (auto split: option.splits intro!: sorted_wrt_take sorted_wrt_drop s)
  show "set (findMany_page idf createdf wheref tk cursor rows) \<subseteq> {r \<in> set rows. wheref r}"
    unfolding findMany_page_def Let_def
    by (auto split: option.splits dest!: in_set_takeD set_dropWhileD)
  show "length (findMany_page idf createdf wheref tk cursor rows) \<le> tk"
    unfolding findMany_page_def Let_def
    by (auto split: option.splits)
qed

lemma getTeams_Inr_valid:
  assumes "getTeams c p g l limit rd cursor w = (Inr r, w')"
  shows "\<not> truthy cursor \<or>
     find (\<lambda>r. team_id_connection r = c \<and> Some (id_tcg_team r) = cursor) (tcg_teams w) \<noteq> None"
proof (rule ccontr)
  assume "\<not> ?thesis"
  then have "truthy cursor"
    and "find (\<lambda>r. team_id_connection r = c \<and> Some (id_tcg_team r) = cursor)
      (tcg_teams w) = None"
    by auto
  from getTeams_invalid_cursor [OF this] assms show False by simp
qed

lemma getContacts_Inr_valid:
  assumes "getContacts c p g l limit rd cursor w = (Inr r, w')"
  shows "\<not> truthy cursor \<or>
     find (\<lambda>r. con_id_connection r = c \<and> Some (id_tcg_contact r) = cursor) (tcg_contacts w)
       \<noteq> None"
proof (rule ccontr)
  assume "\<not> ?thesis"
  then have "truthy cursor"
    and "find (\<lambda>r. con_id_connection r = c \<and> Some (id_tcg_contact r) = cursor)
      (tcg_contacts w) = None"
    by auto
  from getContacts_invalid_cursor [OF this] assms show False by simp
qed

lemma uc_id_contact_unified [simp]: "uc_id (contact_unified w t) = id_tcg_contact t"
  by (simp add: contact_unified_def)

lemma getTeams_page_facts:
  assumes run: "getTeams c p g l limit rd cursor w = (Inr r, w')"
  shows "page_reads (calls w')
           = page_reads (calls w) @ [FindPage ''tcg_teams'' (limit + 1) (cursor_arg cursor)]"
    and "(map ut_id (data r), next_cursor r)
           = spec_page id_tcg_team limit (team_page c limit cursor w)"
    and "prev_cursor r = map_option toBase64 (cursor_arg cursor)"
proof -
  note valid = getTeams_Inr_valid [OF run]
  let ?page = "team_page c limit cursor w"
  let ?teams = "if length ?page = limit + 1 then butlast ?page else ?page"
  let ?enr = "if rd then collect (map (\<lambda>x. map_sum id (\<lambda>v. x\<lparr>ut_remote_data := Some v\<rparr>)
                                          (snapshot_of w (ut_id x))) (map (team_unified w) ?teams))
              else Inr (map (team_unified w) ?teams)"
  from run obtain res where enr: "?enr = Inr res"
    and r: "r = \<lparr>data = res, prev_cursor = map_option toBase64 (cursor_arg cursor),
                 next_cursor = (if length ?page = limit + 1
                                then Some (toBase64 (id_tcg_team (last ?page))) else None)\<rparr>"
    and w': "w' = snd (events_create c p ''success'' ''ticketing.team.pull'' ''GET''
                    ''/ticketing/teams'' g l
              (w\<lparr>calls := calls w @ (if truthy cursor then [FindFirst ''tcg_teams''] else [])
                @ [FindPage ''tcg_teams'' (limit + 1) (cursor_arg cursor)]
                @ replicate (length ?teams) (FindMany ''value'')
                @ (if rd then replicate (length ?teams) (FindFirst ''remote_data'') else [])\<rparr>))"
    unfolding getTeams_valid [OF valid] Let_def
    by (cases ?enr) auto
  show "page_reads (calls w')
           = page_reads (calls w) @ [FindPage ''tcg_teams'' (limit + 1) (cursor_arg cursor)]"
    unfolding w' by (simp add: events_create_apply)
  show "prev_cursor r = map_option toBase64 (cursor_arg cursor)"
    by (simp add: r)
  have ids: "map ut_id res = map id_tcg_team ?teams"
  proof (cases rd)
    case True
    with enr have "collect (map (\<lambda>x. map_sum id (\<lambda>v. x\<lparr>ut_remote_data := Some v\<rparr>)
            (snapshot_of w (ut_id x))) (map (team_unified w) ?teams)) = Inr res"
      by simp
    then have "map ut_id res = map ut_id (map (team_unified w) ?teams)"
      by (rule collect_map_ids) simp
    then show ?thesis by (simp add: comp_def)
  next
    case False
    with enr show ?thesis by (auto simp: comp_def)
  qed
  show "(map ut_id (data r), next_cursor r) = spec_page id_tcg_team limit ?page"
    unfolding r spec_page_def using ids by (simp add: map_butlast)
qed

lemma getContacts_page_facts:
  assumes run: "getContacts c p g l limit rd cursor w = (Inr r, w')"
  shows "page_reads (calls w')
           = page_reads (calls w) @ [FindPage ''tcg_contacts'' (limit + 1) (cursor_arg cursor)]"
    and "(map uc_id (data r), next_cursor r)
           = spec_page id_tcg_contact limit (contact_page c limit cursor w)"
    and "prev_cursor r = map_option toBase64 (cursor_arg cursor)"
proof -
  note valid = getContacts_Inr_valid [OF run]
  let ?page = "contact_page c limit cursor w"
  let ?rows = "if length ?page = limit + 1 then butlast ?page else ?page"
  let ?enr = "if rd then collect (map (\<lambda>x. map_sum id (\<lambda>v. x\<lparr>uc_remote_data := Some v\<rparr>)
                                 (snapshot_of w (uc_id x))) (map (contact_unified w) ?rows))
              else Inr (map (contact_unified w) ?rows)"
  from run obtain res where enr: "?enr = Inr res"
    and r: "r = \<lparr>data = res, prev_cursor = map_option toBase64 (cursor_arg cursor),
                 next_cursor = (if length ?page = limit + 1
                                then Some (toBase64 (id_tcg_contact (last ?page))) else None)\<rparr>"
    and w': "w' = snd (events_create c p ''success'' ''ticketing.contact.pull'' ''GET''
                    ''/ticketing/contacts'' g l
              (w\<lparr>calls := calls w @ (if truthy cursor then [FindFirst ''tcg_contacts''] else [])
                @ [FindPage ''tcg_contacts'' (limit + 1) (cursor_arg cursor)]
                @ replicate (length ?rows) (FindMany ''value'')
                @ (if rd then replicate (length ?rows) (FindFirst ''remote_data'') else [])\<rparr>))"
    unfolding getContacts_valid [OF valid] Let_def
    by (cases ?enr) auto
  show "page_reads (calls w')
           = page_reads (calls w) @ [FindPage ''tcg_contacts'' (limit + 1) (cursor_arg cursor)]"
    unfolding w' by (simp add: events_create_apply)
  show "prev_cursor r = map_option toBase64 (cursor_arg cursor)"
    by (simp add: r)
  have ids: "map uc_id res = map id_tcg_contact ?rows"
  proof (cases rd)
    case True
    with enr have "collect (map (\<lambda>x. map_sum id (\<lambda>v. x\<lparr>uc_remote_data := Some v\<rparr>)
            (snapshot_of w (uc_id x))) (map (contact_unified w) ?rows)) = Inr res"
      by simp
    then have "map uc_id res = map uc_id (map (contact_unified w) ?rows)"
      by (rule collect_map_ids) simp
    then show ?thesis by (simp add: comp_def)
  next
    case False
    with enr show ?thesis by (auto simp: comp_def)
  qed
  show "(map uc_id (data r), next_cursor r) = spec_page id_tcg_contact limit ?page"
    unfolding r spec_page_def using ids by (simp add: map_butlast)
qed

lemma team_page_shape:
  "sorted (map team_created_at (team_page c limit cursor w))"
  "\<forall>t \<in> set (team_page c limit cursor w). t \<in> set (tcg_teams w) \<and> team_id_connection t = c"
  "length (team_page c limit cursor w) \<le> limit + 1"
  "cursor_arg cursor = None \<Longrightarrow>
     team_page c limit cursor w = take (limit + 1) (connection_teams c w)"
  using findMany_page_shape [where createdf = team_created_at and idf = id_tcg_team
      and wheref = "\<lambda>r. team_id_connection r = c" and tk = "limit + 1"
      and cursor = "cursor_arg cursor" and rows = "tcg_teams w"]
  by (auto simp: team_page_def connection_teams_def findMany_page_from_start)

lemma contact_page_shape:
  "sorted (map con_created_at (contact_page c limit cursor w))"
  "\<forall>t \<in> set (contact_page c limit cursor w).
      t \<in> set (tcg_contacts w) \<and> con_id_connection t = c"
  "length (contact_page c limit cursor w) \<le> limit + 1"
  "cursor_arg cursor = None \<Longrightarrow>
     contact_page c limit cursor w = take (limit + 1) (connection_contacts c w)"
  using findMany_page_shape [where createdf = con_created_at and idf = id_tcg_contact
      and wheref = "\<lambda>r. con_id_connection r = c" and tk = "limit + 1"
      and cursor = "cursor_arg cursor" and rows = "tcg_contacts w"]
  by (auto simp: contact_page_def connection_contacts_def findMany_page_from_start)

lemma cursor_arg_Some: "cursor_arg cursor = Some x \<Longrightarrow> cursor = Some x \<and> truthy cursor"
  by (auto simp: cursor_arg_def split: if_splits)

lemma page_starts_at_cursor:
  assumes "cr \<in> set L" and "idf cr = x"
  shows "take (Suc n) (dropWhile (\<lambda>t. idf t \<noteq> x) L) \<noteq> []"
    and "idf (hd (take (Suc n) (dropWhile (\<lambda>t. idf t \<noteq> x) L))) = x"
proof -
  from assms have ne: "dropWhile (\<lambda>t. idf t \<noteq> x) L \<noteq> []"
    by (auto simp: dropWhile_eq_Nil_conv)
  then show "take (Suc n) (dropWhile (\<lambda>t. idf t \<noteq> x) L) \<noteq> []"
    by (cases "dropWhile (\<lambda>t. idf t \<noteq> x) L") simp_all
  from hd_dropWhile [OF ne] have "idf (hd (dropWhile (\<lambda>t. idf t \<noteq> x) L)) = x"
    by simp
  with ne show "idf (hd (take (Suc n) (dropWhile (\<lambda>t. idf t \<noteq> x) L))) = x"
    by (cases "dropWhile (\<lambda>t. idf t \<noteq> x) L") simp_all
qed

lemma team_page_from_cursor:
  assumes run: "getTeams c p g l limit rd cursor w = (Inr r, w')"
    and x: "cursor_arg cursor = Some x"
  shows "team_page c limit cursor w
     = take (limit + 1) (dropWhile (\<lambda>t. id_tcg_team t \<noteq> x) (connection_teams c w))"
    and "team_page c limit cursor w \<noteq> []"
    and "id_tcg_team (hd (team_page c limit cursor w)) = x"
proof -
  from cursor_arg_Some [OF x] getTeams_Inr_valid [OF run]
  obtain cr where "find (\<lambda>r. team_id_connection r = c \<and> Some (id_tcg_team r) = Some x)
      (tcg_teams w) = Some cr"
    by auto
  then have cr: "cr \<in> set (connection_teams c w)" "id_tcg_team cr = x"
    by (auto simp: find_Some_iff connection_teams_def)
  show page: "team_page c limit cursor w
     = take (limit + 1) (dropWhile (\<lambda>t. id_tcg_team t \<noteq> x) (connection_teams c w))"
    by (simp add: team_page_def x connection_teams_def findMany_page_from_cursor)
  show "team_page c limit cursor w \<noteq> []"
    unfolding page using page_starts_at_cursor(1) [where idf = id_tcg_team, OF cr] by simp
  show "id_tcg_team (hd (team_page c limit cursor w)) = x"
    unfolding page using page_starts_at_cursor(2) [where idf = id_tcg_team, OF cr] by simp
qed

lemma contact_page_from_cursor:
  assumes run: "getContacts c p g l limit rd cursor w = (Inr r, w')"
    and x: "cursor_arg cursor = Some x"
  shows "contact_page c limit cursor w
     = take (limit + 1) (dropWhile (\<lambda>t. id_tcg_contact t \<noteq> x) (connection_contacts c w))"
    and "contact_page c limit cursor w \<noteq> []"
    and "id_tcg_contact (hd (contact_page c limit cursor w)) = x"
proof -
  from cursor_arg_Some [OF x] getContacts_Inr_valid [OF run]
  obtain cr where "find (\<lambda>r. con_id_connection r = c \<and> Some (id_tcg_contact r) = Some x)
      (tcg_contacts w) = Some cr"
    by auto
  then have cr: "cr \<in> set (connection_contacts c w)" "id_tcg_contact cr = x"
    by (auto simp: find_Some_iff connection_contacts_def)
  show page: "contact_page c limit cursor w
     = take (limit + 1) (dropWhile (\<lambda>t. id_tcg_contact t \<noteq> x) (connection_contacts c w))"
    by (simp add: contact_page_def x connection_contacts_def findMany_page_from_cursor)
  show "contact_page c limit cursor w \<noteq> []"
    unfolding page using page_starts_at_cursor(1) [where idf = id_tcg_contact, OF cr] by simp
  show "id_tcg_contact (hd (contact_page c limit cursor w)) = x"
    unfolding page using page_starts_at_cursor(2) [where idf = id_tcg_contact, OF cr] by simp
qed

lemma saveOrUpdateTicket_found:
  assumes "find (\<lambda>r. (case uto_remote_id t of None \<Rightarrow> True
                          | Some remote_id \<Rightarrow> tkt_remote_id r = Some remote_id)
                       \<and> tkt_id_connection r = c)
             (tcg_tickets w) = Some e"
  shows "saveOrUpdateTicket t c w =
     (Inr (id_tcg_ticket e),
      w\<lparr>uuid_ctr := Suc (uuid_ctr w), clock_ctr := Suc (Suc (clock_ctr w)),
        tcg_tickets :=
          map (\<lambda>r. if id_tcg_ticket r = id_tcg_ticket e
                    then r\<lparr>id_tcg_ticket := uuid_gen w (uuid_ctr w),
                           tkt_modified_at := clock w (Suc (clock_ctr w)),
                           tkt_name := uto_name t, tkt_status := uto_status t,
                           tkt_priority := uto_priority t, tkt_source := uto_source t,
                           tkt_remote_id :=
                             (case uto_remote_id t of None \<Rightarrow> tkt_remote_id r
                              | Some remote_id \<Rightarrow> Some remote_id),
                           tkt_id_connection := c\<rparr>
                    else r) (tcg_tickets w),
        calls := calls w @ [FindFirst ''tcg_tickets'', Update ''tcg_tickets'']\<rparr>)"
  using assms by (simp add: saveOrUpdateTicket_def io_defs)

lemma saveOrUpdateTicket_not_found:
  assumes "find (\<lambda>r. (case uto_remote_id t of None \<Rightarrow> True
                          | Some remote_id \<Rightarrow> tkt_remote_id r = Some remote_id)
                       \<and> tkt_id_connection r = c)
             (tcg_tickets w) = None"
  shows "saveOrUpdateTicket t c w =
     (Inr (uuid_gen w (uuid_ctr w)),
      w\<lparr>uuid_ctr := Suc (uuid_ctr w), clock_ctr := Suc (clock_ctr w),
        tcg_tickets := tcg_tickets w @
          [\<lparr>id_tcg_ticket = uuid_gen w (uuid_ctr w), tkt_name = uto_name t,
            tkt_status = uto_status t, tkt_priority = uto_priority t,
            tkt_source = uto_source t, tkt_remote_id = uto_remote_id t,
            tkt_id_connection = c, tkt_created_at = None,
            tkt_modified_at = clock w (clock_ctr w)\<rparr>],
        calls := calls w @ [FindFirst ''tcg_tickets'', Create ''tcg_tickets'']\<rparr>)"
  using assms by (simp add: saveOrUpdateTicket_def io_defs Let_def)

lemma getAttachment_frame:
  "getAttachment i lo go c p rd w = (res, w') \<Longrightarrow> tcg_attachments w' = tcg_attachments w"
  by (auto simp: getAttachment_def io_defs value_findMany_def remote_data_findFirst_def
      JSON_parse_data_def Let_def events_create_apply
      split: option.splits json_text.splits if_splits)

lemma dispatchWebhook_frame:
  "dispatchWebhook outcome d ty pr ev w = (res, w') \<Longrightarrow> tcg_attachments w' = tcg_attachments w"
  by (auto simp: dispatchWebhook_def io_defs Let_def split: option.splits)

lemma addAttachment_tail_frame:
  "tcg_attachments (snd (bindE (getAttachment i None None c p rd) (\<lambda>result_attachment.
         bindE (events_create c p st ty me url g l) (\<lambda>event.
         bindE (dispatchWebhook outcome (AttachmentPayload result_attachment) wt
                  pr (id_event event)) (\<lambda>_.
         returnE result_attachment))) w))
   = tcg_attachments w"
proof -
  obtain r1 w1 where g: "getAttachment i None None c p rd w = (r1, w1)"
    by (cases "getAttachment i None None c p rd w")
  note f1 = getAttachment_frame [OF g]
  show ?thesis
  proof (cases r1)
    case (Inl e)
    then show ?thesis by (simp add: bindE_apply g f1)
  next
    case (Inr x)
    let ?w2 = "snd (events_create c p st ty me url g l w1)"
    let ?ev = "projr (fst (events_create c p st ty me url g l w1))"
    obtain r3 w3 where d: "dispatchWebhook outcome (AttachmentPayload x) wt pr
        (id_event ?ev) ?w2 = (r3, w3)"
      by (cases "dispatchWebhook outcome (AttachmentPayload x) wt pr (id_event ?ev) ?w2")
    from dispatchWebhook_frame [OF d] have "tcg_attachments w3 = tcg_attachments w1"
      by (simp add: events_create_apply)
    with d Inr show ?thesis
      by (cases r3) (simp_all add: bindE_apply g f1 events_create_apply returnE_apply)
  qed
qed

lemma addAttachment_found:
  assumes u: "find (\<lambda>u. id_linked_user u = l) (linked_users w) = Some lu"
    and f: "find (\<lambda>r. att_file_name r = uai_file_name d \<and> att_id_connection r = c)
              (tcg_attachments w) = Some e"
  shows "tcg_attachments (snd (addAttachment outcome d c g l p rd w))
     = map (\<lambda>r. if id_tcg_attachment r = id_tcg_attachment e
                  then r\<lparr>att_file_name := uai_file_name d, att_uploader := l,
                         att_modified_at := clock w (clock_ctr w)\<rparr>
                  else r) (tcg_attachments w)"
  unfolding addAttachment_def
  apply (subst bindE_apply)
  apply (simp add: db_read_apply u)
  apply (subst bindE_apply)
  apply (simp add: db_read_apply f)
  apply (subst bindE_apply)
  apply (simp add: bindE_apply [of new_Date] bindE_apply [of "db_write _ _"]
      new_Date_apply db_write_apply returnE_apply)
  apply (subst addAttachment_tail_frame)
  apply simp
  done

lemma addAttachment_not_found:
  assumes u: "find (\<lambda>u. id_linked_user u = l) (linked_users w) = Some lu"
    and f: "find (\<lambda>r. att_file_name r = uai_file_name d \<and> att_id_connection r = c)
              (tcg_attachments w) = None"
  shows "tcg_attachments (snd (addAttachment outcome d c g l p rd w))
     = tcg_attachments w @
        [\<lparr>id_tcg_attachment = uuid_gen w (uuid_ctr w),
          att_file_name = uai_file_name d, att_file_url = None, att_uploader = l,
          att_remote_id = None, att_created_at = clock w (clock_ctr w),
          att_modified_at = clock w (Suc (clock_ctr w)), att_id_connection = c,
          att_id_tcg_comment = None, att_id_tcg_ticket = None\<rparr>]"
  unfolding addAttachment_def
  apply (subst bindE_apply)
  apply (simp add: db_read_apply u)
  apply (subst bindE_apply)
  apply (simp add: db_read_apply f)
  apply (subst bindE_apply)
  apply (simp add: bindE_apply [of new_Date] bindE_apply [of "db_write _ _"]
      bindE_apply [of uuidv4] uuidv4_apply Let_def
      new_Date_apply db_write_apply returnE_apply)
  apply (subst addAttachment_tail_frame)
  apply simp
  done

lemma validateLinkedUser_apply:
  "validateLinkedUser l w =
     (case find (\<lambda>u. id_linked_user u = l) (linked_users w) of
        None \<Rightarrow> Inl (ReferenceError ''Linked User Not Found'')
      | Some u \<Rightarrow> Inr u,
      w\<lparr>calls := calls w @ [FindUnique ''linked_users'']\<rparr>)"
  by (simp add: validateLinkedUser_def io_defs split: option.splits)

lemma validateAccountId_apply:
  "validateAccountId a w =
     (if truthy a then
        (case find (\<lambda>r. Some (id_tcg_account r) = a) (tcg_accounts w) of
           None \<Rightarrow> Inl (ReferenceError ''You inserted an account_id which does not exist'')
         | Some _ \<Rightarrow> Inr (),
         w\<lparr>calls := calls w @ [FindUnique ''tcg_accounts'']\<rparr>)
      else (Inr (), w))"
  by (simp add: validateAccountId_def io_defs split: option.splits)

lemma validateContactId_apply:
  "validateContactId a w =
     (if truthy a then
        (case find (\<lambda>r. Some (id_tcg_contact r) = a) (tcg_contacts w) of
           None \<Rightarrow> Inl (ReferenceError ''You inserted a contact_id which does not exist'')
         | Some _ \<Rightarrow> Inr (),
         w\<lparr>calls := calls w @ [FindUnique ''tcg_contacts'']\<rparr>)
      else (Inr (), w))"
  by (simp add: validateContactId_def io_defs split: option.splits)

lemma promise_all_assignees:
  "promise_all (\<lambda>assignee.
       bindE (db_read (FindUnique ''tcg_users'')
                (\<lambda>w. find (\<lambda>u. id_tcg_user u = assignee) (tcg_users w)))
         (\<lambda>user.
       case user of
         None \<Rightarrow> throwE (ReferenceError ''You inserted an assignee which does not exist'')
       | Some _ \<Rightarrow> returnE ())) xs w
   = (if \<forall>a \<in> set xs. \<exists>u \<in> set (tcg_users w). id_tcg_user u = a
      then Inr (map (\<lambda>_. ()) xs)
      else Inl (ReferenceError ''You inserted an assignee which does not exist''),
      w\<lparr>calls := calls w @ replicate (length xs) (FindUnique ''tcg_users'')\<rparr>)"
proof (induction xs arbitrary: w)
  case Nil
  then show ?case by (simp add: io_defs)
next
  case (Cons x xs)
  show ?case
  proof (cases "find (\<lambda>u. id_tcg_user u = x) (tcg_users w)")
    case None
    then have "\<not> (\<exists>u \<in> set (tcg_users w). id_tcg_user u = x)"
      by (simp add: find_None_iff)
    with None show ?thesis
      by (simp add: promise_all_Cons_apply Cons.IH io_defs replicate_append_same
          del: promise_all.simps cong: promise_all_weak_cong)
  next
    case (Some u)
    then have "\<exists>u \<in> set (tcg_users w). id_tcg_user u = x"
      by (auto simp: find_Some_iff)
    with Some show ?thesis
      by (simp add: promise_all_Cons_apply Cons.IH io_defs replicate_append_same
          del: promise_all.simps cong: promise_all_weak_cong)
  qed
qed

lemma validateAssignees_apply:
  "validateAssignees (Some xs) w =
     (if \<forall>a \<in> set xs. \<exists>u \<in> set (tcg_users w). id_tcg_user u = a
      then Inr ()
      else Inl (ReferenceError ''You inserted an assignee which does not exist''),
      w\<lparr>calls := calls w @ replicate (length xs) (FindUnique ''tcg_users'')\<rparr>)"
proof (cases xs)
  case Nil
  then show ?thesis by (simp add: validateAssignees_def io_defs)
next
  case (Cons x xs')
  then have "length xs > 0" by simp
  then show ?thesis
    unfolding validateAssignees_def
    by (simp add: bindE_apply promise_all_assignees returnE_apply
        del: promise_all.simps cong: promise_all_weak_cong)
qed

lemma addTicket_missing_assignee_state:
  assumes d: "uti_assigned_to d = Some xs"
    and missing: "\<not> (\<forall>a \<in> set xs. \<exists>u \<in> set (tcg_users w). id_tcg_user u = a)"
  shows "\<exists>m cs. addTicket env d c g l p rd w = (Inl (ReferenceError m), w\<lparr>calls := calls w @ cs\<rparr>)
           \<and> (find (\<lambda>u. id_linked_user u = l) (linked_users w) \<noteq> None
               \<and> (truthy (uti_account_id d) \<longrightarrow>
                     find (\<lambda>r. Some (id_tcg_account r) = uti_account_id d) (tcg_accounts w)
                       \<noteq> None)
               \<and> (truthy (uti_contact_id d) \<longrightarrow>
                     find (\<lambda>r. Some (id_tcg_contact r) = uti_contact_id d) (tcg_contacts w)
                       \<noteq> None)
               \<longrightarrow> m = ''You inserted an assignee which does not exist''
                 \<and> length (filter (\<lambda>q. q = FindUnique ''tcg_users'') cs) = length xs)"
proof (cases "find (\<lambda>u. id_linked_user u = l) (linked_users w)")
  case None
  then show ?thesis
    by (intro exI [of _ "''Linked User Not Found''"] exI [of _ "[FindUnique ''linked_users'']"])
      (simp add: addTicket_def bindE_apply validateLinkedUser_apply)
next
  case (Some u)
  let ?w1 = "w\<lparr>calls := calls w @ [FindUnique ''linked_users'']\<rparr>"
  have v1: "validateLinkedUser l w = (Inr u, ?w1)"
    by (simp add: validateLinkedUser_apply Some)
  show ?thesis
  proof (cases "truthy (uti_account_id d)
      \<and> find (\<lambda>r. Some (id_tcg_account r) = uti_account_id d) (tcg_accounts w) = None")
    case True
    then show ?thesis
      by (intro exI [of _ "''You inserted an account_id which does not exist''"]
          exI [of _ "[FindUnique ''linked_users'', FindUnique ''tcg_accounts'']"])
        (simp add: addTicket_def bindE_apply v1 validateAccountId_apply)
  next
    case acc: False
    let ?ca = "if truthy (uti_account_id d) then [FindUnique ''tcg_accounts''] else []"
    let ?w2 = "w\<lparr>calls := calls w @ [FindUnique ''linked_users''] @ ?ca\<rparr>"
    have v2: "validateAccountId (uti_account_id d) ?w1 = (Inr (), ?w2)"
      using acc by (auto simp: validateAccountId_apply)
    show ?thesis
    proof (cases "truthy (uti_contact_id d)
        \<and> find (\<lambda>r. Some (id_tcg_contact r) = uti_contact_id d) (tcg_contacts w) = None")
      case True
      then show ?thesis
        by (intro exI [of _ "''You inserted a contact_id which does not exist''"]
            exI [of _ "[FindUnique ''linked_users''] @ ?ca @ [FindUnique ''tcg_contacts'']"])
          (simp add: addTicket_def bindE_apply v1 v2 validateContactId_apply)
    next
      case con: False
      let ?cc = "if truthy (uti_contact_id d) then [FindUnique ''tcg_contacts''] else []"
      let ?w3 = "w\<lparr>calls := calls w @ [FindUnique ''linked_users''] @ ?ca @ ?cc\<rparr>"
      have v3: "validateContactId (uti_contact_id d) ?w2 = (Inr (), ?w3)"
        using con by (auto simp: validateContactId_apply)
      have v4: "validateAssignees (uti_assigned_to d) ?w3
          = (Inl (ReferenceError ''You inserted an assignee which does not exist''),
             w\<lparr>calls := calls w @ ([FindUnique ''linked_users''] @ ?ca @ ?cc
                  @ replicate (length xs) (FindUnique ''tcg_users''))\<rparr>)"
        using missing by (simp add: d validateAssignees_apply)
      have run: "addTicket env d c g l p rd w
          = (Inl (ReferenceError ''You inserted an assignee which does not exist''),
             w\<lparr>calls := calls w @ ([FindUnique ''linked_users''] @ ?ca @ ?cc
                  @ replicate (length xs) (FindUnique ''tcg_users''))\<rparr>)"
        unfolding addTicket_def
        by (simp add: bindE_apply v1 v2 v3 v4 del: append.simps)
      have "length (filter (\<lambda>q. q = FindUnique ''tcg_users'')
                ([FindUnique ''linked_users''] @ ?ca @ ?cc
                  @ replicate (length xs) (FindUnique ''tcg_users''))) = length xs"
        by simp
      with run show ?thesis by blast
    qed
  qed
qed

lemma bindE_Inr:
  "bindE m f w = (Inr r, w') \<longleftrightarrow> (\<exists>x v. m w = (Inr x, v) \<and> f x v = (Inr r, w'))"
  by (auto simp: bindE_apply split: prod.splits sum.splits)

lemma dispatchWebhook_apply:
  "dispatchWebhook outcome payload ty pr ev w =
     (case outcome \<lparr>wh_data = payload, wh_type = ty, wh_project = pr, wh_event = ev\<rparr> of
        Some e \<Rightarrow> (Inl e, w)
      | None \<Rightarrow> (Inr (), w\<lparr>webhooks := webhooks w @
                   [\<lparr>wh_data = payload, wh_type = ty, wh_project = pr, wh_event = ev\<rparr>]\<rparr>))"
  by (simp add: dispatchWebhook_def Let_def throwE_apply split: option.splits)

lemma bindE_InrE:
  assumes "bindE m f w = (Inr r, w')"
  obtains x v where "m w = (Inr x, v)" and "f x v = (Inr r, w')"
  using assms by (auto simp: bindE_Inr)

lemma case_list_InrE:
  assumes "(case xs of [] \<Rightarrow> throwE e | t # ts \<Rightarrow> k t ts) v = (Inr r, w')"
  obtains t ts where "xs = t # ts" and "k t ts v = (Inr r, w')"
  using assms by (cases xs) (auto simp: throwE_apply)

lemma getAttachment_read_back:
  "getAttachment i None None c p rd w = (res, w') \<Longrightarrow>
     events w' = events w \<and> webhooks w' = webhooks w \<and> tcg_attachments w' = tcg_attachments w
     \<and> tcg_tickets w' = tcg_tickets w"
  by (auto simp: getAttachment_def io_defs value_findMany_def remote_data_findFirst_def
      JSON_parse_data_def Let_def
      split: option.splits json_text.splits if_splits)

lemma addAttachment_tail_apply:
  "bindE (getAttachment i None None c p rd) (\<lambda>result_attachment.
         bindE (events_create c p st ty me url g l) (\<lambda>event.
         bindE (dispatchWebhook outcome (AttachmentPayload result_attachment) wt
                  pr (id_event event)) (\<lambda>_.
         returnE result_attachment))) w
   = (case getAttachment i None None c p rd w of
        (Inl e, w4) \<Rightarrow> (Inl e, w4)
      | (Inr x, w4) \<Rightarrow>
          (case outcome \<lparr>wh_data = AttachmentPayload x, wh_type = wt, wh_project = pr,
                          wh_event = uuid_gen w4 (uuid_ctr w4)\<rparr> of
             Some e \<Rightarrow> (Inl e, snd (events_create c p st ty me url g l w4))
           | None \<Rightarrow>
               (Inr x, (snd (events_create c p st ty me url g l w4))
                  \<lparr>webhooks := webhooks w4 @
                     [\<lparr>wh_data = AttachmentPayload x, wh_type = wt, wh_project = pr,
                       wh_event = uuid_gen w4 (uuid_ctr w4)\<rparr>]\<rparr>)))"
  by (simp add: bindE_apply events_create_apply dispatchWebhook_apply returnE_apply
      split: prod.splits sum.splits option.splits)

lemma addAttachment_steps:
  assumes u: "find (\<lambda>u. id_linked_user u = l) (linked_users w) = Some lu"
  shows "addAttachment outcome d c g l p rd w =
     bindE (getAttachment
              (case find (\<lambda>r. att_file_name r = uai_file_name d \<and> att_id_connection r = c)
                      (tcg_attachments w) of
                 Some e \<Rightarrow> id_tcg_attachment e
               | None \<Rightarrow> uuid_gen w (uuid_ctr w))
              None None c p rd) (\<lambda>result_attachment.
         bindE (events_create c p ''success'' ''ticketing.attachment.push'' ''POST''
                  ''/ticketing/attachments'' g l) (\<lambda>event.
         bindE (dispatchWebhook outcome (AttachmentPayload result_attachment)
                  ''ticketing.attachment.created'' (lu_id_project lu) (id_event event)) (\<lambda>_.
         returnE result_attachment)))
       (case find (\<lambda>r. att_file_name r = uai_file_name d \<and> att_id_connection r = c)
               (tcg_attachments w) of
          Some e \<Rightarrow>
            w\<lparr>clock_ctr := Suc (clock_ctr w),
              tcg_attachments :=
                map (\<lambda>r. if id_tcg_attachment r = id_tcg_attachment e
                          then r\<lparr>att_file_name := uai_file_name d, att_uploader := l,
                                 att_modified_at := clock w (clock_ctr w)\<rparr>
                          else r) (tcg_attachments w),
              calls := calls w @ [FindUnique ''linked_users'', FindFirst ''tcg_attachments'',
                                  Update ''tcg_attachments'']\<rparr>
        | None \<Rightarrow>
            w\<lparr>uuid_ctr := Suc (uuid_ctr w), clock_ctr := Suc (Suc (clock_ctr w)),
              tcg_attachments := tcg_attachments w @
                [\<lparr>id_tcg_attachment = uuid_gen w (uuid_ctr w),
                  att_file_name = uai_file_name d, att_file_url = None, att_uploader = l,
                  att_remote_id = None, att_created_at = clock w (clock_ctr w),
                  att_modified_at = clock w (Suc (clock_ctr w)), att_id_connection = c,
                  att_id_tcg_comment = None, att_id_tcg_ticket = None\<rparr>],
              calls := calls w @ [FindUnique ''linked_users'', FindFirst ''tcg_attachments'',
                                  Create ''tcg_attachments'']\<rparr>)"
proof (cases "find (\<lambda>r. att_file_name r = uai_file_name d \<and> att_id_connection r = c)
               (tcg_attachments w)")
  case None
  show ?thesis
    unfolding addAttachment_def
    apply (subst bindE_apply)
    apply (simp add: db_read_apply u)
    apply (subst bindE_apply)
    apply (simp add: db_read_apply None)
    apply (subst bindE_apply)
    apply (simp add: bindE_apply [of new_Date] bindE_apply [of "db_write _ _"]
      bindE_apply [of uuidv4] uuidv4_apply Let_def
      new_Date_apply db_write_apply returnE_apply)
    done
next
  case (Some e)
  show ?thesis
    unfolding addAttachment_def
    apply (subst bindE_apply)
    apply (simp add: db_read_apply u)
    apply (subst bindE_apply)
    apply (simp add: db_read_apply Some)
    apply (subst bindE_apply)
    apply (simp add: bindE_apply [of new_Date] bindE_apply [of "db_write _ _"]
      new_Date_apply db_write_apply returnE_apply)
    done
qed

lemma addAttachment_no_user:
  assumes "find (\<lambda>u. id_linked_user u = l) (linked_users w) = None"
  shows "addAttachment outcome d c g l p rd w
     = (Inl (ReferenceError ''Linked User Not Found''),
        w\<lparr>calls := calls w @ [FindUnique ''linked_users'']\<rparr>)"
  using assms by (simp add: addAttachment_def io_defs)


lemma addTicket_ends_at_getTicket:
  "isl (fst (addTicket env d c g l p rd w))"
proof (rule ccontr)
  assume "\<not> isl (fst (addTicket env d c g l p rd w))"
  then obtain r where "fst (addTicket env d c g l p rd w) = Inr r"
    by (cases "fst (addTicket env d c g l p rd w)") auto
  then have ok: "addTicket env d c g l p rd w = (Inr r, snd (addTicket env d c g l p rd w))"
    by (simp add: prod_eq_iff)
  show False
    apply (insert ok)
    apply (unfold addTicket_def Let_def)
    apply (erule bindE_InrE)+
    apply (erule case_list_InrE)
    apply (erule bindE_InrE)+
    apply (simp add: getTicket_def throwE_apply)
    done
qed

section \<open>The claims\<close>

subsection \<open>C8: a cursor that names no record of the connection\<close>

text \<open>
  C8. A list call whose cursor is supplied (truthy) and resolves to no record of the
  connection fails with the error \<open>The provided cursor does not exist!\<close> before any
  page is fetched: the state after the call is the state before it with the cursor
  lookup added to the call log, so no page read was sent and no audit event was
  written. Proved for \<open>getTeams\<close> and \<open>getAccounts\<close>.
\<close>

theorem invalid_cursor_fails_before_fetch:
  assumes "truthy cursor"
  shows "((\<forall>r \<in> set (tcg_teams w).
             \<not> (team_id_connection r = c \<and> Some (id_tcg_team r) = cursor)) \<longrightarrow>
          getTeams c p g l limit rd cursor w
            = (Inl (ReferenceError ''The provided cursor does not exist!''),
               w\<lparr>calls := calls w @ [FindFirst ''tcg_teams'']\<rparr>)
          \<and> events (snd (getTeams c p g l limit rd cursor w)) = events w
          \<and> page_reads (calls (snd (getTeams c p g l limit rd cursor w)))
              = page_reads (calls w))
       \<and> ((\<forall>r \<in> set (tcg_accounts w).
             \<not> (acc_id_connection r = c \<and> Some (id_tcg_account r) = cursor)) \<longrightarrow>
          getAccounts c p g l limit rd cursor w
            = (Inl (ReferenceError ''The provided cursor does not exist!''),
               w\<lparr>calls := calls w @ [FindFirst ''tcg_accounts'']\<rparr>)
          \<and> events (snd (getAccounts c p g l limit rd cursor w)) = events w
          \<and> page_reads (calls (snd (getAccounts c p g l limit rd cursor w)))
              = page_reads (calls w))"
proof (intro conjI impI)
  assume none: "\<forall>r \<in> set (tcg_teams w).
     \<not> (team_id_connection r = c \<and> Some (id_tcg_team r) = cursor)"
  then have f: "find (\<lambda>r. team_id_connection r = c \<and> Some (id_tcg_team r) = cursor)
      (tcg_teams w) = None"
    by (simp add: find_None_iff)
  note eq = getTeams_invalid_cursor [OF assms f]
  show "getTeams c p g l limit rd cursor w
            = (Inl (ReferenceError ''The provided cursor does not exist!''),
               w\<lparr>calls := calls w @ [FindFirst ''tcg_teams'']\<rparr>)"
    by (rule eq)
  show "events (snd (getTeams c p g l limit rd cursor w)) = events w"
    by (simp add: eq)
  show "page_reads (calls (snd (getTeams c p g l limit rd cursor w))) = page_reads (calls w)"
    by (simp add: eq page_reads_def)
next
  assume none: "\<forall>r \<in> set (tcg_accounts w).
     \<not> (acc_id_connection r = c \<and> Some (id_tcg_account r) = cursor)"
  then have f: "find (\<lambda>r. acc_id_connection r = c \<and> Some (id_tcg_account r) = cursor)
      (tcg_accounts w) = None"
    by (simp add: find_None_iff)
  note eq = getAccounts_invalid_cursor [OF assms f]
  show "getAccounts c p g l limit rd cursor w
            = (Inl (ReferenceError ''The provided cursor does not exist!''),
               w\<lparr>calls := calls w @ [FindFirst ''tcg_accounts'']\<rparr>)"
    by (rule eq)
  show "events (snd (getAccounts c p g l limit rd cursor w)) = events w"
    by (simp add: eq)
  show "page_reads (calls (snd (getAccounts c p g l limit rd cursor w)))
      = page_reads (calls w)"
    by (simp add: eq page_reads_def)
qed

text \<open>The cursor \<open>t9\<close> names no team and no account of connection \<open>c1\<close> in the example
  store.\<close>

theorem invalid_cursor_fails_before_fetch_witness:
  "getTeams ''c1'' ''p1'' ''zendesk'' ''lu1'' 2 False (Some ''t9'') demo_world
     = (Inl (ReferenceError ''The provided cursor does not exist!''),
        demo_world\<lparr>calls := calls demo_world @ [FindFirst ''tcg_teams'']\<rparr>)
   \<and> getAccounts ''c1'' ''p1'' ''zendesk'' ''lu1'' 2 False (Some ''t9'') demo_world
     = (Inl (ReferenceError ''The provided cursor does not exist!''),
        demo_world\<lparr>calls := calls demo_world @ [FindFirst ''tcg_accounts'']\<rparr>)"
proof -
  have t: "truthy (Some ''t9'')"
    by (simp add: truthy_def)
  have teams: "\<forall>r \<in> set (tcg_teams demo_world).
      \<not> (team_id_connection r = ''c1'' \<and> Some (id_tcg_team r) = Some ''t9'')"
    by (simp add: demo_world_def empty_world_def demo_team_def)
  have accounts: "\<forall>r \<in> set (tcg_accounts demo_world).
      \<not> (acc_id_connection r = ''c1'' \<and> Some (id_tcg_account r) = Some ''t9'')"
    by (simp add: demo_world_def empty_world_def demo_account_def)
  from invalid_cursor_fails_before_fetch
         [OF t, of demo_world "''c1''" "''p1''" "''zendesk''" "''lu1''" 2 False]
       teams accounts
  show ?thesis by blast
qed

subsection \<open>C10: \<open>getAttachments\<close> returns the attachments without their snapshot\<close>

text \<open>
  C10. Whenever \<open>getAttachments\<close> returns, the result it returns is the one the same
  call returns with \<open>remote_data\<close> false, and no attachment of it carries a
  \<open>remote_data\<close> field; with \<open>remote_data\<close> true the snapshots are nevertheless read,
  one query per attachment of the page.
\<close>

theorem getAttachments_never_enriched:
  assumes "getAttachments c p g l limit rd cursor w = (Inr r, w')"
  shows "fst (getAttachments c p g l limit False cursor w) = Inr r
       \<and> (\<forall>a \<in> set (data r). uat_remote_data a = None)
       \<and> (rd \<longrightarrow> length (filter (\<lambda>q. q = FindFirst ''remote_data'') (calls w'))
                   = length (filter (\<lambda>q. q = FindFirst ''remote_data'') (calls w))
                     + length (data r))"
proof -
  have valid: "\<not> truthy cursor \<or>
     find (\<lambda>r. att_id_connection r = c \<and> Some (id_tcg_attachment r) = cursor)
       (tcg_attachments w) \<noteq> None"
  proof (rule ccontr)
    assume "\<not> ?thesis"
    then have "truthy cursor"
      and "find (\<lambda>r. att_id_connection r = c \<and> Some (id_tcg_attachment r) = cursor)
        (tcg_attachments w) = None"
      by auto
    from getAttachments_invalid_cursor [OF this] assms show False by simp
  qed
  let ?page = "attachment_page c limit cursor w"
  let ?atts = "if length ?page = limit + 1 then butlast ?page else ?page"
  let ?r = "\<lparr>data = map (attachment_unified w) ?atts,
             prev_cursor = map_option toBase64 (cursor_arg cursor),
             next_cursor = (if length ?page = limit + 1
                            then Some (toBase64 (id_tcg_attachment (last ?page)))
                            else None)\<rparr>"
  have plain: "fst (getAttachments c p g l limit False cursor w) = Inr ?r"
    by (simp add: getAttachments_valid [OF valid] Let_def)
  have r: "r = ?r"
    using assms unfolding getAttachments_valid [OF valid] Let_def
    by (auto split: sum.splits if_splits)
  have none: "\<forall>a \<in> set (data r). uat_remote_data a = None"
    unfolding r by simp
  have log: "length (filter (\<lambda>q. q = FindFirst ''remote_data'') (calls w'))
                   = length (filter (\<lambda>q. q = FindFirst ''remote_data'') (calls w))
                     + length (data r)" if rd
    using assms that unfolding getAttachments_valid [OF valid] Let_def r
    by (auto simp: events_create_apply split: sum.splits if_splits)
  show ?thesis
    using plain r none log by simp
qed

text \<open>The first page of two attachments of the example store, read with
  \<open>remote_data\<close> true: the call returns, so the theorem applies.\<close>

theorem getAttachments_never_enriched_witness:
  "fst (getAttachments ''c1'' ''p1'' ''zendesk'' ''lu1'' 2 True None demo_world)
     = fst (getAttachments ''c1'' ''p1'' ''zendesk'' ''lu1'' 2 False None demo_world)
   \<and> map uat_id (data (projr (fst
        (getAttachments ''c1'' ''p1'' ''zendesk'' ''lu1'' 2 True None demo_world))))
       = [''a1'', ''a2'']
   \<and> map uat_remote_data (data (projr (fst
        (getAttachments ''c1'' ''p1'' ''zendesk'' ''lu1'' 2 True None demo_world))))
       = [None, None]"
proof -
  let ?run = "getAttachments ''c1'' ''p1'' ''zendesk'' ''lu1'' 2 True None demo_world"
  have "\<not> isl (fst ?run)"
    by code_simp
  then obtain r where r: "fst ?run = Inr r"
    by (cases "fst ?run") auto
  then have run: "?run = (Inr r, snd ?run)"
    by (metis prod.collapse)
  have ids: "map uat_id (data (projr (fst ?run))) = [''a1'', ''a2'']"
    by code_simp
  from getAttachments_never_enriched [OF run] r ids show ?thesis
    by (auto simp: map_eq_Cons_conv)
qed

subsection \<open>C1: reading a connection page by page\<close>

text \<open>
  C1, as amended. Take a store in which the ids of the table, its key, are distinct and
  not empty, a limit \<open>k \<ge> 1\<close>, and, when \<open>remote_data\<close> is asked for, a readable
  snapshot for every record of the connection (a read of a record without one throws,
  which is the matter of C6). Calling the list method from no cursor and then with each
  returned \<open>next_cursor\<close> decoded from base64 back to the record id (\<open>fromBase64\<close>),
  until \<open>next_cursor\<close> is null, ends (any fuel above the number of records suffices)
  and yields the records of the connection in creation order, each once; records
  created at the same time come in the order of the table. Proved for \<open>getTeams\<close> and
  \<open>getAttachments\<close>.
\<close>

theorem pagination_complete_with_decoded_cursor:
  assumes k: "1 \<le> k"
  shows "(distinct (map id_tcg_team (tcg_teams w))
          \<and> (\<forall>t \<in> set (connection_teams c w). id_tcg_team t \<noteq> [])
          \<and> (rd \<longrightarrow> (\<forall>t \<in> set (connection_teams c w).
                        \<exists>v. snapshot_of w (id_tcg_team t) = Inr v))
          \<and> length (connection_teams c w) < fuel
          \<longrightarrow> read_all (getTeams c p g l k rd) fromBase64 fuel None w
                = Some (Inr (map (team_record w rd) (connection_teams c w)))
              \<and> map ut_id (map (team_record w rd) (connection_teams c w))
                = map id_tcg_team (connection_teams c w)
              \<and> distinct (map id_tcg_team (connection_teams c w)))
       \<and> (distinct (map id_tcg_attachment (tcg_attachments w))
          \<and> (\<forall>t \<in> set (connection_attachments c w). id_tcg_attachment t \<noteq> [])
          \<and> (rd \<longrightarrow> (\<forall>t \<in> set (connection_attachments c w).
                        \<exists>v. snapshot_of w (id_tcg_attachment t) = Inr v))
          \<and> length (connection_attachments c w) < fuel
          \<longrightarrow> read_all (getAttachments c p g l k rd) fromBase64 fuel None w
                = Some (Inr (map (attachment_unified w) (connection_attachments c w)))
              \<and> map uat_id (map (attachment_unified w) (connection_attachments c w))
                = map id_tcg_attachment (connection_attachments c w)
              \<and> distinct (map id_tcg_attachment (connection_attachments c w)))"
proof (intro conjI impI)
  assume h: "distinct (map id_tcg_team (tcg_teams w))
          \<and> (\<forall>t \<in> set (connection_teams c w). id_tcg_team t \<noteq> [])
          \<and> (rd \<longrightarrow> (\<forall>t \<in> set (connection_teams c w).
                        \<exists>v. snapshot_of w (id_tcg_team t) = Inr v))
          \<and> length (connection_teams c w) < fuel"
  let ?L = "connection_teams c w"
  have inv: "same_store w w" by (simp add: same_store_def)
  have "read_all (getTeams c p g l k rd) fromBase64 fuel None w
          = Some (Inr (map (team_record w rd) (drop 0 ?L)))"
  proof (rule read_all_complete [where Inv = "same_store w" and k = k
        and c = "\<lambda>i. id_tcg_team (?L ! i)" and tok = "\<lambda>i. toBase64 (id_tcg_team (?L ! i))"])
    show "0 < k" using k by simp
    show "\<exists>r w'. getTeams c p g l k rd cursor w1 = (Inr r, w') \<and> same_store w w'
          \<and> data r = map (team_record w rd) (take k (drop i ?L))
          \<and> next_cursor r = (if i + k < length ?L
               then Some (toBase64 (id_tcg_team (?L ! (i + k)))) else None)"
      if "same_store w w1"
        and "cursor = Some (id_tcg_team (?L ! i)) \<and> i < length ?L \<or> cursor = None \<and> i = 0"
      for i cursor w1
      using getTeams_step [OF that(1) _ _ _ that(2)] h by blast
    show "fromBase64 (toBase64 (id_tcg_team (?L ! j))) = id_tcg_team (?L ! j)" for j
      by (rule fromBase64_toBase64)
    show "same_store w w" by (rule inv)
    show "None = Some (id_tcg_team (?L ! 0)) \<and> 0 < length ?L \<or> None = None \<and> (0::nat) = 0"
      by simp
    show "length ?L - 0 < fuel" using h by simp
  qed
  then show "read_all (getTeams c p g l k rd) fromBase64 fuel None w
                = Some (Inr (map (team_record w rd) ?L))"
    by simp
  show "map ut_id (map (team_record w rd) ?L) = map id_tcg_team ?L"
    by (simp add: team_record_def)
  have "distinct (filter (\<lambda>r. team_id_connection r = c) (tcg_teams w))"
    using h by (simp add: distinct_map)
  have "distinct (map id_tcg_team (filter (\<lambda>r. team_id_connection r = c) (tcg_teams w)))"
    using h by (simp add: distinct_map_filter)
  then show "distinct (map id_tcg_team ?L)"
    by (simp add: connection_teams_def distinct_map)
next
  assume h: "distinct (map id_tcg_attachment (tcg_attachments w))
          \<and> (\<forall>t \<in> set (connection_attachments c w). id_tcg_attachment t \<noteq> [])
          \<and> (rd \<longrightarrow> (\<forall>t \<in> set (connection_attachments c w).
                        \<exists>v. snapshot_of w (id_tcg_attachment t) = Inr v))
          \<and> length (connection_attachments c w) < fuel"
  let ?L = "connection_attachments c w"
  have inv: "same_store w w" by (simp add: same_store_def)
  have "read_all (getAttachments c p g l k rd) fromBase64 fuel None w
          = Some (Inr (map (attachment_unified w) (drop 0 ?L)))"
  proof (rule read_all_complete [where Inv = "same_store w" and k = k
        and c = "\<lambda>i. id_tcg_attachment (?L ! i)"
        and tok = "\<lambda>i. toBase64 (id_tcg_attachment (?L ! i))"])
    show "0 < k" using k by simp
    show "\<exists>r w'. getAttachments c p g l k rd cursor w1 = (Inr r, w') \<and> same_store w w'
          \<and> data r = map (attachment_unified w) (take k (drop i ?L))
          \<and> next_cursor r = (if i + k < length ?L
               then Some (toBase64 (id_tcg_attachment (?L ! (i + k)))) else None)"
      if "same_store w w1"
        and "cursor = Some (id_tcg_attachment (?L ! i)) \<and> i < length ?L
             \<or> cursor = None \<and> i = 0"
      for i cursor w1
      using getAttachments_step [OF that(1) _ _ _ that(2)] h by blast
    show "fromBase64 (toBase64 (id_tcg_attachment (?L ! j))) = id_tcg_attachment (?L ! j)"
      for j
      by (rule fromBase64_toBase64)
    show "same_store w w" by (rule inv)
    show "None = Some (id_tcg_attachment (?L ! 0)) \<and> 0 < length ?L
          \<or> None = None \<and> (0::nat) = 0"
      by simp
    show "length ?L - 0 < fuel" using h by simp
  qed
  then show "read_all (getAttachments c p g l k rd) fromBase64 fuel None w
                = Some (Inr (map (attachment_unified w) ?L))"
    by simp
  show "map uat_id (map (attachment_unified w) ?L) = map id_tcg_attachment ?L"
    by simp
  have "distinct (map id_tcg_attachment
          (filter (\<lambda>r. att_id_connection r = c) (tcg_attachments w)))"
    using h by (simp add: distinct_map_filter)
  then show "distinct (map id_tcg_attachment ?L)"
    by (simp add: connection_attachments_def distinct_map)
qed

text \<open>
  C1 as stated fails on the code. The list methods compare the \<open>cursor\<close> they are given
  with the record ids themselves, and return \<open>next_cursor\<close> as the base64 of a record
  id. Passing the returned \<open>next_cursor\<close> unchanged into the next call therefore names
  no record: with three teams and limit 2, the second call throws.
\<close>

theorem raw_next_cursor_counterexample:
  "read_all (getTeams ''c1'' ''p1'' ''zendesk'' ''lu1'' 2 False) (\<lambda>token. token) 4 None
     demo_world
   = Some (Inl (ReferenceError ''The provided cursor does not exist!''))"
  by code_simp

text \<open>
  The example store meets the hypotheses for connection \<open>c1\<close>: three teams, two of
  them created at the same time, read in pages of two, and three attachments read in
  pages of one with \<open>remote_data\<close> true.
\<close>

theorem pagination_complete_with_decoded_cursor_witness:
  "read_all (getTeams ''c1'' ''p1'' ''zendesk'' ''lu1'' 2 False) fromBase64 4 None demo_world
     = Some (Inr (map (team_record demo_world False) (connection_teams ''c1'' demo_world)))
   \<and> map id_tcg_team (connection_teams ''c1'' demo_world) = [''t1'', ''t2'', ''t3'']
   \<and> read_all (getAttachments ''c1'' ''p1'' ''zendesk'' ''lu1'' 1 True) fromBase64 4 None
        demo_world
     = Some (Inr (map (attachment_unified demo_world)
                    (connection_attachments ''c1'' demo_world)))
   \<and> map id_tcg_attachment (connection_attachments ''c1'' demo_world)
       = [''a1'', ''a2'', ''a3'']"
proof -
  have teams: "connection_teams ''c1'' demo_world
      = [demo_team ''t1'' ''c1'' 10, demo_team ''t2'' ''c1'' 20, demo_team ''t3'' ''c1'' 20]"
    by (simp add: connection_teams_def demo_world_def empty_world_def demo_team_def)
  have atts: "connection_attachments ''c1'' demo_world
      = [demo_attachment ''a1'' ''c1'' 11, demo_attachment ''a2'' ''c1'' 21,
         demo_attachment ''a3'' ''c1'' 31]"
    by (simp add: connection_attachments_def demo_world_def empty_world_def
        demo_attachment_def)
  have h1: "distinct (map id_tcg_team (tcg_teams demo_world))
          \<and> (\<forall>t \<in> set (connection_teams ''c1'' demo_world). id_tcg_team t \<noteq> [])
          \<and> (False \<longrightarrow> (\<forall>t \<in> set (connection_teams ''c1'' demo_world).
                        \<exists>v. snapshot_of demo_world (id_tcg_team t) = Inr v))
          \<and> length (connection_teams ''c1'' demo_world) < 4"
    unfolding teams by (simp add: demo_world_def empty_world_def demo_team_def)
  have h2: "distinct (map id_tcg_attachment (tcg_attachments demo_world))
          \<and> (\<forall>t \<in> set (connection_attachments ''c1'' demo_world). id_tcg_attachment t \<noteq> [])
          \<and> (True \<longrightarrow> (\<forall>t \<in> set (connection_attachments ''c1'' demo_world).
                        \<exists>v. snapshot_of demo_world (id_tcg_attachment t) = Inr v))
          \<and> length (connection_attachments ''c1'' demo_world) < 4"
    unfolding atts
    by (simp add: demo_world_def empty_world_def demo_attachment_def snapshot_of_def)
  have k2: "(1::nat) \<le> 2" and k1: "(1::nat) \<le> 1" by simp_all
  from pagination_complete_with_decoded_cursor
         [OF k2, of demo_world "''c1''" False 4 "''p1''" "''zendesk''" "''lu1''"] h1
  have a: "read_all (getTeams ''c1'' ''p1'' ''zendesk'' ''lu1'' 2 False) fromBase64 4 None
             demo_world
     = Some (Inr (map (team_record demo_world False) (connection_teams ''c1'' demo_world)))"
    by blast
  from pagination_complete_with_decoded_cursor
         [OF k1, of demo_world "''c1''" True 4 "''p1''" "''zendesk''" "''lu1''"] h2
  have b: "read_all (getAttachments ''c1'' ''p1'' ''zendesk'' ''lu1'' 1 True) fromBase64 4 None
        demo_world
     = Some (Inr (map (attachment_unified demo_world)
                    (connection_attachments ''c1'' demo_world)))"
    by blast
  show ?thesis
    using a b by (simp add: teams atts demo_team_def demo_attachment_def)
qed

subsection \<open>C7: what one list call fetches and returns\<close>

text \<open>
  C7. A list call that returns has sent one page read, with \<open>take = limit + 1\<close> and the
  caller's cursor (none when the cursor is absent or empty). The rows that read returns
  (\<open>team_page\<close>) are rows of the connection in ascending creation time, at most
  \<open>limit + 1\<close> of them: the first ones of the connection when there is no cursor, and
  otherwise the ones from the cursor's record on, that record being the first of them.
  When exactly \<open>limit + 1\<close> rows came back, \<open>next_cursor\<close> is the base64 of the last
  row's id and the page is the rows without it; otherwise \<open>next_cursor\<close> is null and
  the page is all of them (\<open>spec_page\<close>, which follows the spec's sentence).
  \<open>prev_cursor\<close> is the base64 of the caller's cursor, or null. Proved for \<open>getTeams\<close>
  and \<open>getContacts\<close>.
\<close>

theorem list_call_fetches_limit_plus_one:
  "(getTeams c p g l limit rd cursor w = (Inr r, w') \<longrightarrow>
      page_reads (calls w')
        = page_reads (calls w) @ [FindPage ''tcg_teams'' (limit + 1) (cursor_arg cursor)]
    \<and> sorted (map team_created_at (team_page c limit cursor w))
    \<and> (\<forall>t \<in> set (team_page c limit cursor w).
          t \<in> set (tcg_teams w) \<and> team_id_connection t = c)
    \<and> length (team_page c limit cursor w) \<le> limit + 1
    \<and> (cursor_arg cursor = None \<longrightarrow>
          team_page c limit cursor w = take (limit + 1) (connection_teams c w))
    \<and> (\<forall>x. cursor_arg cursor = Some x \<longrightarrow>
          team_page c limit cursor w
            = take (limit + 1)
                (dropWhile (\<lambda>t. id_tcg_team t \<noteq> x) (connection_teams c w))
        \<and> team_page c limit cursor w \<noteq> []
        \<and> id_tcg_team (hd (team_page c limit cursor w)) = x)
    \<and> (map ut_id (data r), next_cursor r)
        = spec_page id_tcg_team limit (team_page c limit cursor w)
    \<and> prev_cursor r = map_option toBase64 (cursor_arg cursor))
   \<and> (getContacts c p g l limit rd cursor w = (Inr rc, wc) \<longrightarrow>
      page_reads (calls wc)
        = page_reads (calls w) @ [FindPage ''tcg_contacts'' (limit + 1) (cursor_arg cursor)]
    \<and> sorted (map con_created_at (contact_page c limit cursor w))
    \<and> (\<forall>t \<in> set (contact_page c limit cursor w).
          t \<in> set (tcg_contacts w) \<and> con_id_connection t = c)
    \<and> length (contact_page c limit cursor w) \<le> limit + 1
    \<and> (cursor_arg cursor = None \<longrightarrow>
          contact_page c limit cursor w = take (limit + 1) (connection_contacts c w))
    \<and> (\<forall>x. cursor_arg cursor = Some x \<longrightarrow>
          contact_page c limit cursor w
            = take (limit + 1)
                (dropWhile (\<lambda>t. id_tcg_contact t \<noteq> x) (connection_contacts c w))
        \<and> contact_page c limit cursor w \<noteq> []
        \<and> id_tcg_contact (hd (contact_page c limit cursor w)) = x)
    \<and> (map uc_id (data rc), next_cursor rc)
        = spec_page id_tcg_contact limit (contact_page c limit cursor w)
    \<and> prev_cursor rc = map_option toBase64 (cursor_arg cursor))"
proof (intro conjI impI allI)
  assume run: "getTeams c p g l limit rd cursor w = (Inr r, w')"
  show "page_reads (calls w')
        = page_reads (calls w) @ [FindPage ''tcg_teams'' (limit + 1) (cursor_arg cursor)]"
    by (rule getTeams_page_facts(1) [OF run])
  show "(map ut_id (data r), next_cursor r)
        = spec_page id_tcg_team limit (team_page c limit cursor w)"
    by (rule getTeams_page_facts(2) [OF run])
  show "prev_cursor r = map_option toBase64 (cursor_arg cursor)"
    by (rule getTeams_page_facts(3) [OF run])
  show "sorted (map team_created_at (team_page c limit cursor w))"
    by (rule team_page_shape(1))
  show "\<forall>t \<in> set (team_page c limit cursor w).
          t \<in> set (tcg_teams w) \<and> team_id_connection t = c"
    by (rule team_page_shape(2))
  show "length (team_page c limit cursor w) \<le> limit + 1"
    by (rule team_page_shape(3))
  show "team_page c limit cursor w = take (limit + 1) (connection_teams c w)"
    if "cursor_arg cursor = None"
    by (rule team_page_shape(4) [OF that])
  show "team_page c limit cursor w
            = take (limit + 1)
                (dropWhile (\<lambda>t. id_tcg_team t \<noteq> x) (connection_teams c w))"
    if "cursor_arg cursor = Some x" for x
    by (rule team_page_from_cursor(1) [OF run that])
  show "team_page c limit cursor w \<noteq> []" if "cursor_arg cursor = Some x" for x
    by (rule team_page_from_cursor(2) [OF run that])
  show "id_tcg_team (hd (team_page c limit cursor w)) = x"
    if "cursor_arg cursor = Some x" for x
    by (rule team_page_from_cursor(3) [OF run that])
next
  assume run: "getContacts c p g l limit rd cursor w = (Inr rc, wc)"
  show "page_reads (calls wc)
        = page_reads (calls w) @ [FindPage ''tcg_contacts'' (limit + 1) (cursor_arg cursor)]"
    by (rule getContacts_page_facts(1) [OF run])
  show "(map uc_id (data rc), next_cursor rc)
        = spec_page id_tcg_contact limit (contact_page c limit cursor w)"
    by (rule getContacts_page_facts(2) [OF run])
  show "prev_cursor rc = map_option toBase64 (cursor_arg cursor)"
    by (rule getContacts_page_facts(3) [OF run])
  show "sorted (map con_created_at (contact_page c limit cursor w))"
    by (rule contact_page_shape(1))
  show "\<forall>t \<in> set (contact_page c limit cursor w).
          t \<in> set (tcg_contacts w) \<and> con_id_connection t = c"
    by (rule contact_page_shape(2))
  show "length (contact_page c limit cursor w) \<le> limit + 1"
    by (rule contact_page_shape(3))
  show "contact_page c limit cursor w = take (limit + 1) (connection_contacts c w)"
    if "cursor_arg cursor = None"
    by (rule contact_page_shape(4) [OF that])
  show "contact_page c limit cursor w
            = take (limit + 1)
                (dropWhile (\<lambda>t. id_tcg_contact t \<noteq> x) (connection_contacts c w))"
    if "cursor_arg cursor = Some x" for x
    by (rule contact_page_from_cursor(1) [OF run that])
  show "contact_page c limit cursor w \<noteq> []" if "cursor_arg cursor = Some x" for x
    by (rule contact_page_from_cursor(2) [OF run that])
  show "id_tcg_contact (hd (contact_page c limit cursor w)) = x"
    if "cursor_arg cursor = Some x" for x
    by (rule contact_page_from_cursor(3) [OF run that])
qed

text \<open>
  In the example store: the teams from \<open>t2\<close> on with limit 1 (two rows come back, \<open>t2\<close>
  and \<open>t3\<close>, which has the creation time of \<open>t2\<close>; the second becomes \<open>next_cursor\<close>), and the two contacts with limit 2 (no third row, no
  \<open>next_cursor\<close>).
\<close>

theorem list_call_fetches_limit_plus_one_witness:
  "(map ut_id (data (projr (fst
       (getTeams ''c1'' ''p1'' ''zendesk'' ''lu1'' 1 False (Some ''t2'') demo_world)))),
    next_cursor (projr (fst
       (getTeams ''c1'' ''p1'' ''zendesk'' ''lu1'' 1 False (Some ''t2'') demo_world))))
     = ([''t2''], Some ''dDM='')
   \<and> prev_cursor (projr (fst
       (getTeams ''c1'' ''p1'' ''zendesk'' ''lu1'' 1 False (Some ''t2'') demo_world)))
     = Some ''dDI=''
   \<and> (map uc_id (data (projr (fst
       (getContacts ''c1'' ''p1'' ''zendesk'' ''lu1'' 2 False None demo_world)))),
    next_cursor (projr (fst
       (getContacts ''c1'' ''p1'' ''zendesk'' ''lu1'' 2 False None demo_world))))
     = ([''k1'', ''k2''], None)
   \<and> prev_cursor (projr (fst
       (getContacts ''c1'' ''p1'' ''zendesk'' ''lu1'' 2 False None demo_world)))
     = None"
proof -
  let ?t = "getTeams ''c1'' ''p1'' ''zendesk'' ''lu1'' 1 False (Some ''t2'') demo_world"
  let ?k = "getContacts ''c1'' ''p1'' ''zendesk'' ''lu1'' 2 False None demo_world"
  have "\<not> isl (fst ?t)" by code_simp
  then have rt: "?t = (Inr (projr (fst ?t)), snd ?t)"
    by (cases "fst ?t") (auto simp: prod_eq_iff)
  have "\<not> isl (fst ?k)" by code_simp
  then have rk: "?k = (Inr (projr (fst ?k)), snd ?k)"
    by (cases "fst ?k") (auto simp: prod_eq_iff)
  have pt: "spec_page id_tcg_team 1 (team_page ''c1'' 1 (Some ''t2'') demo_world)
      = ([''t2''], Some ''dDM='')"
    by code_simp
  have pk: "spec_page id_tcg_contact 2 (contact_page ''c1'' 2 None demo_world)
      = ([''k1'', ''k2''], None)"
    by code_simp
  have ct: "map_option toBase64 (cursor_arg (Some ''t2'')) = Some ''dDI=''"
    by code_simp
  have ck: "map_option toBase64 (cursor_arg None) = None"
    by code_simp
  from list_call_fetches_limit_plus_one
    [of "''c1''" "''p1''" "''zendesk''" "''lu1''" 1 False "Some ''t2''" demo_world
       "projr (fst ?t)" "snd ?t"] rt
  have a: "(map ut_id (data (projr (fst ?t))), next_cursor (projr (fst ?t)))
        = spec_page id_tcg_team 1 (team_page ''c1'' 1 (Some ''t2'') demo_world)"
    and b: "prev_cursor (projr (fst ?t)) = map_option toBase64 (cursor_arg (Some ''t2''))"
    by blast+
  from list_call_fetches_limit_plus_one
    [of "''c1''" "''p1''" "''zendesk''" "''lu1''" 2 False None demo_world _ _
       "projr (fst ?k)" "snd ?k"] rk
  have c: "(map uc_id (data (projr (fst ?k))), next_cursor (projr (fst ?k)))
        = spec_page id_tcg_contact 2 (contact_page ''c1'' 2 None demo_world)"
    and d: "prev_cursor (projr (fst ?k)) = map_option toBase64 (cursor_arg None)"
    by blast+
  show ?thesis
    using a b c d unfolding pt pk ct ck by simp
qed

subsection \<open>C4: reading a record that is not there\<close>

text \<open>
  C4. What the single-record reads do when no row has the id. \<open>getAttachment\<close> throws
  its not-found error (\<open>Attachment not found\<close>). \<open>getAccount\<close> and \<open>getContact\<close> do
  not: they log a warning and go on, and fail on reading a field of \<open>null\<close> with a
  \<open>TypeError\<close>. In all three the state after the call is the state before it with
  the lookup added to the call log: no record is returned and no event is written.
\<close>

theorem single_read_of_absent_record:
  "((\<forall>r \<in> set (tcg_accounts w). id_tcg_account r \<noteq> i) \<longrightarrow>
      getAccount i g l c p rd w
        = (Inl (TypeError ''Cannot read properties of null (reading id_tcg_account)''),
           w\<lparr>calls := calls w @ [FindUnique ''tcg_accounts'']\<rparr>))
   \<and> ((\<forall>r \<in> set (tcg_contacts w). id_tcg_contact r \<noteq> i) \<longrightarrow>
      getContact i l g c p rd w
        = (Inl (TypeError ''Cannot read properties of null (reading id_tcg_contact)''),
           w\<lparr>calls := calls w @ [FindUnique ''tcg_contacts'']\<rparr>))
   \<and> ((\<forall>r \<in> set (tcg_attachments w). id_tcg_attachment r \<noteq> i) \<longrightarrow>
      getAttachment i lo go c p rd w
        = (Inl (ReferenceError ''Attachment not found''),
           w\<lparr>calls := calls w @ [FindUnique ''tcg_attachments'']\<rparr>))"
proof (intro conjI impI)
  assume "\<forall>r \<in> set (tcg_accounts w). id_tcg_account r \<noteq> i"
  then have "find (\<lambda>r. id_tcg_account r = i) (tcg_accounts w) = None"
    by (simp add: find_None_iff)
  then show "getAccount i g l c p rd w
        = (Inl (TypeError ''Cannot read properties of null (reading id_tcg_account)''),
           w\<lparr>calls := calls w @ [FindUnique ''tcg_accounts'']\<rparr>)"
    by (simp add: getAccount_def io_defs)
next
  assume "\<forall>r \<in> set (tcg_contacts w). id_tcg_contact r \<noteq> i"
  then have "find (\<lambda>r. id_tcg_contact r = i) (tcg_contacts w) = None"
    by (simp add: find_None_iff)
  then show "getContact i l g c p rd w
        = (Inl (TypeError ''Cannot read properties of null (reading id_tcg_contact)''),
           w\<lparr>calls := calls w @ [FindUnique ''tcg_contacts'']\<rparr>)"
    by (simp add: getContact_def io_defs)
next
  assume "\<forall>r \<in> set (tcg_attachments w). id_tcg_attachment r \<noteq> i"
  then have "find (\<lambda>r. id_tcg_attachment r = i) (tcg_attachments w) = None"
    by (simp add: find_None_iff)
  then show "getAttachment i lo go c p rd w
        = (Inl (ReferenceError ''Attachment not found''),
           w\<lparr>calls := calls w @ [FindUnique ''tcg_attachments'']\<rparr>)"
    by (simp add: getAttachment_def io_defs)
qed

text \<open>
  Ids that the example store does not hold, one for each of the three reads.
\<close>

theorem single_read_of_absent_record_witness:
  "fst (getAccount ''acc404'' ''zendesk'' ''lu1'' ''c1'' ''p1'' False demo_world)
     = Inl (TypeError ''Cannot read properties of null (reading id_tcg_account)'')
   \<and> fst (getContact ''k404'' ''lu1'' ''zendesk'' ''c1'' ''p1'' False demo_world)
     = Inl (TypeError ''Cannot read properties of null (reading id_tcg_contact)'')
   \<and> fst (getAttachment ''a404'' (Some ''lu1'') (Some ''zendesk'') ''c1'' ''p1'' False demo_world)
     = Inl (ReferenceError ''Attachment not found'')"
proof -
  have a: "\<forall>r \<in> set (tcg_accounts demo_world). id_tcg_account r \<noteq> ''acc404''"
    by (simp add: demo_world_def empty_world_def demo_account_def)
  have b: "\<forall>r \<in> set (tcg_contacts demo_world). id_tcg_contact r \<noteq> ''k404''"
    by (simp add: demo_world_def empty_world_def demo_contact_def)
  have c: "\<forall>r \<in> set (tcg_attachments demo_world). id_tcg_attachment r \<noteq> ''a404''"
    by (simp add: demo_world_def empty_world_def demo_attachment_def)
  from single_read_of_absent_record
    [of demo_world "''acc404''" "''zendesk''" "''lu1''" "''c1''" "''p1''" False]
    a
  have 1: "fst (getAccount ''acc404'' ''zendesk'' ''lu1'' ''c1'' ''p1'' False demo_world)
     = Inl (TypeError ''Cannot read properties of null (reading id_tcg_account)'')"
    by simp
  from single_read_of_absent_record
    [of demo_world "''k404''" "''zendesk''" "''lu1''" "''c1''" "''p1''" False]
    b
  have 2: "fst (getContact ''k404'' ''lu1'' ''zendesk'' ''c1'' ''p1'' False demo_world)
     = Inl (TypeError ''Cannot read properties of null (reading id_tcg_contact)'')"
    by simp
  from single_read_of_absent_record
    [of demo_world "''a404''" _ _ "''c1''" "''p1''" False "Some ''lu1''" "Some ''zendesk''"]
    c
  have 3: "fst (getAttachment ''a404'' (Some ''lu1'') (Some ''zendesk'') ''c1'' ''p1'' False
      demo_world) = Inl (ReferenceError ''Attachment not found'')"
    by simp
  show ?thesis using 1 2 3 by simp
qed

subsection \<open>C6: reading the snapshot of a record that has none\<close>

text \<open>
  C6. A single-record read of a record that is there but has no stored snapshot:
  with \<open>remote_data\<close> true, \<open>getTeam\<close> and \<open>getAccount\<close> throw a \<open>TypeError\<close> on
  reading \<open>data\<close> of the missing snapshot, after the record, its field mappings and
  the snapshot were looked up and before any event is written; with \<open>remote_data\<close>
  false the same read returns the record without a snapshot.
\<close>

theorem read_with_missing_snapshot_throws:
  "(find (\<lambda>r. id_tcg_team r = i) (tcg_teams w) = Some t
      \<and> (\<forall>s \<in> set (remote_data_tbl w). rd_ressource_owner_id s \<noteq> id_tcg_team t) \<longrightarrow>
      getTeam i l g c p True w
        = (Inl (TypeError ''Cannot read properties of null (reading data)''),
           w\<lparr>calls := calls w @ [FindUnique ''tcg_teams'', FindMany ''value'',
                                  FindFirst ''remote_data'']\<rparr>)
      \<and> (\<exists>r w'. getTeam i l g c p False w = (Inr r, w') \<and> ut_remote_data r = None))
   \<and> (find (\<lambda>r. id_tcg_account r = i) (tcg_accounts w) = Some a
      \<and> (\<forall>s \<in> set (remote_data_tbl w). rd_ressource_owner_id s \<noteq> id_tcg_account a) \<longrightarrow>
      getAccount i g l c p True w
        = (Inl (TypeError ''Cannot read properties of null (reading data)''),
           w\<lparr>calls := calls w @ [FindUnique ''tcg_accounts'', FindMany ''value'',
                                  FindFirst ''remote_data'']\<rparr>)
      \<and> (\<exists>r w'. getAccount i g l c p False w = (Inr r, w') \<and> ua_remote_data r = None))"
proof (intro conjI impI)
  assume h: "find (\<lambda>r. id_tcg_team r = i) (tcg_teams w) = Some t
      \<and> (\<forall>s \<in> set (remote_data_tbl w). rd_ressource_owner_id s \<noteq> id_tcg_team t)"
  then have s: "find (\<lambda>r. rd_ressource_owner_id r = id_tcg_team t) (remote_data_tbl w) = None"
    by (simp add: find_None_iff)
  show "getTeam i l g c p True w
        = (Inl (TypeError ''Cannot read properties of null (reading data)''),
           w\<lparr>calls := calls w @ [FindUnique ''tcg_teams'', FindMany ''value'',
                                  FindFirst ''remote_data'']\<rparr>)"
    using h s
    by (simp add: getTeam_def io_defs value_findMany_def remote_data_findFirst_def
        JSON_parse_data_def Let_def)
  show "\<exists>r w'. getTeam i l g c p False w = (Inr r, w') \<and> ut_remote_data r = None"
    using h
    by (simp add: getTeam_def io_defs value_findMany_def Let_def events_create_apply)
next
  assume h: "find (\<lambda>r. id_tcg_account r = i) (tcg_accounts w) = Some a
      \<and> (\<forall>s \<in> set (remote_data_tbl w). rd_ressource_owner_id s \<noteq> id_tcg_account a)"
  then have s: "find (\<lambda>r. rd_ressource_owner_id r = id_tcg_account a) (remote_data_tbl w)
      = None"
    by (simp add: find_None_iff)
  show "getAccount i g l c p True w
        = (Inl (TypeError ''Cannot read properties of null (reading data)''),
           w\<lparr>calls := calls w @ [FindUnique ''tcg_accounts'', FindMany ''value'',
                                  FindFirst ''remote_data'']\<rparr>)"
    using h s
    by (simp add: getAccount_def io_defs value_findMany_def remote_data_findFirst_def
        JSON_parse_data_def Let_def)
  show "\<exists>r w'. getAccount i g l c p False w = (Inr r, w') \<and> ua_remote_data r = None"
    using h
    by (simp add: getAccount_def io_defs value_findMany_def Let_def events_create_apply)
qed

text \<open>
  Team \<open>t2\<close> and account \<open>acc1\<close> of the example store have no snapshot.
\<close>

theorem read_with_missing_snapshot_throws_witness:
  "fst (getTeam ''t2'' ''lu1'' ''zendesk'' ''c1'' ''p1'' True demo_world)
     = Inl (TypeError ''Cannot read properties of null (reading data)'')
   \<and> events (snd (getTeam ''t2'' ''lu1'' ''zendesk'' ''c1'' ''p1'' True demo_world))
     = events demo_world
   \<and> fst (getAccount ''acc1'' ''zendesk'' ''lu1'' ''c1'' ''p1'' True demo_world)
     = Inl (TypeError ''Cannot read properties of null (reading data)'')"
proof -
  have t: "find (\<lambda>r. id_tcg_team r = ''t2'') (tcg_teams demo_world)
             = Some (demo_team ''t2'' ''c1'' 20)
      \<and> (\<forall>s \<in> set (remote_data_tbl demo_world).
            rd_ressource_owner_id s \<noteq> id_tcg_team (demo_team ''t2'' ''c1'' 20))"
    by (simp add: demo_world_def empty_world_def demo_team_def)
  have a: "find (\<lambda>r. id_tcg_account r = ''acc1'') (tcg_accounts demo_world)
             = Some (demo_account ''acc1'' ''c1'' 5)
      \<and> (\<forall>s \<in> set (remote_data_tbl demo_world).
            rd_ressource_owner_id s \<noteq> id_tcg_account (demo_account ''acc1'' ''c1'' 5))"
    by (simp add: demo_world_def empty_world_def demo_account_def)
  from read_with_missing_snapshot_throws
    [of "''t2''" demo_world "demo_team ''t2'' ''c1'' 20" "''lu1''" "''zendesk''" "''c1''" "''p1''"]
    t
  have 1: "getTeam ''t2'' ''lu1'' ''zendesk'' ''c1'' ''p1'' True demo_world
        = (Inl (TypeError ''Cannot read properties of null (reading data)''),
           demo_world\<lparr>calls := calls demo_world @ [FindUnique ''tcg_teams'', FindMany ''value'',
                                  FindFirst ''remote_data'']\<rparr>)"
    by blast
  from read_with_missing_snapshot_throws
    [of "''acc1''" demo_world _ "''lu1''" "''zendesk''" "''c1''" "''p1''"
      "demo_account ''acc1'' ''c1'' 5"]
    a
  have 2: "getAccount ''acc1'' ''zendesk'' ''lu1'' ''c1'' ''p1'' True demo_world
        = (Inl (TypeError ''Cannot read properties of null (reading data)''),
           demo_world\<lparr>calls := calls demo_world @ [FindUnique ''tcg_accounts'',
              FindMany ''value'', FindFirst ''remote_data'']\<rparr>)"
    by blast
  show ?thesis
    by (simp add: 1 2)
qed

subsection \<open>C2: pushing the same response twice\<close>

text \<open>
  C2. The second push of a provider response: \<open>saveOrUpdateTicket\<close> finds the row of
  the first push by \<open>(remote_id, id_connection)\<close> (by the connection alone when the
  response carries no remote id) and updates it in place, so there is
  still one row and its \<open>created_at\<close> is untouched. But the \<open>data\<close> object it writes
  carries the \<open>id_tcg_ticket\<close> generated for this call: the row's internal id becomes
  the new uuid, and the id the function returns (the one the row had) names no row of
  the table any more.
\<close>

theorem second_push_replaces_internal_id:
  assumes found: "find (\<lambda>r. (case uto_remote_id t of None \<Rightarrow> True
                                 | Some remote_id \<Rightarrow> tkt_remote_id r = Some remote_id)
                              \<and> tkt_id_connection r = c)
             (tcg_tickets w) = Some e"
    and fresh: "uuid_gen w (uuid_ctr w) \<noteq> id_tcg_ticket e"
  shows "fst (saveOrUpdateTicket t c w) = Inr (id_tcg_ticket e)
       \<and> length (tcg_tickets (snd (saveOrUpdateTicket t c w))) = length (tcg_tickets w)
       \<and> map tkt_created_at (tcg_tickets (snd (saveOrUpdateTicket t c w)))
           = map tkt_created_at (tcg_tickets w)
       \<and> map id_tcg_ticket (tcg_tickets (snd (saveOrUpdateTicket t c w)))
           = map (\<lambda>i. if i = id_tcg_ticket e then uuid_gen w (uuid_ctr w) else i)
               (map id_tcg_ticket (tcg_tickets w))
       \<and> id_tcg_ticket e \<notin> set (map id_tcg_ticket (tcg_tickets (snd (saveOrUpdateTicket t c w))))"
proof -
  note eq = saveOrUpdateTicket_found [OF found]
  have a: "map id_tcg_ticket (tcg_tickets (snd (saveOrUpdateTicket t c w)))
           = map (\<lambda>i. if i = id_tcg_ticket e then uuid_gen w (uuid_ctr w) else i)
               (map id_tcg_ticket (tcg_tickets w))"
    by (simp add: eq comp_def if_distrib [of id_tcg_ticket] cong: if_cong)
  have b: "map tkt_created_at (tcg_tickets (snd (saveOrUpdateTicket t c w)))
           = map tkt_created_at (tcg_tickets w)"
    by (simp add: eq comp_def if_distrib [of tkt_created_at] cong: if_cong)
  have c: "id_tcg_ticket e
      \<notin> set (map id_tcg_ticket (tcg_tickets (snd (saveOrUpdateTicket t c w))))"
    unfolding a using fresh by auto
  show ?thesis
    using a b c by (simp add: eq)
qed

text \<open>
  The same ticket pushed twice into the example store, which holds no ticket: the row
  is created with id \<open>uuid-\<close>; the second push returns \<open>uuid-\<close> and leaves one row,
  whose id is now \<open>uuid-x\<close> and whose \<open>modified_at\<close> has advanced from 1000 to 1002.
\<close>

theorem second_push_replaces_internal_id_witness:
  "map id_tcg_ticket (tcg_tickets (snd (saveOrUpdateTicket demo_ticket ''c1'' demo_world)))
     = [''uuid-'']
   \<and> fst (saveOrUpdateTicket demo_ticket ''c1''
           (snd (saveOrUpdateTicket demo_ticket ''c1'' demo_world))) = Inr ''uuid-''
   \<and> map id_tcg_ticket (tcg_tickets (snd (saveOrUpdateTicket demo_ticket ''c1''
           (snd (saveOrUpdateTicket demo_ticket ''c1'' demo_world))))) = [''uuid-x'']
   \<and> map tkt_modified_at (tcg_tickets (snd (saveOrUpdateTicket demo_ticket ''c1''
           (snd (saveOrUpdateTicket demo_ticket ''c1'' demo_world))))) = [1002]"
proof -
  let ?w1 = "snd (saveOrUpdateTicket demo_ticket ''c1'' demo_world)"
  let ?row = "\<lparr>id_tcg_ticket = ''uuid-'', tkt_name = ''Bug'', tkt_status = ''open'',
      tkt_priority = ''high'', tkt_source = ''email'', tkt_remote_id = Some ''rt-1'',
      tkt_id_connection = ''c1'', tkt_created_at = None, tkt_modified_at = 1000\<rparr>"
  have none: "find (\<lambda>r. (case uto_remote_id demo_ticket of None \<Rightarrow> True
                             | Some remote_id \<Rightarrow> tkt_remote_id r = Some remote_id)
                          \<and> tkt_id_connection r = ''c1'')
      (tcg_tickets demo_world) = None"
    by (simp add: demo_world_def empty_world_def)
  have w1: "tcg_tickets ?w1 = [?row]" "uuid_gen ?w1 = demo_uuid" "uuid_ctr ?w1 = 1"
    "clock ?w1 = demo_clock" "clock_ctr ?w1 = 1"
    unfolding saveOrUpdateTicket_not_found [OF none]
    by (simp_all add: demo_world_def empty_world_def demo_ticket_def demo_uuid_def
        demo_clock_def)
  have found: "find (\<lambda>r. (case uto_remote_id demo_ticket of None \<Rightarrow> True
                              | Some remote_id \<Rightarrow> tkt_remote_id r = Some remote_id)
                           \<and> tkt_id_connection r = ''c1'') (tcg_tickets ?w1) = Some ?row"
    unfolding w1 by (simp add: demo_ticket_def)
  have fresh: "uuid_gen ?w1 (uuid_ctr ?w1) \<noteq> id_tcg_ticket ?row"
    by (simp add: w1 demo_uuid_def)
  from second_push_replaces_internal_id [OF found fresh]
  have "fst (saveOrUpdateTicket demo_ticket ''c1'' ?w1) = Inr ''uuid-''"
    and "map id_tcg_ticket (tcg_tickets (snd (saveOrUpdateTicket demo_ticket ''c1'' ?w1)))
           = [''uuid-x'']"
    by (simp_all add: w1 demo_uuid_def)
  moreover have "map tkt_modified_at
      (tcg_tickets (snd (saveOrUpdateTicket demo_ticket ''c1'' ?w1))) = [1002]"
    unfolding saveOrUpdateTicket_found [OF found]
    by (simp add: w1 demo_clock_def)
  ultimately show ?thesis
    by (simp add: w1)
qed

subsection \<open>C3: the key of the upsert\<close>

text \<open>
  C3, as amended. For a unified ticket that carries a remote id, \<open>saveOrUpdateTicket\<close>
  looks the existing row up by \<open>(remote_id, id_connection)\<close>; \<open>addAttachment\<close> looks it
  up by \<open>(file_name, id_connection)\<close>; neither looks it up by the internal id. When a row is found, it is updated in place
  (the ticket's name, status, priority, source, remote id and connection, the
  attachment's file name and uploader) with \<open>modified_at\<close> set to the current time,
  and no row is added; otherwise one row is appended, whose internal id is the uuid
  generated in this call. The statement holds whatever \<open>addAttachment\<close> does after the
  write (its read-back, event and webhook may fail). Two things are left open here: what
  the ticket update does to the internal id of the row it updates (\<open>new_id\<close>), and the
  ticket without remote id, for which the lookup is by the connection alone.
\<close>

theorem upsert_lookup_and_write:
  "(\<forall>e. uto_remote_id t = Some rid
        \<and> find (\<lambda>r. tkt_remote_id r = Some rid \<and> tkt_id_connection r = c)
              (tcg_tickets w) = Some e \<longrightarrow>
        fst (saveOrUpdateTicket t c w) = Inr (id_tcg_ticket e)
      \<and> (\<exists>new_id. tcg_tickets (snd (saveOrUpdateTicket t c w))
           = map (\<lambda>r. if id_tcg_ticket r = id_tcg_ticket e
                       then r\<lparr>id_tcg_ticket := new_id,
                              tkt_modified_at := clock w (Suc (clock_ctr w)),
                              tkt_name := uto_name t, tkt_status := uto_status t,
                              tkt_priority := uto_priority t, tkt_source := uto_source t,
                              tkt_remote_id := Some rid, tkt_id_connection := c\<rparr>
                       else r) (tcg_tickets w)))
   \<and> (uto_remote_id t = Some rid
      \<and> find (\<lambda>r. tkt_remote_id r = Some rid \<and> tkt_id_connection r = c)
            (tcg_tickets w) = None \<longrightarrow>
        fst (saveOrUpdateTicket t c w) = Inr (uuid_gen w (uuid_ctr w))
      \<and> tcg_tickets (snd (saveOrUpdateTicket t c w))
          = tcg_tickets w @
             [\<lparr>id_tcg_ticket = uuid_gen w (uuid_ctr w), tkt_name = uto_name t,
               tkt_status = uto_status t, tkt_priority = uto_priority t,
               tkt_source = uto_source t, tkt_remote_id = Some rid,
               tkt_id_connection = c, tkt_created_at = None,
               tkt_modified_at = clock w (clock_ctr w)\<rparr>])
   \<and> (\<forall>lu. find (\<lambda>u. id_linked_user u = l) (linked_users w) = Some lu \<longrightarrow>
        (\<forall>e. find (\<lambda>r. att_file_name r = uai_file_name d \<and> att_id_connection r = c)
               (tcg_attachments w) = Some e \<longrightarrow>
             tcg_attachments (snd (addAttachment outcome d c g l p rd w))
               = map (\<lambda>r. if id_tcg_attachment r = id_tcg_attachment e
                           then r\<lparr>att_file_name := uai_file_name d, att_uploader := l,
                                  att_modified_at := clock w (clock_ctr w)\<rparr>
                           else r) (tcg_attachments w))
      \<and> (find (\<lambda>r. att_file_name r = uai_file_name d \<and> att_id_connection r = c)
               (tcg_attachments w) = None \<longrightarrow>
             tcg_attachments (snd (addAttachment outcome d c g l p rd w))
               = tcg_attachments w @
                  [\<lparr>id_tcg_attachment = uuid_gen w (uuid_ctr w),
                    att_file_name = uai_file_name d, att_file_url = None,
                    att_uploader = l, att_remote_id = None,
                    att_created_at = clock w (clock_ctr w),
                    att_modified_at = clock w (Suc (clock_ctr w)),
                    att_id_connection = c, att_id_tcg_comment = None,
                    att_id_tcg_ticket = None\<rparr>]))"
proof (intro conjI allI impI)
  fix e
  assume h: "uto_remote_id t = Some rid
        \<and> find (\<lambda>r. tkt_remote_id r = Some rid \<and> tkt_id_connection r = c)
              (tcg_tickets w) = Some e"
  then have rid: "uto_remote_id t = Some rid" by simp
  from h have f: "find (\<lambda>r. (case uto_remote_id t of None \<Rightarrow> True
                            | Some remote_id \<Rightarrow> tkt_remote_id r = Some remote_id)
                         \<and> tkt_id_connection r = c) (tcg_tickets w) = Some e"
    by simp
  show "fst (saveOrUpdateTicket t c w) = Inr (id_tcg_ticket e)"
    by (simp add: saveOrUpdateTicket_found [OF f])
  show "\<exists>new_id. tcg_tickets (snd (saveOrUpdateTicket t c w))
           = map (\<lambda>r. if id_tcg_ticket r = id_tcg_ticket e
                       then r\<lparr>id_tcg_ticket := new_id,
                              tkt_modified_at := clock w (Suc (clock_ctr w)),
                              tkt_name := uto_name t, tkt_status := uto_status t,
                              tkt_priority := uto_priority t, tkt_source := uto_source t,
                              tkt_remote_id := Some rid, tkt_id_connection := c\<rparr>
                       else r) (tcg_tickets w)"
    by (rule exI [of _ "uuid_gen w (uuid_ctr w)"])
      (simp add: saveOrUpdateTicket_found [OF f] rid)
next
  assume h: "uto_remote_id t = Some rid
      \<and> find (\<lambda>r. tkt_remote_id r = Some rid \<and> tkt_id_connection r = c)
            (tcg_tickets w) = None"
  then have rid: "uto_remote_id t = Some rid" by simp
  from h have f: "find (\<lambda>r. (case uto_remote_id t of None \<Rightarrow> True
                            | Some remote_id \<Rightarrow> tkt_remote_id r = Some remote_id)
                         \<and> tkt_id_connection r = c) (tcg_tickets w) = None"
    by simp
  show "fst (saveOrUpdateTicket t c w) = Inr (uuid_gen w (uuid_ctr w))"
    by (simp add: saveOrUpdateTicket_not_found [OF f])
  show "tcg_tickets (snd (saveOrUpdateTicket t c w))
          = tcg_tickets w @
             [\<lparr>id_tcg_ticket = uuid_gen w (uuid_ctr w), tkt_name = uto_name t,
               tkt_status = uto_status t, tkt_priority = uto_priority t,
               tkt_source = uto_source t, tkt_remote_id = Some rid,
               tkt_id_connection = c, tkt_created_at = None,
               tkt_modified_at = clock w (clock_ctr w)\<rparr>]"
    by (simp add: saveOrUpdateTicket_not_found [OF f] rid)
next
  fix lu e
  assume u: "find (\<lambda>u. id_linked_user u = l) (linked_users w) = Some lu"
    and f: "find (\<lambda>r. att_file_name r = uai_file_name d \<and> att_id_connection r = c)
               (tcg_attachments w) = Some e"
  show "tcg_attachments (snd (addAttachment outcome d c g l p rd w))
               = map (\<lambda>r. if id_tcg_attachment r = id_tcg_attachment e
                           then r\<lparr>att_file_name := uai_file_name d, att_uploader := l,
                                  att_modified_at := clock w (clock_ctr w)\<rparr>
                           else r) (tcg_attachments w)"
    by (rule addAttachment_found [OF u f])
next
  fix lu
  assume u: "find (\<lambda>u. id_linked_user u = l) (linked_users w) = Some lu"
    and f: "find (\<lambda>r. att_file_name r = uai_file_name d \<and> att_id_connection r = c)
               (tcg_attachments w) = None"
  show "tcg_attachments (snd (addAttachment outcome d c g l p rd w))
               = tcg_attachments w @
                  [\<lparr>id_tcg_attachment = uuid_gen w (uuid_ctr w),
                    att_file_name = uai_file_name d, att_file_url = None,
                    att_uploader = l, att_remote_id = None,
                    att_created_at = clock w (clock_ctr w),
                    att_modified_at = clock w (Suc (clock_ctr w)),
                    att_id_connection = c, att_id_tcg_comment = None,
                    att_id_tcg_ticket = None\<rparr>]"
    by (rule addAttachment_not_found [OF u f])
qed

text \<open>
  C3 as stated fails on \<open>addAttachment\<close>: its key is the file name, not the remote id.
  In the example store, pushing the file name \<open>a3.txt\<close> on connection \<open>c1\<close> touches
  the third stored attachment (\<open>modified_at\<close> 31 becomes 1000), a row that no lookup by
  \<open>(remote_id, id_connection)\<close> returns, whatever the remote id.
\<close>

theorem attachment_upsert_key_counterexample:
  "map att_modified_at (tcg_attachments (snd
      (addAttachment (\<lambda>_. None) \<lparr>uai_file_name = ''a3.txt''\<rparr> ''c1'' ''zendesk'' ''lu1''
         ''p1'' False demo_world)))
     = [21, 11, 1000]
   \<and> map id_tcg_attachment (tcg_attachments demo_world) = [''a2'', ''a1'', ''a3'']
   \<and> map att_modified_at (tcg_attachments demo_world) = [21, 11, 31]
   \<and> (\<forall>rid. find (\<lambda>r. att_remote_id r = rid \<and> att_id_connection r = ''c1'')
               (tcg_attachments demo_world) \<noteq> Some (demo_attachment ''a3'' ''c1'' 31))"
proof -
  have "map att_modified_at (tcg_attachments (snd
      (addAttachment (\<lambda>_. None) \<lparr>uai_file_name = ''a3.txt''\<rparr> ''c1'' ''zendesk'' ''lu1''
         ''p1'' False demo_world)))
     = [21, 11, 1000]"
    by code_simp
  moreover have "map id_tcg_attachment (tcg_attachments demo_world) = [''a2'', ''a1'', ''a3'']"
    "map att_modified_at (tcg_attachments demo_world) = [21, 11, 31]"
    by (simp_all add: demo_world_def empty_world_def demo_attachment_def)
  moreover have "find (\<lambda>r. att_remote_id r = rid \<and> att_id_connection r = ''c1'')
               (tcg_attachments demo_world) \<noteq> Some (demo_attachment ''a3'' ''c1'' 31)" for rid
    by (cases rid) (simp_all add: demo_world_def empty_world_def demo_attachment_def)
  ultimately show ?thesis by blast
qed

text \<open>
  In the example store: a ticket with a new remote id is created; the attachment
  \<open>a1.txt\<close> is found and touched; the attachment \<open>new.txt\<close> is created.
\<close>

theorem upsert_lookup_and_write_witness:
  "tcg_tickets (snd (saveOrUpdateTicket demo_ticket ''c1'' demo_world))
     = [\<lparr>id_tcg_ticket = ''uuid-'', tkt_name = ''Bug'', tkt_status = ''open'',
         tkt_priority = ''high'', tkt_source = ''email'', tkt_remote_id = Some ''rt-1'',
         tkt_id_connection = ''c1'', tkt_created_at = None, tkt_modified_at = 1000\<rparr>]
   \<and> map att_modified_at (tcg_attachments (snd
        (addAttachment (\<lambda>_. None) \<lparr>uai_file_name = ''a1.txt''\<rparr> ''c1'' ''zendesk'' ''lu1''
           ''p1'' False demo_world)))
       = [21, 1000, 31]
   \<and> map id_tcg_attachment (tcg_attachments (snd
        (addAttachment (\<lambda>_. None) \<lparr>uai_file_name = ''new.txt''\<rparr> ''c1'' ''zendesk'' ''lu1''
           ''p1'' False demo_world)))
       = [''a2'', ''a1'', ''a3'', ''uuid-'']"
proof -
  have none: "uto_remote_id demo_ticket = Some ''rt-1''
      \<and> find (\<lambda>r. tkt_remote_id r = Some ''rt-1'' \<and> tkt_id_connection r = ''c1'')
            (tcg_tickets demo_world) = None"
    by (simp add: demo_world_def empty_world_def demo_ticket_def)
  have u: "find (\<lambda>u. id_linked_user u = ''lu1'') (linked_users demo_world)
      = Some \<lparr>id_linked_user = ''lu1'', lu_id_project = ''p1''\<rparr>"
    by (simp add: demo_world_def empty_world_def)
  have f1: "find (\<lambda>r. att_file_name r = uai_file_name \<lparr>uai_file_name = ''a1.txt''\<rparr>
                       \<and> att_id_connection r = ''c1'') (tcg_attachments demo_world)
      = Some (demo_attachment ''a1'' ''c1'' 11)"
    by (simp add: demo_world_def empty_world_def demo_attachment_def)
  have f2: "find (\<lambda>r. att_file_name r = uai_file_name \<lparr>uai_file_name = ''new.txt''\<rparr>
                       \<and> att_id_connection r = ''c1'') (tcg_attachments demo_world)
      = None"
    by (simp add: demo_world_def empty_world_def demo_attachment_def)
  from upsert_lookup_and_write [of demo_ticket "''rt-1''" "''c1''" demo_world] none
  have a: "tcg_tickets (snd (saveOrUpdateTicket demo_ticket ''c1'' demo_world))
          = tcg_tickets demo_world @
             [\<lparr>id_tcg_ticket = uuid_gen demo_world (uuid_ctr demo_world),
               tkt_name = uto_name demo_ticket,
               tkt_status = uto_status demo_ticket, tkt_priority = uto_priority demo_ticket,
               tkt_source = uto_source demo_ticket, tkt_remote_id = Some ''rt-1'',
               tkt_id_connection = ''c1'', tkt_created_at = None,
               tkt_modified_at = clock demo_world (clock_ctr demo_world)\<rparr>]"
    by blast
  from upsert_lookup_and_write
    [of _ _ "''c1''" demo_world "''lu1''" "\<lparr>uai_file_name = ''a1.txt''\<rparr>" "\<lambda>_. None"
       "''zendesk''" "''p1''" False] u f1
  have b: "tcg_attachments (snd (addAttachment (\<lambda>_. None) \<lparr>uai_file_name = ''a1.txt''\<rparr>
        ''c1'' ''zendesk'' ''lu1'' ''p1'' False demo_world))
     = map (\<lambda>r. if id_tcg_attachment r = id_tcg_attachment (demo_attachment ''a1'' ''c1'' 11)
                 then r\<lparr>att_file_name := uai_file_name \<lparr>uai_file_name = ''a1.txt''\<rparr>,
                        att_uploader := ''lu1'',
                        att_modified_at := clock demo_world (clock_ctr demo_world)\<rparr>
                 else r) (tcg_attachments demo_world)"
    by blast
  from upsert_lookup_and_write
    [of _ _ "''c1''" demo_world "''lu1''" "\<lparr>uai_file_name = ''new.txt''\<rparr>" "\<lambda>_. None"
       "''zendesk''" "''p1''" False] u f2
  have c: "tcg_attachments (snd (addAttachment (\<lambda>_. None) \<lparr>uai_file_name = ''new.txt''\<rparr>
        ''c1'' ''zendesk'' ''lu1'' ''p1'' False demo_world))
     = tcg_attachments demo_world @
                  [\<lparr>id_tcg_attachment = uuid_gen demo_world (uuid_ctr demo_world),
                    att_file_name = uai_file_name \<lparr>uai_file_name = ''new.txt''\<rparr>,
                    att_file_url = None,
                    att_uploader = ''lu1'', att_remote_id = None,
                    att_created_at = clock demo_world (clock_ctr demo_world),
                    att_modified_at = clock demo_world (Suc (clock_ctr demo_world)),
                    att_id_connection = ''c1'', att_id_tcg_comment = None,
                    att_id_tcg_ticket = None\<rparr>]"
    by blast
  show ?thesis
    unfolding a b c
    by (simp add: demo_world_def empty_world_def demo_attachment_def demo_ticket_def
        demo_uuid_def demo_clock_def)
qed

subsection \<open>C9: an assignee that does not exist\<close>

text \<open>
  C9. When the \<open>assigned_to\<close> list of the input holds, at any place, an id that no
  user has, \<open>addTicket\<close> fails with a \<open>ReferenceError\<close> and leaves the tickets, the
  attachments, the events and the webhooks as they were: nothing is created, no event
  is written, no webhook is dispatched. When the earlier validations pass (the linked
  user exists, and the account and the contact when given), the error is the
  assignee's (\<open>You inserted an assignee which does not exist\<close>) and the call log shows
  one user lookup for every element of the list: the check does not stop at the
  first id that is found, nor at the first that is not.
\<close>

theorem addTicket_missing_assignee:
  assumes "uti_assigned_to d = Some xs"
    and "a \<in> set xs"
    and "\<forall>u \<in> set (tcg_users w). id_tcg_user u \<noteq> a"
  shows "(\<exists>m. fst (addTicket env d c g l p rd w) = Inl (ReferenceError m))
       \<and> tcg_tickets (snd (addTicket env d c g l p rd w)) = tcg_tickets w
       \<and> tcg_attachments (snd (addTicket env d c g l p rd w)) = tcg_attachments w
       \<and> events (snd (addTicket env d c g l p rd w)) = events w
       \<and> webhooks (snd (addTicket env d c g l p rd w)) = webhooks w
       \<and> (find (\<lambda>u. id_linked_user u = l) (linked_users w) \<noteq> None
            \<and> (truthy (uti_account_id d) \<longrightarrow>
                  find (\<lambda>r. Some (id_tcg_account r) = uti_account_id d) (tcg_accounts w)
                    \<noteq> None)
            \<and> (truthy (uti_contact_id d) \<longrightarrow>
                  find (\<lambda>r. Some (id_tcg_contact r) = uti_contact_id d) (tcg_contacts w)
                    \<noteq> None)
            \<longrightarrow> fst (addTicket env d c g l p rd w)
                  = Inl (ReferenceError ''You inserted an assignee which does not exist'')
              \<and> length (filter (\<lambda>q. q = FindUnique ''tcg_users'')
                          (calls (snd (addTicket env d c g l p rd w))))
                  = length (filter (\<lambda>q. q = FindUnique ''tcg_users'') (calls w))
                    + length xs)"
proof -
  have "\<not> (\<forall>a \<in> set xs. \<exists>u \<in> set (tcg_users w). id_tcg_user u = a)"
    using assms(2,3) by blast
  from addTicket_missing_assignee_state [OF assms(1) this, of env c g l p rd]
  obtain m cs where
    run: "addTicket env d c g l p rd w = (Inl (ReferenceError m), w\<lparr>calls := calls w @ cs\<rparr>)"
    and exact: "find (\<lambda>u. id_linked_user u = l) (linked_users w) \<noteq> None
               \<and> (truthy (uti_account_id d) \<longrightarrow>
                     find (\<lambda>r. Some (id_tcg_account r) = uti_account_id d) (tcg_accounts w)
                       \<noteq> None)
               \<and> (truthy (uti_contact_id d) \<longrightarrow>
                     find (\<lambda>r. Some (id_tcg_contact r) = uti_contact_id d) (tcg_contacts w)
                       \<noteq> None)
               \<longrightarrow> m = ''You inserted an assignee which does not exist''
                 \<and> length (filter (\<lambda>q. q = FindUnique ''tcg_users'') cs) = length xs"
    by blast
  show ?thesis
    unfolding run using exact by simp
qed

text \<open>
  In the example store user \<open>u1\<close> exists and \<open>nonexistent-id\<close> does not; the list
  starts with the one that exists.
\<close>

theorem addTicket_missing_assignee_witness:
  "fst (addTicket demo_env (demo_input\<lparr>uti_assigned_to := Some [''u1'', ''nonexistent-id'']\<rparr>)
          ''c1'' ''zendesk'' ''lu1'' ''p1'' False demo_world)
     = Inl (ReferenceError ''You inserted an assignee which does not exist'')
   \<and> tcg_tickets (snd (addTicket demo_env
          (demo_input\<lparr>uti_assigned_to := Some [''u1'', ''nonexistent-id'']\<rparr>)
          ''c1'' ''zendesk'' ''lu1'' ''p1'' False demo_world)) = []
   \<and> events (snd (addTicket demo_env
          (demo_input\<lparr>uti_assigned_to := Some [''u1'', ''nonexistent-id'']\<rparr>)
          ''c1'' ''zendesk'' ''lu1'' ''p1'' False demo_world)) = []
   \<and> webhooks (snd (addTicket demo_env
          (demo_input\<lparr>uti_assigned_to := Some [''u1'', ''nonexistent-id'']\<rparr>)
          ''c1'' ''zendesk'' ''lu1'' ''p1'' False demo_world)) = []"
proof -
  let ?d = "demo_input\<lparr>uti_assigned_to := Some [''u1'', ''nonexistent-id'']\<rparr>"
  have 1: "uti_assigned_to ?d = Some [''u1'', ''nonexistent-id'']" by simp
  have 2: "''nonexistent-id'' \<in> set [''u1'', ''nonexistent-id'']" by simp
  have 3: "\<forall>u \<in> set (tcg_users demo_world). id_tcg_user u \<noteq> ''nonexistent-id''"
    by (simp add: demo_world_def empty_world_def)
  have 4: "find (\<lambda>u. id_linked_user u = ''lu1'') (linked_users demo_world) \<noteq> None
      \<and> (truthy (uti_account_id ?d) \<longrightarrow>
            find (\<lambda>r. Some (id_tcg_account r) = uti_account_id ?d) (tcg_accounts demo_world)
              \<noteq> None)
      \<and> (truthy (uti_contact_id ?d) \<longrightarrow>
            find (\<lambda>r. Some (id_tcg_contact r) = uti_contact_id ?d) (tcg_contacts demo_world)
              \<noteq> None)"
    by (simp add: demo_world_def empty_world_def demo_input_def demo_account_def truthy_def)
  from addTicket_missing_assignee [OF 1 2 3, of demo_env "''c1''" "''zendesk''" "''lu1''"
      "''p1''" False] 4
  show ?thesis
    by (simp add: demo_world_def empty_world_def)
qed

subsection \<open>C5: a webhook dispatch that fails\<close>

text \<open>
  C5, as amended. Take an attachment push that returns the hydrated record \<open>r\<close> in
  state \<open>w'\<close> when the webhook fan-out accepts the notification. Then \<open>w'\<close> holds the
  upsert (the row found, touched, or the row created), one more event, of type
  \<open>ticketing.attachment.push\<close> and status \<open>success\<close>, and one more webhook, the
  notification of \<open>r\<close> for that event. With a fan-out that throws \<open>e\<close> on this
  notification, the same push fails with \<open>e\<close>: \<open>addAttachment\<close> awaits the dispatch
  inside its \<open>try\<close> and its \<open>catch\<close> throws the error on. Its state is \<open>w'\<close> without the
  notification, so the upsert and the audit event are written all the same. The record
  is returned exactly when the dispatch succeeds. \<open>addTicket\<close> awaits its dispatch in
  the same way, but no run of it gets there: it ends at the read-back
  (\<open>addTicket_ends_at_getTicket\<close>), which is left out here.
\<close>

theorem webhook_failure_is_rethrown:
  assumes ok: "addAttachment (\<lambda>_. None) d c g l p rd w = (Inr r, w')"
  shows "(\<exists>lu. find (\<lambda>u. id_linked_user u = l) (linked_users w) = Some lu
            \<and> webhooks w' = webhooks w @
                [\<lparr>wh_data = AttachmentPayload r, wh_type = ''ticketing.attachment.created'',
                  wh_project = lu_id_project lu, wh_event = id_event (last (events w'))\<rparr>])
       \<and> events w' = events w @ [last (events w')]
       \<and> ev_type (last (events w')) = ''ticketing.attachment.push''
       \<and> ev_status (last (events w')) = ''success''
       \<and> tcg_attachments w'
           = (case find (\<lambda>r. att_file_name r = uai_file_name d \<and> att_id_connection r = c)
                     (tcg_attachments w) of
                Some e \<Rightarrow>
                  map (\<lambda>r. if id_tcg_attachment r = id_tcg_attachment e
                            then r\<lparr>att_file_name := uai_file_name d, att_uploader := l,
                                   att_modified_at := clock w (clock_ctr w)\<rparr>
                            else r) (tcg_attachments w)
              | None \<Rightarrow>
                  tcg_attachments w @
                    [\<lparr>id_tcg_attachment = uuid_gen w (uuid_ctr w),
                      att_file_name = uai_file_name d, att_file_url = None,
                      att_uploader = l, att_remote_id = None,
                      att_created_at = clock w (clock_ctr w),
                      att_modified_at = clock w (Suc (clock_ctr w)),
                      att_id_connection = c, att_id_tcg_comment = None,
                      att_id_tcg_ticket = None\<rparr>])
       \<and> (\<forall>e. outcome (last (webhooks w')) = Some e \<longrightarrow>
             addAttachment outcome d c g l p rd w = (Inl e, w'\<lparr>webhooks := webhooks w\<rparr>))
       \<and> (outcome (last (webhooks w')) = None \<longrightarrow>
             addAttachment outcome d c g l p rd w = (Inr r, w'))"
proof -
  let ?key = "find (\<lambda>r. att_file_name r = uai_file_name d \<and> att_id_connection r = c)
                (tcg_attachments w)"
  let ?uid = "case ?key of Some e \<Rightarrow> id_tcg_attachment e | None \<Rightarrow> uuid_gen w (uuid_ctr w)"
  let ?w3 = "case ?key of
          Some e \<Rightarrow>
            w\<lparr>clock_ctr := Suc (clock_ctr w),
              tcg_attachments :=
                map (\<lambda>r. if id_tcg_attachment r = id_tcg_attachment e
                          then r\<lparr>att_file_name := uai_file_name d, att_uploader := l,
                                 att_modified_at := clock w (clock_ctr w)\<rparr>
                          else r) (tcg_attachments w),
              calls := calls w @ [FindUnique ''linked_users'', FindFirst ''tcg_attachments'',
                                  Update ''tcg_attachments'']\<rparr>
        | None \<Rightarrow>
            w\<lparr>uuid_ctr := Suc (uuid_ctr w), clock_ctr := Suc (Suc (clock_ctr w)),
              tcg_attachments := tcg_attachments w @
                [\<lparr>id_tcg_attachment = uuid_gen w (uuid_ctr w),
                  att_file_name = uai_file_name d, att_file_url = None, att_uploader = l,
                  att_remote_id = None, att_created_at = clock w (clock_ctr w),
                  att_modified_at = clock w (Suc (clock_ctr w)), att_id_connection = c,
                  att_id_tcg_comment = None, att_id_tcg_ticket = None\<rparr>],
              calls := calls w @ [FindUnique ''linked_users'', FindFirst ''tcg_attachments'',
                                  Create ''tcg_attachments'']\<rparr>"
  obtain lu where u: "find (\<lambda>u. id_linked_user u = l) (linked_users w) = Some lu"
    using ok addAttachment_no_user [of l w "\<lambda>_. None" d c g p rd]
    by (cases "find (\<lambda>u. id_linked_user u = l) (linked_users w)") auto
  note st = addAttachment_steps [OF u, of _ d c g p rd]
  obtain ra w4 where g: "getAttachment ?uid None None c p rd ?w3 = (ra, w4)"
    by (cases "getAttachment ?uid None None c p rd ?w3")
  let ?ev = "\<lparr>id_event = uuid_gen w4 (uuid_ctr w4), ev_id_connection = c, ev_id_project = p,
            ev_status = ''success'', ev_type = ''ticketing.attachment.push'',
            ev_method = ''POST'', ev_url = ''/ticketing/attachments'', ev_provider = g,
            ev_direction = ''0'', ev_timestamp = clock w4 (clock_ctr w4),
            ev_id_linked_user = l\<rparr>"
  let ?call = "\<lparr>wh_data = AttachmentPayload r, wh_type = ''ticketing.attachment.created'',
                wh_project = lu_id_project lu, wh_event = uuid_gen w4 (uuid_ctr w4)\<rparr>"
  let ?w5 = "w4\<lparr>uuid_ctr := Suc (uuid_ctr w4), clock_ctr := Suc (clock_ctr w4),
        events := events w4 @ [?ev], calls := calls w4 @ [Create ''events'']\<rparr>"
  from ok have ra: "ra = Inr r" and w': "w' = ?w5\<lparr>webhooks := webhooks w4 @ [?call]\<rparr>"
    unfolding st addAttachment_tail_apply g
    by (auto simp: events_create_apply split: sum.splits)
  from getAttachment_read_back [OF g]
  have f4: "events w4 = events ?w3" "webhooks w4 = webhooks ?w3"
    "tcg_attachments w4 = tcg_attachments ?w3"
    by simp_all
  have f3: "events ?w3 = events w" "webhooks ?w3 = webhooks w"
    by (simp_all split: option.splits)
  have ev: "events w' = events w @ [?ev]"
    by (simp add: w' f4 f3)
  have wh: "webhooks w' = webhooks w @ [?call]"
    by (simp add: w' f4 f3)
  have undelivered: "w'\<lparr>webhooks := webhooks w\<rparr> = ?w5"
    using f4(2) f3(2) by (simp add: w')
  have run: "addAttachment outcome d c g l p rd w
      = (case outcome ?call of Some e \<Rightarrow> (Inl e, ?w5) | None \<Rightarrow> (Inr r, w'))"
    unfolding st addAttachment_tail_apply g ra w'
    by (simp add: events_create_apply split: option.splits)
  show ?thesis
  proof (intro conjI allI impI)
    show "\<exists>lu. find (\<lambda>u. id_linked_user u = l) (linked_users w) = Some lu
            \<and> webhooks w' = webhooks w @
                [\<lparr>wh_data = AttachmentPayload r, wh_type = ''ticketing.attachment.created'',
                  wh_project = lu_id_project lu, wh_event = id_event (last (events w'))\<rparr>]"
      by (rule exI [of _ lu]) (simp add: u wh ev)
    show "events w' = events w @ [last (events w')]"
      by (simp add: ev)
    show "ev_type (last (events w')) = ''ticketing.attachment.push''"
      by (simp add: ev)
    show "ev_status (last (events w')) = ''success''"
      by (simp add: ev)
    show "tcg_attachments w'
           = (case ?key of
                Some e \<Rightarrow>
                  map (\<lambda>r. if id_tcg_attachment r = id_tcg_attachment e
                            then r\<lparr>att_file_name := uai_file_name d, att_uploader := l,
                                   att_modified_at := clock w (clock_ctr w)\<rparr>
                            else r) (tcg_attachments w)
              | None \<Rightarrow>
                  tcg_attachments w @
                    [\<lparr>id_tcg_attachment = uuid_gen w (uuid_ctr w),
                      att_file_name = uai_file_name d, att_file_url = None,
                      att_uploader = l, att_remote_id = None,
                      att_created_at = clock w (clock_ctr w),
                      att_modified_at = clock w (Suc (clock_ctr w)),
                      att_id_connection = c, att_id_tcg_comment = None,
                      att_id_tcg_ticket = None\<rparr>])"
      by (simp add: w' f4 split: option.splits)
    show "addAttachment outcome d c g l p rd w = (Inl e, w'\<lparr>webhooks := webhooks w\<rparr>)"
      if "outcome (last (webhooks w')) = Some e" for e
      using that unfolding run undelivered by (simp add: wh)
    show "addAttachment outcome d c g l p rd w = (Inr r, w')"
      if "outcome (last (webhooks w')) = None"
      using that unfolding run by (simp add: wh)
  qed
qed

text \<open>
  C5 as stated fails on the code. In the example store, with a webhook fan-out that
  throws, pushing the attachment \<open>new.txt\<close> fails with the fan-out's error, after the
  row and the push event were written; with a fan-out that accepts, the same call
  returns the record.
\<close>

theorem webhook_failure_counterexample:
  "fst (addAttachment (\<lambda>_. Some (Error ''webhook delivery failed''))
          \<lparr>uai_file_name = ''new.txt''\<rparr> ''c1'' ''zendesk'' ''lu1'' ''p1'' False demo_world)
     = Inl (Error ''webhook delivery failed'')
   \<and> map att_file_name (tcg_attachments (snd
        (addAttachment (\<lambda>_. Some (Error ''webhook delivery failed''))
          \<lparr>uai_file_name = ''new.txt''\<rparr> ''c1'' ''zendesk'' ''lu1'' ''p1'' False demo_world)))
       = [''a2.txt'', ''a1.txt'', ''a3.txt'', ''new.txt'']
   \<and> map ev_type (events (snd
        (addAttachment (\<lambda>_. Some (Error ''webhook delivery failed''))
          \<lparr>uai_file_name = ''new.txt''\<rparr> ''c1'' ''zendesk'' ''lu1'' ''p1'' False demo_world)))
       = [''ticketing.attachment.push'']
   \<and> map uat_file_name (map projr [fst
        (addAttachment (\<lambda>_. None)
          \<lparr>uai_file_name = ''new.txt''\<rparr> ''c1'' ''zendesk'' ''lu1'' ''p1'' False demo_world)])
       = [''new.txt'']
   \<and> \<not> isl (fst
        (addAttachment (\<lambda>_. None)
          \<lparr>uai_file_name = ''new.txt''\<rparr> ''c1'' ''zendesk'' ''lu1'' ''p1'' False demo_world))"
  by code_simp

text \<open>
  In the example store the push of \<open>a1.txt\<close> returns the record when the fan-out
  accepts, so the theorem applies to the fan-out that throws.
\<close>

theorem webhook_failure_is_rethrown_witness:
  "addAttachment (\<lambda>_. Some (Error ''webhook delivery failed''))
       \<lparr>uai_file_name = ''a1.txt''\<rparr> ''c1'' ''zendesk'' ''lu1'' ''p1'' False demo_world
     = (Inl (Error ''webhook delivery failed''),
        (snd (addAttachment (\<lambda>_. None) \<lparr>uai_file_name = ''a1.txt''\<rparr> ''c1'' ''zendesk''
                ''lu1'' ''p1'' False demo_world))\<lparr>webhooks := []\<rparr>)
   \<and> map ev_type (events (snd (addAttachment (\<lambda>_. None) \<lparr>uai_file_name = ''a1.txt''\<rparr>
        ''c1'' ''zendesk'' ''lu1'' ''p1'' False demo_world)))
       = [''ticketing.attachment.push'']
   \<and> map att_modified_at (tcg_attachments (snd (addAttachment (\<lambda>_. None)
        \<lparr>uai_file_name = ''a1.txt''\<rparr> ''c1'' ''zendesk'' ''lu1'' ''p1'' False demo_world)))
       = [21, 1000, 31]"
proof -
  let ?ok = "addAttachment (\<lambda>_. None) \<lparr>uai_file_name = ''a1.txt''\<rparr> ''c1'' ''zendesk''
                ''lu1'' ''p1'' False demo_world"
  have "\<not> isl (fst ?ok)"
    by code_simp
  then have run: "?ok = (Inr (projr (fst ?ok)), snd ?ok)"
    by (cases "fst ?ok") (auto simp: prod_eq_iff)
  have f: "find (\<lambda>r. att_file_name r = uai_file_name \<lparr>uai_file_name = ''a1.txt''\<rparr>
                       \<and> att_id_connection r = ''c1'') (tcg_attachments demo_world)
      = Some (demo_attachment ''a1'' ''c1'' 11)"
    by (simp add: demo_world_def empty_world_def demo_attachment_def)
  have e: "events demo_world = []" and h: "webhooks demo_world = []"
    by (simp_all add: demo_world_def empty_world_def)
  note inst = webhook_failure_is_rethrown
    [OF run, of "\<lambda>_. Some (Error ''webhook delivery failed'')"]
  note rest = inst [THEN conjunct2]
  note evs = rest [THEN conjunct1]
  note evt = rest [THEN conjunct2, THEN conjunct1]
  note rows = rest [THEN conjunct2, THEN conjunct2, THEN conjunct2, THEN conjunct1]
  note fails = rest [THEN conjunct2, THEN conjunct2, THEN conjunct2, THEN conjunct2,
    THEN conjunct1, THEN spec, of "Error ''webhook delivery failed''", THEN mp, OF refl]
  have a: "addAttachment (\<lambda>_. Some (Error ''webhook delivery failed''))
       \<lparr>uai_file_name = ''a1.txt''\<rparr> ''c1'' ''zendesk'' ''lu1'' ''p1'' False demo_world
     = (Inl (Error ''webhook delivery failed''), (snd ?ok)\<lparr>webhooks := []\<rparr>)"
    using fails unfolding h .
  define ev where "ev = last (events (snd ?ok))"
  have "events (snd ?ok) = [ev]" and "ev_type ev = ''ticketing.attachment.push''"
    using evs evt unfolding e ev_def by simp_all
  then have b: "map ev_type (events (snd ?ok)) = [''ticketing.attachment.push'']"
    by simp
  have c: "map att_modified_at (tcg_attachments (snd ?ok)) = [21, 1000, 31]"
    unfolding rows f
    by (simp add: demo_world_def empty_world_def demo_attachment_def demo_clock_def)
  show ?thesis
    using a b c by simp
qed

end
